theory Spec2Isabelle
  imports Main "HOL-Library.Word"
begin

section \<open>Google charging policy manager (google_cpm.c)\<close>

text \<open>
  The driver state \<open>struct gcpm_drv\<close> is a record, every driver function takes the state
  and returns the updated one together with its C return value. The chargers, the mode
  votable and the PPS library (google_dc_pps) are collaborators outside the file: their
  answers come from an environment \<open>env\<close>, and every call that reaches them is appended
  to the \<open>calls\<close> log of the state, in program order.
\<close>

subsection \<open>Constants\<close>

abbreviation (input) ENOENT :: int where "ENOENT \<equiv> 2"
abbreviation (input) EIO :: int where "EIO \<equiv> 5"
abbreviation (input) EAGAIN :: int where "EAGAIN \<equiv> 11"
abbreviation (input) EBUSY :: int where "EBUSY \<equiv> 16"
abbreviation (input) ENODEV :: int where "ENODEV \<equiv> 19"
abbreviation (input) EINVAL :: int where "EINVAL \<equiv> 22"
abbreviation (input) ERANGE :: int where "ERANGE \<equiv> 34"

abbreviation (input) GCPM_DEFAULT_CHARGER :: int where "GCPM_DEFAULT_CHARGER \<equiv> 0"
abbreviation (input) GCPM_INDEX_DC_ENABLE :: int where "GCPM_INDEX_DC_ENABLE \<equiv> 1"
abbreviation (input) GCPM_MAX_CHARGERS :: nat where "GCPM_MAX_CHARGERS \<equiv> 4"

text \<open>\<open>enum gcpm_dc_state_t\<close>; the field \<open>dc_state\<close> is an \<open>int\<close> and is compared with
  \<open><=\<close> and \<open>>\<close>, so the enumerators stay numbers.\<close>

abbreviation (input) DC_DISABLED :: int where "DC_DISABLED \<equiv> - 1"
abbreviation (input) DC_IDLE :: int where "DC_IDLE \<equiv> 0"
abbreviation (input) DC_ENABLE :: int where "DC_ENABLE \<equiv> 1"
abbreviation (input) DC_RUNNING :: int where "DC_RUNNING \<equiv> 2"
abbreviation (input) DC_ENABLE_PASSTHROUGH :: int where "DC_ENABLE_PASSTHROUGH \<equiv> 3"
abbreviation (input) DC_PASSTHROUGH :: int where "DC_PASSTHROUGH \<equiv> 4"

abbreviation (input) DC_ENABLE_DELAY_MS :: int where "DC_ENABLE_DELAY_MS \<equiv> 5000"
abbreviation (input) DC_RUN_DELAY_MS :: int where "DC_RUN_DELAY_MS \<equiv> 9000"
abbreviation (input) PPS_ERROR_RETRY_MS :: int where "PPS_ERROR_RETRY_MS \<equiv> 1000"
abbreviation (input) DC_ERROR_RETRY_MS :: int where "DC_ERROR_RETRY_MS \<equiv> PPS_ERROR_RETRY_MS"
abbreviation (input) PPS_PROG_TIMEOUT_S :: int where "PPS_PROG_TIMEOUT_S \<equiv> 10"
abbreviation (input) PPS_PROG_RETRY_MS :: int where "PPS_PROG_RETRY_MS \<equiv> 5000"
abbreviation (input) PPS_ACTIVE_RETRY_MS :: int where "PPS_ACTIVE_RETRY_MS \<equiv> 1500"
abbreviation (input) PPS_ACTIVE_TIMEOUT_S :: int where "PPS_ACTIVE_TIMEOUT_S \<equiv> 25"

abbreviation (input) PPS_INDEX_TCPM :: int where "PPS_INDEX_TCPM \<equiv> 1"
abbreviation (input) PPS_INDEX_WLC :: int where "PPS_INDEX_WLC \<equiv> 2"
abbreviation (input) PPS_INDEX_MAX :: int where "PPS_INDEX_MAX \<equiv> 2"

abbreviation (input) GBMS_TAPER_CONTROL_OFF :: int where "GBMS_TAPER_CONTROL_OFF \<equiv> 0"

subsection \<open>Data\<close>

text \<open>The power supply properties the driver names; every other property is \<open>PROP_OTHER\<close>.\<close>

datatype psp =
    POWER_SUPPLY_PROP_ONLINE
  | POWER_SUPPLY_PROP_VOLTAGE_NOW
  | POWER_SUPPLY_PROP_VOLTAGE_MAX
  | POWER_SUPPLY_PROP_CONSTANT_CHARGE_VOLTAGE_MAX
  | POWER_SUPPLY_PROP_CONSTANT_CHARGE_CURRENT_MAX
  | POWER_SUPPLY_PROP_CURRENT_MAX
  | GBMS_PROP_CHARGING_ENABLED
  | GBMS_PROP_TAPER_CONTROL
  | GBMS_PROP_CHARGE_DISABLE
  | GBMS_PROP_CHARGE_CHARGER_STATE
  | PROP_OTHER nat

text \<open>The stages of a PPS session (\<open>enum pd_pps_stage\<close> of google_dc_pps.h).\<close>

datatype pd_pps_stage = PPS_NOTSUPP | PPS_DISABLED | PPS_NONE | PPS_AVAILABLE | PPS_ACTIVE

text \<open>The fields of \<open>struct pd_pps_data\<close> that google_cpm.c reads; \<open>pps_psy\<close> is whether
  the pointer is set.\<close>

record pd_pps_data =
  stage :: pd_pps_stage
  pps_psy :: bool
  pd_online :: int

text \<open>The two sessions the driver tracks: \<open>tcpm_pps_data\<close> and \<open>wlc_pps_data\<close>.\<close>

datatype pps_src = TCPM | WLC

datatype work = SELECT_WORK | PPS_WORK

text \<open>What the driver asks of its collaborators. A charger is named by its index in
  \<open>chg_psy_avail\<close>.\<close>

datatype call =
    Set_prop nat psp int
  | Gpio_set int int
  | Cast_vote bool
  | Pps_work pps_src
  | Pps_update_adapter pps_src
  | Pps_check_online pps_src
  | Pps_prog_offline pps_src
  | Pps_init_state pps_src
  | Mod_delayed_work work int
  | Schedule_delayed_work work int
  | Get_prop nat psp
  | Read_charger_state nat

text \<open>
  The answers of the collaborators. \<open>power_supply_set_property\<close> and
  \<open>power_supply_get_property\<close> give the kernel's result code (negative on error) for a
  charger, a property and a value; the \<open>pps_*\<close> fields are the functions of google_dc_pps,
  which may rewrite the session they are given.
\<close>

record env =
  power_supply_set_property :: "nat \<Rightarrow> psp \<Rightarrow> int \<Rightarrow> int"
  power_supply_get_property :: "nat \<Rightarrow> psp \<Rightarrow> int \<times> int"
  gvotable_election_get_handle :: bool
  gvotable_cast_vote :: "bool \<Rightarrow> int"
  pps_work :: "pps_src \<Rightarrow> pd_pps_data \<Rightarrow> int \<times> pd_pps_data"
  pps_update_adapter :: "pps_src \<Rightarrow> pd_pps_data \<Rightarrow> int \<times> pd_pps_data"
  pps_check_online :: "pps_src \<Rightarrow> pd_pps_data \<Rightarrow> bool"
  pps_prog_offline :: "pps_src \<Rightarrow> pd_pps_data \<Rightarrow> int \<times> pd_pps_data"
  pps_init_state :: "pps_src \<Rightarrow> pd_pps_data \<Rightarrow> pd_pps_data"
  gbms_read_charger_state :: "nat \<Rightarrow> int \<times> int"

text \<open>
  \<open>struct gcpm_drv\<close>. \<open>chg_psy_avail\<close> holds, per index, whether the charger was found
  (the pointer is not NULL); \<open>gbms_mode\<close> whether the votable handle is cached. The
  \<open>u32\<close> limits are kept as their values. The last two fields are the collaborators'
  side: \<open>chg_psy_online\<close> is, per charger, the ONLINE value it accepted last, and
  \<open>calls\<close> is the log of calls.
\<close>

record gcpm_drv =
  chg_psy_avail :: "bool list"
  chg_psy_active :: int
  chg_psy_count :: int
  force_active :: int
  tcpm_pps_data :: pd_pps_data
  wlc_pps_data :: pd_pps_data
  out_ua :: int
  out_uv :: int
  dcen_gpio :: int
  dcen_gpio_default :: int
  pps_index :: int
  dc_index :: int
  dc_state :: int
  dc_start_time :: int
  new_dc_limit :: bool
  taper_control :: bool
  dc_limit_vbatt_low :: int
  dc_limit_vbatt_min :: int
  dc_limit_vbatt_high :: int
  dc_limit_vbatt_max :: int
  dc_limit_demand :: int
  cc_max :: int
  fv_uv :: int
  dc_init_complete :: bool
  init_complete :: bool
  resume_complete :: bool
  gbms_mode :: bool
  chg_psy_online :: "bool list"
  calls :: "call list"

subsection \<open>Calls to the chargers\<close>

definition log_call :: "call \<Rightarrow> gcpm_drv \<Rightarrow> gcpm_drv" where
  "log_call c s = s\<lparr>calls := calls s @ [c]\<rparr>"

text \<open>A charger pointer is the index of the charger, \<open>None\<close> for NULL. The array has
  \<open>GCPM_MAX_CHARGERS\<close> entries; the driver range-checks an index before it stores it,
  and an index outside the array reads as NULL here.\<close>

definition chg_psy_at :: "gcpm_drv \<Rightarrow> int \<Rightarrow> nat option" where
  "chg_psy_at s i =
     (if 0 \<le> i \<and> nat i < length (chg_psy_avail s) \<and> chg_psy_avail s ! nat i
      then Some (nat i) else None)"

text \<open>\<open>power_supply_set_property\<close> on a charger: the call is logged; a charger that
  accepts a value for ONLINE is online from then on exactly when the value is not 0.\<close>

definition psy_set_property :: "env \<Rightarrow> nat \<Rightarrow> psp \<Rightarrow> int \<Rightarrow> gcpm_drv \<Rightarrow> int \<times> gcpm_drv" where
  "psy_set_property E p prop v s =
     (let rc = power_supply_set_property E p prop v;
          s1 = log_call (Set_prop p prop v) s
      in if rc < 0 then (rc, s1)
         else if prop = POWER_SUPPLY_PROP_ONLINE
         then (rc, s1\<lparr>chg_psy_online := (chg_psy_online s1)[p := (v \<noteq> 0)]\<rparr>)
         else (rc, s1))"

text \<open>Modelled from the spec: the macro \<open>GPSY_SET_PROP\<close> of google_psy.h, which is not
  among the sources. The spec gives the source collaborator
  \<open>set_property(key, value) -> ok | error\<close>: the result is 0 when the charger accepts the
  value and the charger's negative error code otherwise.\<close>

definition GPSY_SET_PROP :: "env \<Rightarrow> nat \<Rightarrow> psp \<Rightarrow> int \<Rightarrow> gcpm_drv \<Rightarrow> int \<times> gcpm_drv" where
  "GPSY_SET_PROP E p prop v s =
     (let (rc, s1) = psy_set_property E p prop v s
      in (if rc < 0 then rc else 0, s1))"

text \<open>Modelled from the spec: the macro \<open>GPSY_GET_PROP\<close> of google_psy.h, which is not
  among the sources. The spec gives \<open>get_property(key) -> value | error\<close>: the value read,
  or the negative error code.\<close>

definition GPSY_GET_PROP :: "env \<Rightarrow> nat \<Rightarrow> psp \<Rightarrow> int" where
  "GPSY_GET_PROP E p prop =
     (let (rc, v) = power_supply_get_property E p prop in if rc < 0 then rc else v)"

subsection \<open>Source registry\<close>

definition gcpm_chg_get_default :: "gcpm_drv \<Rightarrow> nat option" where
  "gcpm_chg_get_default s = chg_psy_at s GCPM_DEFAULT_CHARGER"

definition gcpm_chg_get_active :: "gcpm_drv \<Rightarrow> nat option" where
  "gcpm_chg_get_active s =
     (if chg_psy_active s = - 1 then None else chg_psy_at s (chg_psy_active s))"

text \<open>The parameter \<open>online\<close> is not used by the source: the ping writes ONLINE 0.\<close>

definition gcpm_chg_ping :: "env \<Rightarrow> int \<Rightarrow> bool \<Rightarrow> gcpm_drv \<Rightarrow> int \<times> gcpm_drv" where
  "gcpm_chg_ping E index online s =
     (case chg_psy_at s index of
        None \<Rightarrow> (0, s)
      | Some chg_psy \<Rightarrow>
          (let (ret, s1) = GPSY_SET_PROP E chg_psy POWER_SUPPLY_PROP_ONLINE 0 s
           in (0, s1)))"

definition gcpm_chg_offline :: "env \<Rightarrow> gcpm_drv \<Rightarrow> int \<times> gcpm_drv" where
  "gcpm_chg_offline E s =
     (case gcpm_chg_get_active s of
        None \<Rightarrow> (0, s)
      | Some chg_psy \<Rightarrow>
          (let (ret, s1) = GPSY_SET_PROP E chg_psy GBMS_PROP_CHARGING_ENABLED 0 s;
               (ret, s2) = (if ret = 0 then GPSY_SET_PROP E chg_psy POWER_SUPPLY_PROP_ONLINE 0 s1
                            else (ret, s1));
               s3 = (if ret = 0 then s2\<lparr>chg_psy_active := - 1\<rparr> else s2)
           in (ret, s3)))"

definition gcpm_chg_set_online :: "env \<Rightarrow> int \<Rightarrow> gcpm_drv \<Rightarrow> int \<times> gcpm_drv" where
  "gcpm_chg_set_online E index s =
     (let index_old = chg_psy_active s in
      if index < 0 \<or> index \<ge> chg_psy_count s then (- ERANGE, s)
      else if index = index_old then (0, s)
      else (case chg_psy_at s index of
              None \<Rightarrow> (- EINVAL, s)
            | Some active \<Rightarrow>
                (let (ret, s1) = gcpm_chg_offline E s in
                 if ret < 0 then (- EIO, s1)
                 else (let (ret, s2) = GPSY_SET_PROP E active POWER_SUPPLY_PROP_ONLINE 1 s1 in
                       if ret < 0 then (ret, s2)
                       else (ret, s2\<lparr>chg_psy_active := index\<rparr>)))))"

subsection \<open>Direct charge on and off\<close>

definition gcpm_dc_enable :: "env \<Rightarrow> bool \<Rightarrow> gcpm_drv \<Rightarrow> int \<times> gcpm_drv" where
  "gcpm_dc_enable E enabled s =
     (if \<not> gbms_mode s \<and> \<not> gvotable_election_get_handle E then (- ENODEV, s)
      else (gvotable_cast_vote E enabled, log_call (Cast_vote enabled) (s\<lparr>gbms_mode := True\<rparr>)))"

definition dcen_gpio_set :: "int \<Rightarrow> gcpm_drv \<Rightarrow> gcpm_drv" where
  "dcen_gpio_set v s =
     (if dcen_gpio s \<ge> 0 \<and> dcen_gpio_default s = 0 then log_call (Gpio_set (dcen_gpio s) v) s
      else s)"

text \<open>\<open>gcpm_dc_stop\<close>: the \<open>switch\<close> falls through from the DC_RUNNING/DC_PASSTHROUGH case
  to the DC_ENABLE/DC_ENABLE_PASSTHROUGH case and from there to \<open>default\<close>; each case
  label is a function here.\<close>

definition gcpm_dc_stop_default :: "int \<Rightarrow> gcpm_drv \<Rightarrow> int \<times> gcpm_drv" where
  "gcpm_dc_stop_default final_state s = (0, s\<lparr>dc_state := final_state\<rparr>)"

definition gcpm_dc_stop_enable :: "env \<Rightarrow> int \<Rightarrow> gcpm_drv \<Rightarrow> int \<times> gcpm_drv" where
  "gcpm_dc_stop_enable E final_state s =
     (let (ret, s1) = gcpm_chg_set_online E 0 s in
      if ret < 0 then (ret, s1) else gcpm_dc_stop_default final_state s1)"

definition gcpm_dc_stop :: "env \<Rightarrow> int \<Rightarrow> gcpm_drv \<Rightarrow> int \<times> gcpm_drv" where
  "gcpm_dc_stop E final_state s =
     (let s0 = dcen_gpio_set 0 s in
      if dc_state s0 = DC_RUNNING \<or> dc_state s0 = DC_PASSTHROUGH then
        (let (ret, s1) = gcpm_dc_enable E False s0 in
         if ret < 0 then (ret, s1)
         else gcpm_dc_stop_enable E final_state (s1\<lparr>dc_state := DC_ENABLE\<rparr>))
      else if dc_state s0 = DC_ENABLE \<or> dc_state s0 = DC_ENABLE_PASSTHROUGH then
        gcpm_dc_stop_enable E final_state s0
      else gcpm_dc_stop_default final_state s0)"

definition gcpm_dc_start :: "env \<Rightarrow> int \<Rightarrow> gcpm_drv \<Rightarrow> int \<times> gcpm_drv" where
  "gcpm_dc_start E index s =
     (let (ret, s1) = gcpm_chg_set_online E index s in
      if ret < 0 then (ret, s1)
      else (case gcpm_chg_get_active s1 of
              None \<Rightarrow> (- ENODEV, s1)
            | Some dc_psy \<Rightarrow>
                (let (ret, s2) = GPSY_SET_PROP E dc_psy
                                   POWER_SUPPLY_PROP_CONSTANT_CHARGE_VOLTAGE_MAX (fv_uv s1) s1 in
                 if ret < 0 then (ret, s2)
                 else (let (ret, s3) = GPSY_SET_PROP E dc_psy
                                   POWER_SUPPLY_PROP_CONSTANT_CHARGE_CURRENT_MAX (cc_max s2) s2 in
                 if ret < 0 then (ret, s3)
                 else (let (ret, s4) = GPSY_SET_PROP E dc_psy
                                   POWER_SUPPLY_PROP_CURRENT_MAX (out_ua s3) s3 in
                 if ret < 0 then (ret, s4)
                 else (let s5 = dcen_gpio_set 1 s4;
                           (ret, s6) = gcpm_dc_enable E True s5 in
                 if ret < 0 then (ret, s6)
                 else (0, s6)))))))"

subsection \<open>Selection policy\<close>

text \<open>C conversions between \<open>int\<close> and \<open>u32\<close>: the value modulo \<open>2^32\<close>, read as signed
  or unsigned.\<close>

definition s32 :: "int \<Rightarrow> int" where
  "s32 x = (x + 2147483648) mod 4294967296 - 2147483648"

definition u32 :: "int \<Rightarrow> int" where
  "u32 x = x mod 4294967296"

text \<open>The last check of \<open>gcpm_chg_select\<close>: an index past the registry is the default.\<close>

definition gcpm_chg_select_bounds :: "gcpm_drv \<Rightarrow> int \<Rightarrow> int" where
  "gcpm_chg_select_bounds s index =
     (if index \<ge> chg_psy_count s then GCPM_DEFAULT_CHARGER else index)"

text \<open>
  \<open>gcpm_chg_select\<close> takes the driver state \<open>const\<close>: it returns the index and changes
  nothing; its one read of the battery voltage goes through \<open>GPSY_GET_PROP\<close>.
  \<open>cc_max\<close> and \<open>fv_uv\<close> are positive where they are divided, so C's truncating
  division is \<open>div\<close>. The comparison of the \<open>int\<close> demand with the \<open>u32\<close> limit is unsigned.
\<close>

definition gcpm_chg_select :: "env \<Rightarrow> gcpm_drv \<Rightarrow> int" where
  "gcpm_chg_select E s =
     (let vbatt_min = s32 (dc_limit_vbatt_min s);
          vbatt_max = s32 (dc_limit_vbatt_max s) in
      if force_active s \<ge> 0 then force_active s
      else if cc_max s \<le> 0 \<or> fv_uv s \<le> 0 then GCPM_DEFAULT_CHARGER
      else
        (let batt_demand = s32 ((cc_max s div 1000) * (fv_uv s div 1000));
             index = (if u32 batt_demand > u32 (dc_limit_demand s)
                      then GCPM_INDEX_DC_ENABLE else GCPM_DEFAULT_CHARGER) in
         case (if vbatt_max \<noteq> 0 \<or> vbatt_min \<noteq> 0 then gcpm_chg_get_default s else None) of
           None \<Rightarrow> gcpm_chg_select_bounds s index
         | Some chg_psy \<Rightarrow>
             (let vbatt_high = s32 (dc_limit_vbatt_high s);
                  vbatt_low = s32 (dc_limit_vbatt_low s);
                  vbatt = GPSY_GET_PROP E chg_psy POWER_SUPPLY_PROP_VOLTAGE_NOW in
              if vbatt < 0 then dc_index s
              else if vbatt_low \<noteq> 0 \<and> vbatt < vbatt_low then - EAGAIN
              else gcpm_chg_select_bounds s
                (if vbatt_min \<noteq> 0 \<and> vbatt < vbatt_min then
                   (if dc_index s = GCPM_DEFAULT_CHARGER then - EAGAIN else dc_index s)
                 else if vbatt_high \<noteq> 0 \<and> vbatt > vbatt_high then dc_index s
                 else if vbatt_max \<noteq> 0 \<and> vbatt > vbatt_max then GCPM_DEFAULT_CHARGER
                 else if vbatt_min \<noteq> 0 \<and> vbatt > vbatt_min then GCPM_INDEX_DC_ENABLE
                 else index))))"

definition gcpm_chg_dc_check_source :: "gcpm_drv \<Rightarrow> int \<Rightarrow> bool" where
  "gcpm_chg_dc_check_source s index =
     (if taper_control s then False
      else if stage (tcpm_pps_data s) = PPS_NOTSUPP \<and> stage (wlc_pps_data s) = PPS_NOTSUPP
      then False
      else index = GCPM_INDEX_DC_ENABLE)"

subsection \<open>PPS sessions\<close>

definition pps_data_of :: "gcpm_drv \<Rightarrow> pps_src \<Rightarrow> pd_pps_data" where
  "pps_data_of s src = (case src of TCPM \<Rightarrow> tcpm_pps_data s | WLC \<Rightarrow> wlc_pps_data s)"

definition pps_data_set :: "pps_src \<Rightarrow> pd_pps_data \<Rightarrow> gcpm_drv \<Rightarrow> gcpm_drv" where
  "pps_data_set src d s =
     (case src of TCPM \<Rightarrow> s\<lparr>tcpm_pps_data := d\<rparr> | WLC \<Rightarrow> s\<lparr>wlc_pps_data := d\<rparr>)"

text \<open>A call of a google_dc_pps function on one of the two sessions: the call is logged,
  the session is replaced by what the function made of it, the result is returned.\<close>

definition pps_call ::
  "call \<Rightarrow> (pd_pps_data \<Rightarrow> int \<times> pd_pps_data) \<Rightarrow> pps_src \<Rightarrow> gcpm_drv \<Rightarrow> int \<times> gcpm_drv" where
  "pps_call c f src s =
     (let (ret, d) = f (pps_data_of s src) in (ret, log_call c (pps_data_set src d s)))"

definition gcpm_pps_init_state :: "env \<Rightarrow> pps_src \<Rightarrow> gcpm_drv \<Rightarrow> gcpm_drv" where
  "gcpm_pps_init_state E src s =
     log_call (Pps_init_state src) (pps_data_set src (pps_init_state E src (pps_data_of s src)) s)"

definition gcpm_pps_online :: "env \<Rightarrow> gcpm_drv \<Rightarrow> gcpm_drv" where
  "gcpm_pps_online E s =
     (let s1 = s\<lparr>out_ua := - 1, out_uv := - 1\<rparr>;
          s2 = (if pps_psy (tcpm_pps_data s1) then gcpm_pps_init_state E TCPM s1 else s1);
          s3 = (if pps_psy (wlc_pps_data s2) then gcpm_pps_init_state E WLC s2 else s2)
      in s3\<lparr>pps_index := 0\<rparr>)"

text \<open>\<open>gcpm_pps_data\<close> returns a pointer to one of the two sessions, or NULL.\<close>

definition gcpm_pps_data :: "gcpm_drv \<Rightarrow> pps_src option" where
  "gcpm_pps_data s =
     (if pps_index s = PPS_INDEX_TCPM then Some TCPM
      else if pps_index s = PPS_INDEX_WLC then Some WLC
      else None)"

text \<open>One half of \<open>gcpm_pps_work\<close>: the step of one session. It returns the session's
  index when the step did not fail and left the session active, and otherwise the index
  it was given; the second component counts a session that is not supported.\<close>

definition gcpm_pps_work_src ::
  "env \<Rightarrow> pps_src \<Rightarrow> int \<Rightarrow> int \<Rightarrow> gcpm_drv \<Rightarrow> (int \<times> int) \<times> gcpm_drv" where
  "gcpm_pps_work_src E src this_index pps_index0 s =
     (if stage (pps_data_of s src) \<noteq> PPS_NOTSUPP then
        (let (pps_ui, s1) = pps_call (Pps_work src) (pps_work E src) src s in
         ((if pps_ui \<ge> 0 \<and> stage (pps_data_of s1 src) = PPS_ACTIVE then this_index
           else pps_index0, 0), s1))
      else ((pps_index0, 1), s))"

definition gcpm_pps_work :: "env \<Rightarrow> gcpm_drv \<Rightarrow> int \<times> gcpm_drv" where
  "gcpm_pps_work E s =
     (let ((pps_index1, ns1), s1) = gcpm_pps_work_src E TCPM PPS_INDEX_TCPM 0 s;
          ((pps_index2, ns2), s2) = gcpm_pps_work_src E WLC PPS_INDEX_WLC pps_index1 s1;
          not_supported = ns1 + ns2 in
      if not_supported = PPS_INDEX_MAX then (- ENODEV, s2)
      else (let ret = (if pps_index s2 \<noteq> 0 \<and> pps_index2 = 0 then - ENODEV else 0)
            in (ret, s2\<lparr>pps_index := pps_index2\<rparr>)))"

definition gcpm_pps_offline_src :: "env \<Rightarrow> pps_src \<Rightarrow> gcpm_drv \<Rightarrow> gcpm_drv" where
  "gcpm_pps_offline_src E src s =
     (if pps_psy (pps_data_of s src)
      then snd (pps_call (Pps_prog_offline src) (pps_prog_offline E src) src s)
      else s)"

definition gcpm_pps_offline :: "env \<Rightarrow> gcpm_drv \<Rightarrow> int \<times> gcpm_drv" where
  "gcpm_pps_offline E s =
     (let s1 = gcpm_pps_offline_src E TCPM s;
          s2 = gcpm_pps_offline_src E WLC s1
      in (0, s2\<lparr>pps_index := 0\<rparr>))"

subsection \<open>The selection work\<close>

text \<open>\<open>gcpm_chg_select_work\<close>, from \<open>mutex_lock\<close> to \<open>mutex_unlock\<close>.\<close>

definition gcpm_chg_select_work :: "env \<Rightarrow> int \<Rightarrow> gcpm_drv \<Rightarrow> gcpm_drv" where
  "gcpm_chg_select_work E now s =
     (let index0 = gcpm_chg_select E s;
          index = (if taper_control s then GCPM_DEFAULT_CHARGER else index0);
          dc_done = taper_control s in
      if \<not> taper_control s \<and> index0 < 0
      then log_call (Schedule_delayed_work SELECT_WORK (5 * 1000)) s
      else
        (let dc_ena = gcpm_chg_dc_check_source s index;
             (schedule_pps_interval, s1) =
               (if \<not> dc_ena then
                  (if dc_state s > DC_IDLE \<and> dc_index s > 0
                   then (0, s\<lparr>dc_index := (if dc_done then - 1 else GCPM_DEFAULT_CHARGER)\<rparr>)
                   else (- 1, s))
                else if dc_state s = DC_DISABLED then (- 1, s)
                else if dc_state s = DC_IDLE then
                  (5000, (gcpm_pps_online E s)
                           \<lparr>dc_state := DC_ENABLE_PASSTHROUGH, dc_index := index,
                            dc_start_time := now\<rparr>)
                else (- 1, s))
         in if schedule_pps_interval \<ge> 0
            then log_call (Mod_delayed_work PPS_WORK schedule_pps_interval) s1
            else s1))"

subsection \<open>The PPS and direct charge work\<close>

text \<open>The label \<open>pps_dc_reschedule\<close> of \<open>gcpm_pps_wlc_dc_work\<close>: the work runs again
  after \<open>pps_ui\<close> milliseconds when \<open>pps_ui\<close> is positive, and is not rescheduled
  otherwise.\<close>

definition pps_dc_reschedule :: "int \<Rightarrow> gcpm_drv \<Rightarrow> gcpm_drv" where
  "pps_dc_reschedule pps_ui s =
     (if pps_ui \<le> 0 then s else log_call (Schedule_delayed_work PPS_WORK pps_ui) s)"

text \<open>The block under \<open>if (gcpm->dc_index <= 0)\<close>: disable DC, then PPS.\<close>

definition gcpm_dc_work_disable :: "env \<Rightarrow> gcpm_drv \<Rightarrow> gcpm_drv" where
  "gcpm_dc_work_disable E s =
     (if dc_state s \<le> DC_IDLE then s
      else
        (let (ret, s1) = gcpm_dc_stop E DC_DISABLED s in
         if ret < 0 then pps_dc_reschedule DC_ERROR_RETRY_MS s1
         else
           (let (ret, s2) = gcpm_pps_offline E s1 in
            if ret < 0 then pps_dc_reschedule PPS_ERROR_RETRY_MS s2
            else if dc_index s2 = GCPM_DEFAULT_CHARGER then s2\<lparr>dc_state := DC_IDLE\<rparr>
            else s2)))"

text \<open>The block under \<open>if (gcpm->dc_state == DC_PASSTHROUGH)\<close>.\<close>

definition gcpm_dc_work_passthrough :: "env \<Rightarrow> gcpm_drv \<Rightarrow> gcpm_drv" where
  "gcpm_dc_work_passthrough E s =
     (let (prog_online, s1) =
            (case gcpm_pps_data s of
               None \<Rightarrow> (False, s)
             | Some src \<Rightarrow> (pps_check_online E src (pps_data_of s src),
                            log_call (Pps_check_online src) s)) in
      if \<not> prog_online then pps_dc_reschedule DC_ERROR_RETRY_MS (s1\<lparr>dc_index := 0\<rparr>)
      else
        (case gcpm_chg_get_active s1 of
           None \<Rightarrow> pps_dc_reschedule DC_ERROR_RETRY_MS s1
         | Some dc_psy \<Rightarrow>
             (let index = gcpm_chg_select E s1;
                  s2 = (if index \<noteq> dc_index s1
                        then log_call (Mod_delayed_work SELECT_WORK 0) s1 else s1);
                  (ret, s3) = GPSY_SET_PROP E dc_psy GBMS_PROP_CHARGING_ENABLED (pps_index s2) s2 in
              if ret = 0 then
                (let (ret, s4) = gcpm_chg_ping E GCPM_DEFAULT_CHARGER False s3
                 in pps_dc_reschedule DC_RUN_DELAY_MS s4)
              else if ret = - EBUSY \<or> ret = - EAGAIN then pps_dc_reschedule DC_ERROR_RETRY_MS s3
              else
                (let (ret, s4) = gcpm_chg_set_online E GCPM_DEFAULT_CHARGER s3 in
                 if ret < 0 then pps_dc_reschedule DC_ERROR_RETRY_MS s4
                 else pps_dc_reschedule 0 s4))))"

text \<open>The block under \<open>if (gcpm->dc_state == DC_ENABLE_PASSTHROUGH)\<close>: one more PPS
  update, then the hand-over to the DC charger \<open>dc_index\<close>.\<close>

definition gcpm_dc_work_enable_passthrough :: "env \<Rightarrow> pps_src \<Rightarrow> gcpm_drv \<Rightarrow> gcpm_drv" where
  "gcpm_dc_work_enable_passthrough E src s =
     (let (pps_ui0, s1) = pps_call (Pps_update_adapter src) (pps_update_adapter E src) src s;
          pps_ui = (if pps_ui0 < 0 then PPS_ERROR_RETRY_MS else pps_ui0);
          (ret, s2) = gcpm_chg_offline E s1;
          (ret, s3) = (if ret = 0 then gcpm_dc_start E (dc_index s2) s2 else (ret, s2)) in
      if ret = 0 then pps_dc_reschedule DC_ENABLE_DELAY_MS (s3\<lparr>dc_state := DC_PASSTHROUGH\<rparr>)
      else if pps_ui > DC_ERROR_RETRY_MS then pps_dc_reschedule DC_ERROR_RETRY_MS s3
      else pps_dc_reschedule pps_ui s3)"

text \<open>The final \<open>else\<close>: steady on PPS in DC_ENABLE or DC_RUNNING.\<close>

definition gcpm_dc_work_steady :: "env \<Rightarrow> pps_src \<Rightarrow> gcpm_drv \<Rightarrow> gcpm_drv" where
  "gcpm_dc_work_steady E src s =
     (let (pps_ui, s1) = pps_call (Pps_update_adapter src) (pps_update_adapter E src) src s
      in pps_dc_reschedule (if pps_ui < 0 then PPS_ERROR_RETRY_MS else pps_ui) s1)"

text \<open>\<open>gcpm_pps_wlc_dc_work\<close>; \<open>now\<close> is \<open>get_boot_sec()\<close> at entry.\<close>

definition gcpm_pps_wlc_dc_work :: "env \<Rightarrow> int \<Rightarrow> gcpm_drv \<Rightarrow> gcpm_drv" where
  "gcpm_pps_wlc_dc_work E now s =
     (let elap = now - dc_start_time s in
      if \<not> resume_complete s \<or> \<not> init_complete s then s
      else if dc_index s \<le> 0 then gcpm_dc_work_disable E s
      else if dc_state s = DC_PASSTHROUGH then gcpm_dc_work_passthrough E s
      else
        (let (ret, s1) = gcpm_pps_work E s in
         if ret < 0 then
           (if elap < PPS_PROG_TIMEOUT_S
            then pps_dc_reschedule PPS_PROG_RETRY_MS (gcpm_pps_online E s1)
            else pps_dc_reschedule PPS_ERROR_RETRY_MS (s1\<lparr>dc_index := 0\<rparr>))
         else
           (case gcpm_pps_data s1 of
              None \<Rightarrow>
                (if elap < PPS_ACTIVE_TIMEOUT_S then pps_dc_reschedule PPS_ACTIVE_RETRY_MS s1
                 else pps_dc_reschedule PPS_ERROR_RETRY_MS (s1\<lparr>dc_index := 0\<rparr>))
            | Some src \<Rightarrow>
                (if dc_state s1 = DC_ENABLE_PASSTHROUGH
                 then gcpm_dc_work_enable_passthrough E src s1
                 else gcpm_dc_work_steady E src s1))))"

subsection \<open>The power supply interface\<close>

text \<open>The \<open>switch (psp)\<close> of \<open>gcpm_psy_set_property\<close>: the property to route (VOLTAGE_MAX
  is rewritten), \<open>ta_check\<close>, \<open>route\<close> and the state with the demand recorded.\<close>

definition gcpm_psy_set_switch ::
  "psp \<Rightarrow> int \<Rightarrow> gcpm_drv \<Rightarrow> psp \<times> bool \<times> bool \<times> gcpm_drv" where
  "gcpm_psy_set_switch prop intval s =
     (case prop of
        GBMS_PROP_TAPER_CONTROL \<Rightarrow>
          (let taper = (intval \<noteq> GBMS_TAPER_CONTROL_OFF)
           in (prop, taper \<noteq> taper_control s, False, s\<lparr>taper_control := taper\<rparr>))
      | GBMS_PROP_CHARGE_DISABLE \<Rightarrow> (prop, True, True, s)
      | POWER_SUPPLY_PROP_ONLINE \<Rightarrow> (prop, True, True, s)
      | POWER_SUPPLY_PROP_VOLTAGE_MAX \<Rightarrow>
          (POWER_SUPPLY_PROP_CONSTANT_CHARGE_VOLTAGE_MAX, fv_uv s \<noteq> intval, True,
           s\<lparr>fv_uv := intval\<rparr>)
      | POWER_SUPPLY_PROP_CONSTANT_CHARGE_VOLTAGE_MAX \<Rightarrow>
          (prop, fv_uv s \<noteq> intval, True, s\<lparr>fv_uv := intval\<rparr>)
      | POWER_SUPPLY_PROP_CONSTANT_CHARGE_CURRENT_MAX \<Rightarrow>
          (prop, cc_max s \<noteq> intval, True, s\<lparr>cc_max := intval\<rparr>)
      | _ \<Rightarrow> (prop, False, True, s))"

definition gcpm_psy_set_property :: "env \<Rightarrow> psp \<Rightarrow> int \<Rightarrow> gcpm_drv \<Rightarrow> int \<times> gcpm_drv" where
  "gcpm_psy_set_property E prop intval s =
     (if \<not> init_complete s \<or> \<not> resume_complete s then (- EAGAIN, s)
      else
        (let (prop1, ta_check, route, s1) = gcpm_psy_set_switch prop intval s;
             (ta_check, s2) = (if new_dc_limit s1 then (True, s1\<lparr>new_dc_limit := False\<rparr>)
                               else (ta_check, s1));
             s3 = (if dc_init_complete s2 \<and> ta_check
                   then log_call (Mod_delayed_work SELECT_WORK 0) s2 else s2) in
         if \<not> route then (0, s3)
         else (case gcpm_chg_get_active s3 of
                 None \<Rightarrow> (0, s3)
               | Some chg_psy \<Rightarrow> psy_set_property E chg_psy prop1 intval s3)))"

definition gcpm_get_charger_state :: "env \<Rightarrow> nat \<Rightarrow> int" where
  "gcpm_get_charger_state E chg_psy =
     (let (rc, v) = gbms_read_charger_state E chg_psy in if rc < 0 then 0 else v)"

text \<open>\<open>gcpm_psy_get_property\<close> returns its result code and what it stored in \<open>*pval\<close>
  (\<open>None\<close> when it stored nothing).\<close>

definition gcpm_psy_get_property :: "env \<Rightarrow> psp \<Rightarrow> gcpm_drv \<Rightarrow> (int \<times> int option) \<times> gcpm_drv" where
  "gcpm_psy_get_property E prop s =
     (if \<not> init_complete s \<or> \<not> resume_complete s then ((- EAGAIN, None), s)
      else (case gcpm_chg_get_active s of
              None \<Rightarrow> ((- ENODEV, None), s)
            | Some chg_psy \<Rightarrow>
                (if prop = GBMS_PROP_CHARGE_CHARGER_STATE
                 then ((0, Some (gcpm_get_charger_state E chg_psy)),
                       log_call (Read_charger_state chg_psy) s)
                 else (let (rc, v) = power_supply_get_property E chg_psy prop
                       in ((rc, Some v), log_call (Get_prop chg_psy prop) s)))))"

section \<open>MAX77779 scratch space (max77779_sp.c)\<close>

unbundle bit_operations_syntax

abbreviation (input) RSBM_ADDR :: nat where "RSBM_ADDR \<equiv> 0"
abbreviation (input) RSBR_ADDR :: nat where "RSBR_ADDR \<equiv> 4"
abbreviation (input) SUFG_ADDR :: nat where "SUFG_ADDR \<equiv> 8"
abbreviation (input) RS_TAG_LENGTH :: nat where "RS_TAG_LENGTH \<equiv> 4"
abbreviation (input) SU_TAG_LENGTH :: nat where "SU_TAG_LENGTH \<equiv> 1"
abbreviation (input) OPCODE_USER_SPACE_R_RES_LEN :: nat where "OPCODE_USER_SPACE_R_RES_LEN \<equiv> 32"
abbreviation (input) MAX77779_SP_DATA :: nat where "MAX77779_SP_DATA \<equiv> 128"

text \<open>\<open>gbms_tag_t\<close> of gbms_storage.h: the four tags the driver serves, and every other
  tag value.\<close>

datatype gbms_tag =
  GBMS_TAG_RS32 | GBMS_TAG_RSBM | GBMS_TAG_RSBR | GBMS_TAG_SUFG | GBMS_TAG_OTHER nat

text \<open>A register of the regmap: the page control register (its address is in
  max77779_regs.h) or a data register by address.\<close>

datatype sp_reg = MAX77779_SP_PAGE_CTRL | SP_REG nat

datatype regmap_call =
    Regmap_write sp_reg "32 word"
  | Regmap_read sp_reg
  | Regmap_bulk_read sp_reg nat
  | Regmap_bulk_write sp_reg "8 word list" nat

text \<open>The regmap is the kernel's: its functions answer with a result code (negative on
  error), \<open>regmap_read\<close> also with the value read, \<open>regmap_bulk_read\<close> with the bytes it
  left in the buffer it was given.\<close>

record regmap_env =
  regmap_write :: "sp_reg \<Rightarrow> 32 word \<Rightarrow> int"
  regmap_read :: "sp_reg \<Rightarrow> int \<times> 32 word"
  regmap_bulk_read :: "sp_reg \<Rightarrow> nat \<Rightarrow> 8 word list \<Rightarrow> int \<times> 8 word list"
  regmap_bulk_write :: "sp_reg \<Rightarrow> 8 word list \<Rightarrow> nat \<Rightarrow> int"

text \<open>What a storage operation works on: the caller's buffer and the log of register
  accesses.\<close>

record sp_io =
  buff :: "8 word list"
  regmap_calls :: "regmap_call list"

definition log_regmap :: "regmap_call \<Rightarrow> sp_io \<Rightarrow> sp_io" where
  "log_regmap c io = io\<lparr>regmap_calls := regmap_calls io @ [c]\<rparr>"

text \<open>A byte of the caller's buffer; the callers pass a buffer of at least the bytes
  that are read or stored, and here a byte past the list reads as 0 and a store past
  the list is dropped.\<close>

definition buff_at :: "8 word list \<Rightarrow> nat \<Rightarrow> 8 word" where
  "buff_at b i = (if i < length b then b ! i else 0)"

text \<open>The range check shared by \<open>max77779_sp_rd\<close> and \<open>max77779_sp_wr\<close>.\<close>

definition sp_out_of_range :: "nat \<Rightarrow> nat \<Rightarrow> bool" where
  "sp_out_of_range offset count = ((count > 2 \<and> odd count) \<or> offset + count > 127)"

text \<open>\<open>offset & ~1\<close>: the offset with bit 0 cleared.\<close>

definition sp_base :: "nat \<Rightarrow> sp_reg" where
  "sp_base offset = SP_REG (MAX77779_SP_DATA + (offset - offset mod 2))"

text \<open>\<open>max77779_sp_rd\<close>. A 16 bit store into the byte buffer is little-endian.\<close>

definition max77779_sp_rd :: "regmap_env \<Rightarrow> nat \<Rightarrow> nat \<Rightarrow> sp_io \<Rightarrow> int \<times> sp_io" where
  "max77779_sp_rd R addr count io =
     (let page = addr div 256; offset = addr mod 256; base = sp_base offset in
      if sp_out_of_range offset count then (- ERANGE, io)
      else
        (let ret = regmap_write R MAX77779_SP_PAGE_CTRL (of_nat page);
             io1 = log_regmap (Regmap_write MAX77779_SP_PAGE_CTRL (of_nat page)) io in
         if ret < 0 then (ret, io1)
         else if count > 2 then
           (let (ret, b) = regmap_bulk_read R base count (buff io1)
            in (ret, log_regmap (Regmap_bulk_read base count) (io1\<lparr>buff := b\<rparr>)))
         else if count \<noteq> 0 then
           (let (ret, tmp) = regmap_read R base;
                io2 = log_regmap (Regmap_read base) io1 in
            if ret < 0 then (ret, io2)
            else if count = 1 then
              (if odd offset
               then (ret, io2\<lparr>buff := (buff io2)[0 := ucast (drop_bit 8 tmp AND 255)]\<rparr>)
               else (ret, io2\<lparr>buff := (buff io2)[0 := ucast (255 AND tmp)]\<rparr>))
            else (ret, io2\<lparr>buff := (buff io2)[0 := ucast (65535 AND tmp),
                                                 1 := ucast (drop_bit 8 (65535 AND tmp))]\<rparr>))
         else (ret, io1)))"

text \<open>\<open>max77779_sp_wr\<close>.\<close>

definition max77779_sp_wr :: "regmap_env \<Rightarrow> nat \<Rightarrow> nat \<Rightarrow> sp_io \<Rightarrow> int \<times> sp_io" where
  "max77779_sp_wr R addr count io =
     (let page = addr div 256; offset = addr mod 256; base = sp_base offset in
      if sp_out_of_range offset count then (- ERANGE, io)
      else
        (let ret = regmap_write R MAX77779_SP_PAGE_CTRL (of_nat page);
             io1 = log_regmap (Regmap_write MAX77779_SP_PAGE_CTRL (of_nat page)) io in
         if ret < 0 then (ret, io1)
         else if count > 2 then
           (regmap_bulk_write R base (buff io1) count,
            log_regmap (Regmap_bulk_write base (buff io1) count) io1)
         else if count = 1 then
           (let (ret, tmp0) = regmap_read R base;
                io2 = log_regmap (Regmap_read base) io1 in
            if ret < 0 then (ret, io2)
            else
              (let sh = (offset mod 2) * 8;
                   tmp = (tmp0 AND NOT (push_bit sh 255)) OR push_bit sh (ucast (buff_at (buff io2) 0))
               in (regmap_write R base tmp, log_regmap (Regmap_write base tmp) io2)))
         else
           (let tmp = ucast (buff_at (buff io1) 0) OR push_bit 8 (ucast (buff_at (buff io1) 1))
            in (regmap_write R base tmp, log_regmap (Regmap_write base tmp) io1))))"

text \<open>\<open>max77779_sp_info\<close>: the error code, or the address stored in \<open>*addr\<close>.\<close>

definition max77779_sp_info :: "gbms_tag \<Rightarrow> nat \<Rightarrow> int + nat" where
  "max77779_sp_info tag sz =
     (case tag of
        GBMS_TAG_RS32 \<Rightarrow>
          if sz \<noteq> 0 \<and> sz > OPCODE_USER_SPACE_R_RES_LEN then Inl (- EINVAL) else Inr RSBM_ADDR
      | GBMS_TAG_RSBM \<Rightarrow>
          if sz \<noteq> 0 \<and> sz > RS_TAG_LENGTH then Inl (- EINVAL) else Inr RSBM_ADDR
      | GBMS_TAG_RSBR \<Rightarrow>
          if sz \<noteq> 0 \<and> sz > RS_TAG_LENGTH then Inl (- EINVAL) else Inr RSBR_ADDR
      | GBMS_TAG_SUFG \<Rightarrow>
          if sz \<noteq> 0 \<and> sz > SU_TAG_LENGTH then Inl (- EINVAL) else Inr SUFG_ADDR
      | GBMS_TAG_OTHER _ \<Rightarrow> Inl (- ENOENT))"

definition max77779_sp_read :: "regmap_env \<Rightarrow> gbms_tag \<Rightarrow> nat \<Rightarrow> sp_io \<Rightarrow> int \<times> sp_io" where
  "max77779_sp_read R tag sz io =
     (case max77779_sp_info tag sz of
        Inl ret \<Rightarrow> (ret, io)
      | Inr addr \<Rightarrow> max77779_sp_rd R addr sz io)"

definition max77779_sp_write :: "regmap_env \<Rightarrow> gbms_tag \<Rightarrow> nat \<Rightarrow> sp_io \<Rightarrow> int \<times> sp_io" where
  "max77779_sp_write R tag sz io =
     (case max77779_sp_info tag sz of
        Inl ret \<Rightarrow> (ret, io)
      | Inr addr \<Rightarrow> max77779_sp_wr R addr sz io)"

section \<open>Sample configurations\<close>

text \<open>Collaborators that accept every call; the battery reads 3.8 V.\<close>

definition env_ok :: env where
  "env_ok =
     \<lparr>power_supply_set_property = (\<lambda>p prop v. 0),
      power_supply_get_property = (\<lambda>p prop. (0, 3800000)),
      gvotable_election_get_handle = True,
      gvotable_cast_vote = (\<lambda>enabled. 0),
      pps_work = (\<lambda>src d. (0, d)),
      pps_update_adapter = (\<lambda>src d. (7000, d)),
      pps_check_online = (\<lambda>src d. True),
      pps_prog_offline = (\<lambda>src d. (0, d\<lparr>stage := PPS_DISABLED\<rparr>)),
      pps_init_state = (\<lambda>src d. d\<lparr>stage := PPS_NONE\<rparr>),
      gbms_read_charger_state = (\<lambda>p. (0, 0))\<rparr>"

text \<open>The same collaborators with the battery reading \<open>vbatt\<close>.\<close>

definition env_vbatt :: "int \<Rightarrow> env" where
  "env_vbatt vbatt = env_ok\<lparr>power_supply_get_property := (\<lambda>p prop. (0, vbatt))\<rparr>"

text \<open>The same collaborators, but a charger refuses the property \<open>bad\<close>.\<close>

definition env_refuse :: "psp \<Rightarrow> env" where
  "env_refuse bad =
     env_ok\<lparr>power_supply_set_property := (\<lambda>p prop v. if prop = bad then - EIO else 0)\<rparr>"

definition pps_data0 :: pd_pps_data where
  "pps_data0 = \<lparr>stage = PPS_NONE, pps_psy = True, pd_online = 0\<rparr>"

text \<open>The driver after \<open>google_cpm_probe\<close> with two chargers and the default limits, once
  \<open>gcpm_init_work\<close> has found both chargers and both PPS sources.\<close>

definition gcpm0 :: gcpm_drv where
  "gcpm0 =
     \<lparr>chg_psy_avail = [True, True, False, False],
      chg_psy_active = 0,
      chg_psy_count = 2,
      force_active = - 1,
      tcpm_pps_data = pps_data0,
      wlc_pps_data = pps_data0,
      out_ua = - 1,
      out_uv = - 1,
      dcen_gpio = - 1,
      dcen_gpio_default = 0,
      pps_index = 0,
      dc_index = 0,
      dc_state = DC_IDLE,
      dc_start_time = 0,
      new_dc_limit = False,
      taper_control = False,
      dc_limit_vbatt_low = 3400000,
      dc_limit_vbatt_min = 3600000,
      dc_limit_vbatt_high = 4350000,
      dc_limit_vbatt_max = 4400000,
      dc_limit_demand = 0,
      cc_max = 0,
      fv_uv = 0,
      dc_init_complete = True,
      init_complete = True,
      resume_complete = True,
      gbms_mode = False,
      chg_psy_online = [False, False, False, False],
      calls = []\<rparr>"

text \<open>The same driver with a demand of 3 A at 4.4 V.\<close>

definition gcpm_demand :: gcpm_drv where
  "gcpm_demand = gcpm0\<lparr>cc_max := 3000000, fv_uv := 4400000\<rparr>"

definition sp_env_ok :: regmap_env where
  "sp_env_ok =
     \<lparr>regmap_write = (\<lambda>r v. 0),
      regmap_read = (\<lambda>r. (0, 0)),
      regmap_bulk_read = (\<lambda>r n b. (0, b)),
      regmap_bulk_write = (\<lambda>r b n. 0)\<rparr>"

definition sp_io0 :: sp_io where
  "sp_io0 = \<lparr>buff = [1, 2, 3, 4], regmap_calls = []\<rparr>"

text \<open>A demand with both PPS sessions not supported.\<close>

definition gcpm_notsupp :: gcpm_drv where
  "gcpm_notsupp = gcpm_demand\<lparr>tcpm_pps_data := pps_data0\<lparr>stage := PPS_NOTSUPP\<rparr>,
                               wlc_pps_data := pps_data0\<lparr>stage := PPS_NOTSUPP\<rparr>\<rparr>"

text \<open>Collaborators whose wired PPS session becomes active at its first step.\<close>

definition env_tcpm_active :: env where
  "env_tcpm_active =
     env_ok\<lparr>pps_work := (\<lambda>src d. (0, if src = TCPM then d\<lparr>stage := PPS_ACTIVE\<rparr> else d))\<rparr>"

text \<open>Collaborators whose PPS step fails and leaves the session as it is.\<close>

definition env_pps_step_fails :: env where
  "env_pps_step_fails = env_ok\<lparr>pps_work := (\<lambda>src d. (- EAGAIN, d))\<rparr>"

text \<open>The wired session is active and selected, the hand-over has not happened yet.\<close>

definition gcpm_tcpm_selected :: gcpm_drv where
  "gcpm_tcpm_selected =
     gcpm_demand\<lparr>tcpm_pps_data := pps_data0\<lparr>stage := PPS_ACTIVE\<rparr>, pps_index := PPS_INDEX_TCPM,
                  dc_index := GCPM_INDEX_DC_ENABLE, dc_state := DC_ENABLE_PASSTHROUGH\<rparr>"

text \<open>Collaborators whose mode votable refuses every vote.\<close>

definition env_vote_refused :: env where
  "env_vote_refused = env_ok\<lparr>gvotable_cast_vote := (\<lambda>enabled. - EIO)\<rparr>"

text \<open>Direct charge is running on charger 1 with the wired PPS source, and the selection
  has fallen back to the default charger (\<open>dc_index\<close> 0).\<close>

definition gcpm_passthrough :: gcpm_drv where
  "gcpm_passthrough =
     gcpm_demand\<lparr>tcpm_pps_data := pps_data0\<lparr>stage := PPS_ACTIVE\<rparr>, pps_index := PPS_INDEX_TCPM,
                  dc_index := GCPM_DEFAULT_CHARGER, dc_state := DC_PASSTHROUGH,
                  chg_psy_active := 1, chg_psy_online := [False, True, False, False]\<rparr>"

text \<open>The wired session is active and selected and the default charger is online: the
  state in which the hand-over to the DC charger starts.\<close>

definition gcpm_handover :: gcpm_drv where
  "gcpm_handover = gcpm_tcpm_selected\<lparr>chg_psy_online := [True, False, False, False]\<rparr>"

text \<open>Collaborators whose chargers refuse to go online.\<close>

definition env_online_refused :: env where
  "env_online_refused =
     env_ok\<lparr>power_supply_set_property :=
       (\<lambda>p prop v. if prop = POWER_SUPPLY_PROP_ONLINE \<and> v = 1 then - EIO else 0)\<rparr>"



section \<open>Predicates of the properties\<close>

text \<open>Both PPS sessions are not supported.\<close>

definition pps_both_notsupp :: "gcpm_drv \<Rightarrow> bool" where
  "pps_both_notsupp s =
     (stage (tcpm_pps_data s) = PPS_NOTSUPP \<and> stage (wlc_pps_data s) = PPS_NOTSUPP)"

text \<open>The session \<open>src\<close> takes its step in this tick (it is not marked not supported), the
  step does not fail, and it leaves the session active.\<close>

definition pps_step_active :: "env \<Rightarrow> pps_src \<Rightarrow> gcpm_drv \<Rightarrow> bool" where
  "pps_step_active E src s =
     (stage (pps_data_of s src) \<noteq> PPS_NOTSUPP \<and>
      0 \<le> fst (pps_work E src (pps_data_of s src)) \<and>
      stage (snd (pps_work E src (pps_data_of s src))) = PPS_ACTIVE)"

text \<open>No charger is online.\<close>

definition chg_all_offline :: "gcpm_drv \<Rightarrow> bool" where
  "chg_all_offline s = (\<forall>i < length (chg_psy_online s). \<not> chg_psy_online s ! i)"

text \<open>The number of chargers that are online.\<close>

definition chg_online_count :: "gcpm_drv \<Rightarrow> nat" where
  "chg_online_count s = length (filter (\<lambda>b. b) (chg_psy_online s))"

text \<open>Only the active charger can be online: a charger that is online is the one
  \<open>chg_psy_active\<close> names, and it is a charger that was found.\<close>

definition online_inv :: "gcpm_drv \<Rightarrow> bool" where
  "online_inv s =
     (\<forall>i < length (chg_psy_online s). chg_psy_online s ! i \<longrightarrow>
        chg_psy_active s = int i \<and> chg_psy_at s (int i) = Some i)"

text \<open>The states of the arbiter: any state with no charger online, and what
  \<open>set_online\<close>, \<open>offline\<close>, \<open>dc_start\<close>, \<open>dc_stop\<close> and \<open>ping\<close> make of a state, whatever
  the collaborators answer and whatever the arguments are (the index of a ping is inside
  the array).\<close>

inductive gcpm_reachable :: "gcpm_drv \<Rightarrow> bool" where
  init: "chg_all_offline s \<Longrightarrow> gcpm_reachable s"
| set_online: "gcpm_reachable s \<Longrightarrow> gcpm_reachable (snd (gcpm_chg_set_online E index s))"
| offline: "gcpm_reachable s \<Longrightarrow> gcpm_reachable (snd (gcpm_chg_offline E s))"
| dc_start: "gcpm_reachable s \<Longrightarrow> gcpm_reachable (snd (gcpm_dc_start E index s))"
| dc_stop: "gcpm_reachable s \<Longrightarrow> gcpm_reachable (snd (gcpm_dc_stop E final_state s))"
| ping: "gcpm_reachable s \<Longrightarrow> 0 \<le> index \<Longrightarrow> index < int GCPM_MAX_CHARGERS \<Longrightarrow>
           gcpm_reachable (snd (gcpm_chg_ping E index online s))"

text \<open>The arbiter state of the tear-down: the DC state, the active charger and the stage
  of each PPS session.\<close>

definition arbiter_view :: "gcpm_drv \<Rightarrow> int \<times> int \<times> pd_pps_stage \<times> pd_pps_stage" where
  "arbiter_view s =
     (dc_state s, chg_psy_active s, stage (tcpm_pps_data s), stage (wlc_pps_data s))"

text \<open>What the second of two runs of \<open>gcpm_dc_stop\<close> reads of the state the first left.\<close>

definition same_ctl :: "gcpm_drv \<Rightarrow> gcpm_drv \<Rightarrow> bool" where
  "same_ctl s s' =
     (chg_psy_avail s' = chg_psy_avail s \<and> chg_psy_active s' = chg_psy_active s \<and>
      chg_psy_count s' = chg_psy_count s \<and> dc_state s' = dc_state s \<and>
      gbms_mode s' = gbms_mode s \<and> dcen_gpio s' = dcen_gpio s \<and>
      dcen_gpio_default s' = dcen_gpio_default s)"

text \<open>The results of the registry functions, as functions of the collaborators' answers
  and of the registry.\<close>

definition gpsy_set_prop_ret :: "env \<Rightarrow> nat \<Rightarrow> psp \<Rightarrow> int \<Rightarrow> int" where
  "gpsy_set_prop_ret E p prop v =
     (if power_supply_set_property E p prop v < 0 then power_supply_set_property E p prop v else 0)"

definition chg_offline_ret :: "env \<Rightarrow> gcpm_drv \<Rightarrow> int" where
  "chg_offline_ret E s =
     (case gcpm_chg_get_active s of
        None \<Rightarrow> 0
      | Some p \<Rightarrow>
          if gpsy_set_prop_ret E p GBMS_PROP_CHARGING_ENABLED 0 = 0
          then gpsy_set_prop_ret E p POWER_SUPPLY_PROP_ONLINE 0
          else gpsy_set_prop_ret E p GBMS_PROP_CHARGING_ENABLED 0)"

definition chg_set_online_ret :: "env \<Rightarrow> int \<Rightarrow> gcpm_drv \<Rightarrow> int" where
  "chg_set_online_ret E index s =
     (if index < 0 \<or> index \<ge> chg_psy_count s then - ERANGE
      else if index = chg_psy_active s then 0
      else (case chg_psy_at s index of
              None \<Rightarrow> - EINVAL
            | Some p \<Rightarrow>
                if chg_offline_ret E s < 0 then - EIO
                else gpsy_set_prop_ret E p POWER_SUPPLY_PROP_ONLINE 1))"

definition dc_enable_ret :: "env \<Rightarrow> bool \<Rightarrow> gcpm_drv \<Rightarrow> int" where
  "dc_enable_ret E enabled s =
     (if \<not> gbms_mode s \<and> \<not> gvotable_election_get_handle E then - ENODEV
      else gvotable_cast_vote E enabled)"

text \<open>The charger \<open>p\<close> accepts the value \<open>v\<close> for the property \<open>prop\<close>.\<close>

definition psy_accepts :: "env \<Rightarrow> nat \<Rightarrow> psp \<Rightarrow> int \<Rightarrow> bool" where
  "psy_accepts E p prop v = (\<not> power_supply_set_property E p prop v < 0)"

text \<open>The vote that enables the DC charger mode is accepted: the votable is there and
  the vote does not fail.\<close>

definition dc_vote_accepted :: "env \<Rightarrow> gcpm_drv \<Rightarrow> bool" where
  "dc_vote_accepted E s =
     ((gbms_mode s \<or> gvotable_election_get_handle E) \<and> \<not> gvotable_cast_vote E True < 0)"

text \<open>The vote for the DC charger mode: it is cast when the votable is there.\<close>

definition dc_vote_calls :: "env \<Rightarrow> gcpm_drv \<Rightarrow> call list" where
  "dc_vote_calls E s =
     (if gbms_mode s \<or> gvotable_election_get_handle E then [Cast_vote True] else [])"

text \<open>The write to the DC enable gpio, when the driver has one that is off by default.\<close>

definition dcen_gpio_calls :: "gcpm_drv \<Rightarrow> int \<Rightarrow> call list" where
  "dcen_gpio_calls s v =
     (if dcen_gpio s \<ge> 0 \<and> dcen_gpio_default s = 0 then [Gpio_set (dcen_gpio s) v] else [])"

text \<open>The hand-over is about to start: the DC state is EnablePassthrough, \<open>old\<close> is the
  active charger and \<open>new\<close> is the charger at \<open>dc_index\<close>, a valid index.\<close>

definition handover_ready :: "gcpm_drv \<Rightarrow> nat \<Rightarrow> nat \<Rightarrow> bool" where
  "handover_ready s old new =
     (dc_state s = DC_ENABLE_PASSTHROUGH \<and> gcpm_chg_get_active s = Some old \<and>
      0 < dc_index s \<and> dc_index s < chg_psy_count s \<and> chg_psy_at s (dc_index s) = Some new)"

text \<open>Every step of the hand-over is accepted.\<close>

definition handover_accepted :: "env \<Rightarrow> gcpm_drv \<Rightarrow> nat \<Rightarrow> nat \<Rightarrow> bool" where
  "handover_accepted E s old new =
     (psy_accepts E old GBMS_PROP_CHARGING_ENABLED 0 \<and>
      psy_accepts E old POWER_SUPPLY_PROP_ONLINE 0 \<and>
      psy_accepts E new POWER_SUPPLY_PROP_ONLINE 1 \<and>
      psy_accepts E new POWER_SUPPLY_PROP_CONSTANT_CHARGE_VOLTAGE_MAX (fv_uv s) \<and>
      psy_accepts E new POWER_SUPPLY_PROP_CONSTANT_CHARGE_CURRENT_MAX (cc_max s) \<and>
      psy_accepts E new POWER_SUPPLY_PROP_CURRENT_MAX (out_ua s) \<and>
      dc_vote_accepted E s)"

text \<open>The interval the PPS update of the hand-over asks for (an error counts as
  \<open>PPS_ERROR_RETRY_MS\<close>), the delay of the retry, which is at most \<open>DC_ERROR_RETRY_MS\<close>, and
  the scheduling of the retry.\<close>

definition handover_pps_ui :: "env \<Rightarrow> pps_src \<Rightarrow> gcpm_drv \<Rightarrow> int" where
  "handover_pps_ui E src s =
     (if fst (pps_update_adapter E src (pps_data_of s src)) < 0 then PPS_ERROR_RETRY_MS
      else fst (pps_update_adapter E src (pps_data_of s src)))"

definition handover_retry_ms :: "env \<Rightarrow> pps_src \<Rightarrow> gcpm_drv \<Rightarrow> int" where
  "handover_retry_ms E src s =
     (if handover_pps_ui E src s > DC_ERROR_RETRY_MS then DC_ERROR_RETRY_MS
      else handover_pps_ui E src s)"

definition handover_retry_calls :: "env \<Rightarrow> pps_src \<Rightarrow> gcpm_drv \<Rightarrow> call list" where
  "handover_retry_calls E src s =
     (if 0 < handover_retry_ms E src s
      then [Schedule_delayed_work PPS_WORK (handover_retry_ms E src s)] else [])"

section \<open>Properties\<close>

subsection \<open>Scratch space: tags and sizes\<close>

text \<open>
  Claim C10. Read-by-tag and write-by-tag answer a tag outside RS32, RSBM, RSBR, SUFG
  with the not-found error \<open>-ENOENT\<close>, and a supported tag with a size above the tag's
  capacity (32 bytes for RS32, 4 for RSBM and RSBR, 1 for SUFG) with the invalid-argument
  error \<open>-EINVAL\<close>. In each of these cases the operation returns the buffer and the log
  of register accesses as it got them: no register was read or written.
\<close>

theorem sp_bad_tag_or_size_no_io:
  "max77779_sp_read R (GBMS_TAG_OTHER n) sz io = (- ENOENT, io) \<and>
   max77779_sp_write R (GBMS_TAG_OTHER n) sz io = (- ENOENT, io) \<and>
   (32 < sz \<longrightarrow> max77779_sp_read R GBMS_TAG_RS32 sz io = (- EINVAL, io) \<and>
                max77779_sp_write R GBMS_TAG_RS32 sz io = (- EINVAL, io)) \<and>
   (4 < sz \<longrightarrow> max77779_sp_read R GBMS_TAG_RSBM sz io = (- EINVAL, io) \<and>
               max77779_sp_write R GBMS_TAG_RSBM sz io = (- EINVAL, io) \<and>
               max77779_sp_read R GBMS_TAG_RSBR sz io = (- EINVAL, io) \<and>
               max77779_sp_write R GBMS_TAG_RSBR sz io = (- EINVAL, io)) \<and>
   (1 < sz \<longrightarrow> max77779_sp_read R GBMS_TAG_SUFG sz io = (- EINVAL, io) \<and>
               max77779_sp_write R GBMS_TAG_SUFG sz io = (- EINVAL, io))"
  by (simp add: max77779_sp_read_def max77779_sp_write_def max77779_sp_info_def)

text \<open>At the sample buffer: an unknown tag, and one size past each capacity, beside a
  read of 32 bytes and a write of 1 byte that do reach the registers.\<close>

theorem sp_bad_tag_or_size_no_io_witness:
  "max77779_sp_read sp_env_ok (GBMS_TAG_OTHER 7) 2 sp_io0 = (- ENOENT, sp_io0) \<and>
   max77779_sp_write sp_env_ok GBMS_TAG_RS32 33 sp_io0 = (- EINVAL, sp_io0) \<and>
   max77779_sp_read sp_env_ok GBMS_TAG_RSBR 5 sp_io0 = (- EINVAL, sp_io0) \<and>
   max77779_sp_write sp_env_ok GBMS_TAG_SUFG 2 sp_io0 = (- EINVAL, sp_io0) \<and>
   fst (max77779_sp_read sp_env_ok GBMS_TAG_RS32 32 sp_io0) = 0 \<and>
   regmap_calls (snd (max77779_sp_write sp_env_ok GBMS_TAG_SUFG 1 sp_io0)) \<noteq> []"
  using sp_bad_tag_or_size_no_io [of sp_env_ok 7 2 sp_io0]
    sp_bad_tag_or_size_no_io [of sp_env_ok 7 33 sp_io0]
    sp_bad_tag_or_size_no_io [of sp_env_ok 7 5 sp_io0]
  by (simp add: max77779_sp_read_def max77779_sp_write_def max77779_sp_info_def
      max77779_sp_rd_def max77779_sp_wr_def sp_out_of_range_def sp_env_ok_def sp_io0_def
      log_regmap_def Let_def)

subsection \<open>Power supply interface before start-up\<close>

text \<open>
  Claim C8. For every property, \<open>gcpm_psy_set_property\<close> and \<open>gcpm_psy_get_property\<close>
  called while \<open>init_complete\<close> or \<open>resume_complete\<close> is not set return \<open>-EAGAIN\<close> and
  the state they were given: no demand field has changed and the log of calls is the
  same, so no selection work was scheduled and nothing went to a charger.
\<close>

theorem psy_property_not_ready:
  "\<not> init_complete s \<or> \<not> resume_complete s \<Longrightarrow>
     gcpm_psy_set_property E prop v s = (- EAGAIN, s) \<and>
     gcpm_psy_get_property E prop s = ((- EAGAIN, None), s)"
  by (auto simp: gcpm_psy_set_property_def gcpm_psy_get_property_def)

text \<open>Before \<open>init_complete\<close> a new \<open>cc_max\<close> is refused; the same call on the started
  driver records it.\<close>

theorem psy_property_not_ready_witness:
  "\<not> init_complete (gcpm0\<lparr>init_complete := False\<rparr>) \<and>
   gcpm_psy_set_property env_ok POWER_SUPPLY_PROP_CONSTANT_CHARGE_CURRENT_MAX 3000000
      (gcpm0\<lparr>init_complete := False\<rparr>) = (- EAGAIN, gcpm0\<lparr>init_complete := False\<rparr>) \<and>
   gcpm_psy_get_property env_ok POWER_SUPPLY_PROP_ONLINE (gcpm0\<lparr>init_complete := False\<rparr>)
      = ((- EAGAIN, None), gcpm0\<lparr>init_complete := False\<rparr>) \<and>
   cc_max (snd (gcpm_psy_set_property env_ok POWER_SUPPLY_PROP_CONSTANT_CHARGE_CURRENT_MAX
      3000000 gcpm0)) = 3000000"
  using psy_property_not_ready [of "gcpm0\<lparr>init_complete := False\<rparr>" env_ok
      POWER_SUPPLY_PROP_CONSTANT_CHARGE_CURRENT_MAX 3000000]
    psy_property_not_ready [of "gcpm0\<lparr>init_complete := False\<rparr>" env_ok
      POWER_SUPPLY_PROP_ONLINE 0]
  by (simp add: gcpm0_def gcpm_psy_set_property_def gcpm_psy_set_switch_def Let_def
      gcpm_chg_get_active_def chg_psy_at_def psy_set_property_def log_call_def env_ok_def)

subsection \<open>Selection near the floor and the ceiling\<close>

lemma s32_id: "0 \<le> x \<Longrightarrow> x < 2147483648 \<Longrightarrow> s32 x = x"
  by (simp add: s32_def)

text \<open>
  Claim C5. The selection has got as far as reading the battery voltage (no forced
  index, a positive demand, a non-empty registry with the default charger found, a
  reading \<open>vbatt\<close> that is not an error) and the limits are \<open>0 < vbatt_low < vbatt_min\<close>.
  Then a reading below \<open>vbatt_low\<close> gives retry-later (\<open>-EAGAIN\<close>); a reading in
  \<open>[vbatt_low, vbatt_min)\<close> gives the DC index when the previous selection \<open>dc_index\<close>
  was the DC index (and that index is in the registry), and retry-later when the previous
  selection was the default index.
\<close>

theorem select_floor_hysteresis:
  assumes "force_active s < 0" and "0 < cc_max s" and "0 < fv_uv s"
    and "0 < chg_psy_count s"
    and "gcpm_chg_get_default s = Some chg_psy"
    and "vbatt = GPSY_GET_PROP E chg_psy POWER_SUPPLY_PROP_VOLTAGE_NOW" and "0 \<le> vbatt"
    and "0 < dc_limit_vbatt_low s" and "dc_limit_vbatt_low s < dc_limit_vbatt_min s"
    and "dc_limit_vbatt_min s < 2147483648"
  shows "(vbatt < dc_limit_vbatt_low s \<longrightarrow> gcpm_chg_select E s = - EAGAIN) \<and>
         (dc_limit_vbatt_low s \<le> vbatt \<and> vbatt < dc_limit_vbatt_min s \<longrightarrow>
            (dc_index s = GCPM_INDEX_DC_ENABLE \<and> 1 < chg_psy_count s \<longrightarrow>
               gcpm_chg_select E s = GCPM_INDEX_DC_ENABLE) \<and>
            (dc_index s = GCPM_DEFAULT_CHARGER \<longrightarrow> gcpm_chg_select E s = - EAGAIN))"
  using assms
  by (simp add: gcpm_chg_select_def Let_def s32_id gcpm_chg_select_bounds_def)

text \<open>With \<open>vbatt_low\<close> 3.4 V and \<open>vbatt_min\<close> 3.6 V: 3.55 V keeps DC after DC, asks to
  retry after the default; 3.3 V asks to retry even after DC.\<close>

theorem select_floor_hysteresis_witness:
  "gcpm_chg_select (env_vbatt 3550000) (gcpm_demand\<lparr>dc_index := GCPM_INDEX_DC_ENABLE\<rparr>)
     = GCPM_INDEX_DC_ENABLE \<and>
   gcpm_chg_select (env_vbatt 3550000) gcpm_demand = - EAGAIN \<and>
   gcpm_chg_select (env_vbatt 3300000) (gcpm_demand\<lparr>dc_index := GCPM_INDEX_DC_ENABLE\<rparr>)
     = - EAGAIN"
  using select_floor_hysteresis [of "gcpm_demand\<lparr>dc_index := GCPM_INDEX_DC_ENABLE\<rparr>" 0
      3550000 "env_vbatt 3550000"]
    select_floor_hysteresis [of gcpm_demand 0 3550000 "env_vbatt 3550000"]
    select_floor_hysteresis [of "gcpm_demand\<lparr>dc_index := GCPM_INDEX_DC_ENABLE\<rparr>" 0
      3300000 "env_vbatt 3300000"]
  by (simp add: gcpm_demand_def gcpm0_def gcpm_chg_get_default_def chg_psy_at_def
      GPSY_GET_PROP_def env_vbatt_def env_ok_def)

text \<open>
  Claim C3, as amended. The selection has got as far as reading the battery voltage, the
  limits are \<open>vbatt_low \<le> vbatt_min\<close> and \<open>0 < vbatt_high < vbatt_max\<close>, and the reading
  is above \<open>vbatt_min\<close>. Above \<open>vbatt_high\<close> the previous selection is kept: after the DC
  index the DC index is returned for a reading up to \<open>vbatt_max\<close>, and after the default
  index the default index is returned, whether or not the reading is above \<open>vbatt_max\<close>
  (DC does not start above \<open>vbatt_high\<close>). A reading in \<open>(vbatt_min, vbatt_high]\<close> gives
  the DC index.
\<close>

theorem select_ceiling:
  assumes "force_active s < 0" and "0 < cc_max s" and "0 < fv_uv s"
    and "0 < chg_psy_count s"
    and "gcpm_chg_get_default s = Some chg_psy"
    and "vbatt = GPSY_GET_PROP E chg_psy POWER_SUPPLY_PROP_VOLTAGE_NOW"
    and "0 \<le> dc_limit_vbatt_low s" and "dc_limit_vbatt_low s \<le> dc_limit_vbatt_min s"
    and "0 < dc_limit_vbatt_min s" and "dc_limit_vbatt_min s < 2147483648"
    and "0 < dc_limit_vbatt_high s" and "dc_limit_vbatt_high s < dc_limit_vbatt_max s"
    and "dc_limit_vbatt_max s < 2147483648"
    and "dc_limit_vbatt_min s < vbatt"
  shows "(dc_limit_vbatt_high s < vbatt \<and> vbatt \<le> dc_limit_vbatt_max s \<and>
            dc_index s = GCPM_INDEX_DC_ENABLE \<and> 1 < chg_psy_count s \<longrightarrow>
              gcpm_chg_select E s = GCPM_INDEX_DC_ENABLE) \<and>
         (dc_limit_vbatt_high s < vbatt \<and> dc_index s = GCPM_DEFAULT_CHARGER \<longrightarrow>
              gcpm_chg_select E s = GCPM_DEFAULT_CHARGER) \<and>
         (vbatt \<le> dc_limit_vbatt_high s \<and> 1 < chg_psy_count s \<longrightarrow>
              gcpm_chg_select E s = GCPM_INDEX_DC_ENABLE)"
  using assms
  by (simp add: gcpm_chg_select_def Let_def s32_id gcpm_chg_select_bounds_def)

text \<open>With \<open>vbatt_high\<close> 4.35 V and \<open>vbatt_max\<close> 4.4 V: 4.38 V keeps DC after DC, 4.42 V
  after the default stays on the default, 4.0 V selects DC.\<close>

theorem select_ceiling_witness:
  "gcpm_chg_select (env_vbatt 4380000) (gcpm_demand\<lparr>dc_index := GCPM_INDEX_DC_ENABLE\<rparr>)
     = GCPM_INDEX_DC_ENABLE \<and>
   gcpm_chg_select (env_vbatt 4420000) gcpm_demand = GCPM_DEFAULT_CHARGER \<and>
   gcpm_chg_select (env_vbatt 4000000) gcpm_demand = GCPM_INDEX_DC_ENABLE"
  using select_ceiling [of "gcpm_demand\<lparr>dc_index := GCPM_INDEX_DC_ENABLE\<rparr>" 0
      4380000 "env_vbatt 4380000"]
    select_ceiling [of gcpm_demand 0 4420000 "env_vbatt 4420000"]
    select_ceiling [of gcpm_demand 0 4000000 "env_vbatt 4000000"]
  by (simp add: gcpm_demand_def gcpm0_def gcpm_chg_get_default_def chg_psy_at_def
      GPSY_GET_PROP_def env_vbatt_def env_ok_def)

text \<open>Claim C3 as it was stated fails: at 4.38 V, between \<open>vbatt_high\<close> and \<open>vbatt_max\<close>
  and above \<open>vbatt_min\<close>, with the default index selected before, the selection returns
  the default index and not the DC index.\<close>

theorem select_ceiling_counterexample:
  "dc_limit_vbatt_min gcpm_demand < 4380000 \<and>
   dc_limit_vbatt_high gcpm_demand < 4380000 \<and>
   4380000 \<le> dc_limit_vbatt_max gcpm_demand \<and>
   dc_index gcpm_demand = GCPM_DEFAULT_CHARGER \<and>
   gcpm_chg_select (env_vbatt 4380000) gcpm_demand = GCPM_DEFAULT_CHARGER \<and>
   gcpm_chg_select (env_vbatt 4380000) gcpm_demand \<noteq> GCPM_INDEX_DC_ENABLE"
  by (simp add: gcpm_chg_select_def Let_def s32_def u32_def gcpm_chg_select_bounds_def
      gcpm_demand_def gcpm0_def gcpm_chg_get_default_def chg_psy_at_def GPSY_GET_PROP_def
      env_vbatt_def env_ok_def)

text \<open>The branch for \<open>vbatt_high\<close> comes before the branch for \<open>vbatt_max\<close>: at 4.42 V,
  above both, the index selected before is what the selection returns.\<close>

lemma select_above_max_after_dc:
  "gcpm_chg_select (env_vbatt 4420000) (gcpm_demand\<lparr>dc_index := GCPM_INDEX_DC_ENABLE\<rparr>)
     = GCPM_INDEX_DC_ENABLE"
  by (simp add: gcpm_chg_select_def Let_def s32_def u32_def gcpm_chg_select_bounds_def
      gcpm_demand_def gcpm0_def gcpm_chg_get_default_def chg_psy_at_def GPSY_GET_PROP_def
      env_vbatt_def env_ok_def)

subsection \<open>Selection work with no PPS support\<close>

text \<open>
  Claim C4, as amended. When both PPS sessions have stage NotSupported and the DC state
  is Idle, the selection work leaves the DC state Idle (it does not move to Disabled) and
  does not enter EnablePassthrough: the PPS sessions, \<open>pps_index\<close> and \<open>dc_index\<close> are
  unchanged and the PPS work is not scheduled. The state is left as it was, or the
  selection work re-arms itself after 5 seconds and nothing else changes.
\<close>

theorem select_work_idle_notsupp:
  assumes "pps_both_notsupp s" and "dc_state s = DC_IDLE"
  shows "(gcpm_chg_select_work E now s = s \<or>
          gcpm_chg_select_work E now s = log_call (Schedule_delayed_work SELECT_WORK 5000) s) \<and>
         dc_state (gcpm_chg_select_work E now s) = DC_IDLE \<and>
         dc_index (gcpm_chg_select_work E now s) = dc_index s \<and>
         pps_index (gcpm_chg_select_work E now s) = pps_index s \<and>
         tcpm_pps_data (gcpm_chg_select_work E now s) = tcpm_pps_data s \<and>
         wlc_pps_data (gcpm_chg_select_work E now s) = wlc_pps_data s"
  using assms
  by (simp add: gcpm_chg_select_work_def Let_def gcpm_chg_dc_check_source_def log_call_def
      pps_both_notsupp_def)

text \<open>The policy asks for the DC index; with both sessions not supported the work
  changes nothing, with the sessions as they are after start-up it enters
  EnablePassthrough.\<close>

theorem select_work_idle_notsupp_witness:
  "pps_both_notsupp gcpm_notsupp \<and> dc_state gcpm_notsupp = DC_IDLE \<and>
   gcpm_chg_select env_ok gcpm_notsupp = GCPM_INDEX_DC_ENABLE \<and>
   gcpm_chg_select_work env_ok 100 gcpm_notsupp = gcpm_notsupp \<and>
   dc_state (gcpm_chg_select_work env_ok 100 gcpm_demand) = DC_ENABLE_PASSTHROUGH"
  using select_work_idle_notsupp [of gcpm_notsupp env_ok 100]
  by (simp add: gcpm_notsupp_def gcpm_demand_def gcpm0_def pps_data0_def pps_both_notsupp_def
      gcpm_chg_select_work_def gcpm_chg_select_def Let_def s32_def u32_def
      gcpm_chg_select_bounds_def gcpm_chg_get_default_def chg_psy_at_def GPSY_GET_PROP_def
      gcpm_chg_dc_check_source_def gcpm_pps_online_def gcpm_pps_init_state_def
      pps_data_of_def pps_data_set_def log_call_def env_ok_def)

text \<open>Claim C4 as it was stated fails: with both sessions not supported, the selection
  work on the Idle state ends in Idle, not in Disabled.\<close>

theorem select_work_idle_notsupp_counterexample:
  "pps_both_notsupp gcpm_notsupp \<and> dc_state gcpm_notsupp = DC_IDLE \<and>
   dc_state (gcpm_chg_select_work env_ok 100 gcpm_notsupp) = DC_IDLE \<and>
   dc_state (gcpm_chg_select_work env_ok 100 gcpm_notsupp) \<noteq> DC_DISABLED"
  by (simp add: gcpm_notsupp_def gcpm_demand_def gcpm0_def pps_data0_def pps_both_notsupp_def
      gcpm_chg_select_work_def gcpm_chg_select_def Let_def s32_def u32_def
      gcpm_chg_select_bounds_def gcpm_chg_get_default_def chg_psy_at_def GPSY_GET_PROP_def
      gcpm_chg_dc_check_source_def log_call_def env_ok_def)

subsection \<open>The combined PPS step\<close>

lemma pps_data_of_simps [simp]:
  "pps_data_of s TCPM = tcpm_pps_data s" "pps_data_of s WLC = wlc_pps_data s"
  by (simp_all add: pps_data_of_def)

text \<open>
  Claim C9, as amended. \<open>gcpm_pps_work\<close> returns a negative value (\<open>-ENODEV\<close>, and
  otherwise 0) exactly when both sessions are NotSupported at entry, or when a source
  was selected before (\<open>pps_index\<close> not 0) and now no session has both taken its step
  without error and come out Active. When both sessions are NotSupported nothing is
  changed, the recorded selection included. Otherwise the selection is recorded: the
  one session whose step succeeded and left it Active when there is exactly one, one of
  the two when there are two, and 0 (still detecting) when there is none.
\<close>

theorem pps_work_result:
  "(fst (gcpm_pps_work E s) < 0 \<longleftrightarrow>
      pps_both_notsupp s \<or>
      (pps_index s \<noteq> 0 \<and> \<not> pps_step_active E TCPM s \<and> \<not> pps_step_active E WLC s)) \<and>
   (fst (gcpm_pps_work E s) = 0 \<or> fst (gcpm_pps_work E s) = - ENODEV) \<and>
   (pps_both_notsupp s \<longrightarrow> snd (gcpm_pps_work E s) = s) \<and>
   (\<not> pps_both_notsupp s \<longrightarrow>
      (pps_step_active E TCPM s \<and> \<not> pps_step_active E WLC s \<longrightarrow>
         pps_index (snd (gcpm_pps_work E s)) = PPS_INDEX_TCPM) \<and>
      (pps_step_active E WLC s \<and> \<not> pps_step_active E TCPM s \<longrightarrow>
         pps_index (snd (gcpm_pps_work E s)) = PPS_INDEX_WLC) \<and>
      (pps_step_active E TCPM s \<and> pps_step_active E WLC s \<longrightarrow>
         pps_index (snd (gcpm_pps_work E s)) = PPS_INDEX_TCPM \<or>
         pps_index (snd (gcpm_pps_work E s)) = PPS_INDEX_WLC) \<and>
      (\<not> pps_step_active E TCPM s \<and> \<not> pps_step_active E WLC s \<longrightarrow>
         pps_index (snd (gcpm_pps_work E s)) = 0))"
  by (auto simp: gcpm_pps_work_def gcpm_pps_work_src_def pps_call_def pps_step_active_def
      pps_both_notsupp_def pps_data_set_def log_call_def Let_def split_def)

text \<open>The wired session becomes active and is recorded; both sessions not supported
  is \<open>-ENODEV\<close>; a selected source that is no longer active is \<open>-ENODEV\<close> and the
  record is cleared.\<close>

theorem pps_work_result_witness:
  "gcpm_pps_work env_tcpm_active gcpm_demand
     = (0, snd (gcpm_pps_work env_tcpm_active gcpm_demand)) \<and>
   pps_index (snd (gcpm_pps_work env_tcpm_active gcpm_demand)) = PPS_INDEX_TCPM \<and>
   gcpm_pps_work env_ok gcpm_notsupp = (- ENODEV, gcpm_notsupp) \<and>
   fst (gcpm_pps_work env_ok (gcpm_demand\<lparr>pps_index := PPS_INDEX_TCPM\<rparr>)) = - ENODEV \<and>
   pps_index (snd (gcpm_pps_work env_ok (gcpm_demand\<lparr>pps_index := PPS_INDEX_TCPM\<rparr>))) = 0"
  using pps_work_result [of env_tcpm_active gcpm_demand]
    pps_work_result [of env_ok gcpm_notsupp]
    pps_work_result [of env_ok "gcpm_demand\<lparr>pps_index := PPS_INDEX_TCPM\<rparr>"]
  by (auto simp: pps_step_active_def pps_both_notsupp_def env_tcpm_active_def env_ok_def
      gcpm_notsupp_def gcpm_demand_def gcpm0_def pps_data0_def prod_eq_iff)

text \<open>Claim C9 as it was stated fails: the wired session is selected and its stage is
  Active before and after the step, the wireless session is not NotSupported, but the
  step of the wired session returns an error; \<open>gcpm_pps_work\<close> returns \<open>-ENODEV\<close> and
  clears the selection.\<close>

theorem pps_work_result_counterexample:
  "\<not> pps_both_notsupp gcpm_tcpm_selected \<and>
   pps_index gcpm_tcpm_selected = PPS_INDEX_TCPM \<and>
   stage (tcpm_pps_data (snd (gcpm_pps_work env_pps_step_fails gcpm_tcpm_selected)))
     = PPS_ACTIVE \<and>
   fst (gcpm_pps_work env_pps_step_fails gcpm_tcpm_selected) = - ENODEV \<and>
   pps_index (snd (gcpm_pps_work env_pps_step_fails gcpm_tcpm_selected)) = 0"
  by (simp add: gcpm_pps_work_def gcpm_pps_work_src_def pps_call_def pps_both_notsupp_def
      pps_data_set_def log_call_def Let_def split_def env_pps_step_fails_def env_ok_def
      gcpm_tcpm_selected_def gcpm_demand_def gcpm0_def pps_data0_def)

subsection \<open>At most one charger online\<close>

lemma online_inv_cong:
  "chg_psy_online s' = chg_psy_online s \<Longrightarrow> chg_psy_active s' = chg_psy_active s \<Longrightarrow>
   chg_psy_avail s' = chg_psy_avail s \<Longrightarrow> online_inv s' = online_inv s"
  by (simp add: online_inv_def chg_psy_at_def)

lemma get_active_cong:
  "chg_psy_active s' = chg_psy_active s \<Longrightarrow> chg_psy_avail s' = chg_psy_avail s \<Longrightarrow>
   gcpm_chg_get_active s' = gcpm_chg_get_active s"
  by (simp add: gcpm_chg_get_active_def chg_psy_at_def)

lemma all_offline_inv: "chg_all_offline s \<Longrightarrow> online_inv s"
  by (simp add: online_inv_def chg_all_offline_def)

text \<open>What a set-property call leaves alone.\<close>

lemma GPSY_SET_PROP_frame:
  "GPSY_SET_PROP E p prop v s = (ret, s') \<Longrightarrow>
     chg_psy_active s' = chg_psy_active s \<and> chg_psy_avail s' = chg_psy_avail s \<and>
     chg_psy_count s' = chg_psy_count s \<and> dc_state s' = dc_state s \<and>
     ret \<le> 0 \<and>
     (prop \<noteq> POWER_SUPPLY_PROP_ONLINE \<or> ret < 0 \<longrightarrow> chg_psy_online s' = chg_psy_online s) \<and>
     (prop = POWER_SUPPLY_PROP_ONLINE \<and> ret = 0 \<longrightarrow>
        chg_psy_online s' = (chg_psy_online s)[p := (v \<noteq> 0)])"
  by (auto simp: GPSY_SET_PROP_def psy_set_property_def log_call_def Let_def split: if_splits)

lemma offline_inv:
  assumes "online_inv s" and "gcpm_chg_offline E s = (ret, s')"
  shows "online_inv s' \<and> ret \<le> 0 \<and> chg_psy_avail s' = chg_psy_avail s \<and>
         chg_psy_count s' = chg_psy_count s \<and> dc_state s' = dc_state s \<and>
         (ret = 0 \<longrightarrow> chg_all_offline s' \<and> gcpm_chg_get_active s' = None) \<and>
         (ret \<noteq> 0 \<longrightarrow> chg_psy_active s' = chg_psy_active s)"
proof (cases "gcpm_chg_get_active s")
  case None
  with assms have eq: "s' = s" "ret = 0" by (auto simp: gcpm_chg_offline_def)
  have "chg_all_offline s"
    using assms(1) None
    by (auto simp: online_inv_def chg_all_offline_def gcpm_chg_get_active_def split: if_splits)
  with eq assms None show ?thesis by simp
next
  case (Some p)
  obtain r1 s1 where c1: "GPSY_SET_PROP E p GBMS_PROP_CHARGING_ENABLED 0 s = (r1, s1)"
    by (cases "GPSY_SET_PROP E p GBMS_PROP_CHARGING_ENABLED 0 s")
  note f1 = GPSY_SET_PROP_frame [OF c1]
  show ?thesis
  proof (cases "r1 = 0")
    case False
    with assms Some c1 have "s' = s1" "ret = r1" by (auto simp: gcpm_chg_offline_def)
    with f1 False assms(1) show ?thesis
      by (auto simp: online_inv_cong [of s1 s])
  next
    case True
    obtain r2 s2 where c2: "GPSY_SET_PROP E p POWER_SUPPLY_PROP_ONLINE 0 s1 = (r2, s2)"
      by (cases "GPSY_SET_PROP E p POWER_SUPPLY_PROP_ONLINE 0 s1")
    note f2 = GPSY_SET_PROP_frame [OF c2]
    show ?thesis
    proof (cases "r2 = 0")
      case False
      with assms Some c1 c2 True have "s' = s2" "ret = r2" by (auto simp: gcpm_chg_offline_def)
      with f1 f2 False assms(1) show ?thesis
        by (auto simp: online_inv_cong [of s2 s])
    next
      case r2: True
      with assms Some c1 c2 True have s': "s' = s2\<lparr>chg_psy_active := - 1\<rparr>" "ret = 0"
        by (auto simp: gcpm_chg_offline_def)
      have act: "chg_psy_active s = int p"
        using Some by (auto simp: gcpm_chg_get_active_def chg_psy_at_def split: if_splits)
      have "chg_all_offline s'"
        unfolding chg_all_offline_def
      proof (intro allI impI)
        fix i assume i: "i < length (chg_psy_online s')"
        have on: "chg_psy_online s' = (chg_psy_online s)[p := False]"
          using f1 f2 r2 s' by simp
        show "\<not> chg_psy_online s' ! i"
        proof (cases "i = p")
          case True
          with i on show ?thesis by simp
        next
          case False
          with assms(1) act i on show ?thesis by (auto simp: online_inv_def)
        qed
      qed
      with s' f1 f2 show ?thesis
        by (auto simp: all_offline_inv gcpm_chg_get_active_def)
    qed
  qed
qed

lemma online_inv_set_online_new:
  assumes "chg_all_offline s" and "chg_psy_at s index = Some p"
    and "GPSY_SET_PROP E p POWER_SUPPLY_PROP_ONLINE 1 s = (ret, s2)"
  shows "(ret < 0 \<longrightarrow> chg_all_offline s2) \<and> (ret = 0 \<longrightarrow> online_inv (s2\<lparr>chg_psy_active := index\<rparr>))"
proof -
  note f = GPSY_SET_PROP_frame [OF assms(3)]
  have ip: "index = int p"
    using assms(2) by (auto simp: chg_psy_at_def split: if_splits)
  have a: "ret < 0 \<Longrightarrow> chg_all_offline s2"
    using f assms(1) by (simp add: chg_all_offline_def)
  have b: "online_inv (s2\<lparr>chg_psy_active := index\<rparr>)" if "ret = 0"
    unfolding online_inv_def
  proof (intro allI impI)
    fix i
    assume i: "i < length (chg_psy_online (s2\<lparr>chg_psy_active := index\<rparr>))"
      and o: "chg_psy_online (s2\<lparr>chg_psy_active := index\<rparr>) ! i"
    have on: "chg_psy_online s2 = (chg_psy_online s)[p := True]"
      using f that by simp
    have "i = p"
    proof (rule ccontr)
      assume "i \<noteq> p"
      with i o on assms(1) show False by (auto simp: chg_all_offline_def)
    qed
    with ip assms(2) f
    show "chg_psy_active (s2\<lparr>chg_psy_active := index\<rparr>) = int i \<and>
          chg_psy_at (s2\<lparr>chg_psy_active := index\<rparr>) (int i) = Some i"
      by (auto simp: chg_psy_at_def split: if_splits)
  qed
  from a b show ?thesis by blast
qed

lemma set_online_inv:
  assumes "online_inv s" and "gcpm_chg_set_online E index s = (ret, s')"
  shows "online_inv s' \<and> chg_psy_avail s' = chg_psy_avail s \<and>
         chg_psy_count s' = chg_psy_count s \<and> dc_state s' = dc_state s"
proof -
  consider (range) "index < 0 \<or> index \<ge> chg_psy_count s"
    | (same) "\<not> (index < 0 \<or> index \<ge> chg_psy_count s)" "index = chg_psy_active s"
    | (nodev) "\<not> (index < 0 \<or> index \<ge> chg_psy_count s)" "index \<noteq> chg_psy_active s"
        "chg_psy_at s index = None"
    | (go) p where "\<not> (index < 0 \<or> index \<ge> chg_psy_count s)" "index \<noteq> chg_psy_active s"
        "chg_psy_at s index = Some p"
    by (cases "chg_psy_at s index") auto
  then show ?thesis
  proof cases
    case range
    with assms show ?thesis by (auto simp: gcpm_chg_set_online_def)
  next
    case same
    with assms show ?thesis by (auto simp: gcpm_chg_set_online_def)
  next
    case nodev
    with assms show ?thesis by (auto simp: gcpm_chg_set_online_def)
  next
    case go
    obtain r1 s1 where o: "gcpm_chg_offline E s = (r1, s1)" by (cases "gcpm_chg_offline E s")
    note fo = offline_inv [OF assms(1) o]
    show ?thesis
    proof (cases "r1 < 0")
      case True
      with assms go o have "s' = s1" by (auto simp: gcpm_chg_set_online_def)
      with fo show ?thesis by simp
    next
      case False
      with fo have r1: "r1 = 0" by simp
      obtain r2 s2 where c: "GPSY_SET_PROP E p POWER_SUPPLY_PROP_ONLINE 1 s1 = (r2, s2)"
        by (cases "GPSY_SET_PROP E p POWER_SUPPLY_PROP_ONLINE 1 s1")
      note f = GPSY_SET_PROP_frame [OF c]
      have at: "chg_psy_at s1 index = Some p"
        using go fo by (simp add: chg_psy_at_def)
      note n = online_inv_set_online_new [OF _ at c]
      from fo r1 have off: "chg_all_offline s1" by simp
      show ?thesis
      proof (cases "r2 < 0")
        case True
        with assms go o r1 c have "s' = s2" by (auto simp: gcpm_chg_set_online_def)
        with n [OF off] True f fo show ?thesis by (simp add: all_offline_inv)
      next
        case False
        with f have r2: "r2 = 0" by simp
        with assms go o r1 c have "s' = s2\<lparr>chg_psy_active := index\<rparr>"
          by (auto simp: gcpm_chg_set_online_def)
        with n [OF off] r2 f fo show ?thesis by simp
      qed
    qed
  qed
qed

lemma ping_inv:
  assumes "online_inv s"
  shows "online_inv (snd (gcpm_chg_ping E index online s))"
proof (cases "chg_psy_at s index")
  case None
  with assms show ?thesis by (simp add: gcpm_chg_ping_def)
next
  case (Some p)
  obtain r s1 where c: "GPSY_SET_PROP E p POWER_SUPPLY_PROP_ONLINE 0 s = (r, s1)"
    by (cases "GPSY_SET_PROP E p POWER_SUPPLY_PROP_ONLINE 0 s")
  note f = GPSY_SET_PROP_frame [OF c]
  have "online_inv s1"
  proof (cases "r = 0")
    case False
    with f assms show ?thesis by (auto simp: online_inv_cong [of s1 s])
  next
    case True
    with f have on: "chg_psy_online s1 = (chg_psy_online s)[p := False]" by simp
    show ?thesis
      unfolding online_inv_def
    proof (intro allI impI)
      fix i assume i: "i < length (chg_psy_online s1)" and o: "chg_psy_online s1 ! i"
      from i o on have "i \<noteq> p" by auto
      with i o on assms f
      show "chg_psy_active s1 = int i \<and> chg_psy_at s1 (int i) = Some i"
        by (auto simp: online_inv_def chg_psy_at_def)
    qed
  qed
  with Some c show ?thesis by (simp add: gcpm_chg_ping_def)
qed

lemma dc_enable_frame:
  "gcpm_dc_enable E enabled s = (ret, s') \<Longrightarrow>
     chg_psy_online s' = chg_psy_online s \<and> chg_psy_active s' = chg_psy_active s \<and>
     chg_psy_avail s' = chg_psy_avail s \<and> chg_psy_count s' = chg_psy_count s \<and>
     dc_state s' = dc_state s"
  by (auto simp: gcpm_dc_enable_def log_call_def split: if_splits)

lemma dcen_gpio_set_frame:
  "chg_psy_online (dcen_gpio_set v s) = chg_psy_online s \<and>
   chg_psy_active (dcen_gpio_set v s) = chg_psy_active s \<and>
   chg_psy_avail (dcen_gpio_set v s) = chg_psy_avail s \<and>
   chg_psy_count (dcen_gpio_set v s) = chg_psy_count s \<and>
   dc_state (dcen_gpio_set v s) = dc_state s"
  by (simp add: dcen_gpio_set_def log_call_def)

lemma dc_stop_enable_inv:
  assumes "online_inv s"
  shows "online_inv (snd (gcpm_dc_stop_enable E final_state s))"
proof -
  obtain r s1 where c: "gcpm_chg_set_online E 0 s = (r, s1)"
    by (cases "gcpm_chg_set_online E 0 s")
  from set_online_inv [OF assms c] have "online_inv s1" by simp
  then have "online_inv (s1\<lparr>dc_state := final_state\<rparr>)"
    by (simp add: online_inv_cong [of "s1\<lparr>dc_state := final_state\<rparr>" s1])
  with c \<open>online_inv s1\<close> show ?thesis
    by (simp add: gcpm_dc_stop_enable_def gcpm_dc_stop_default_def)
qed

lemma dc_stop_inv:
  assumes "online_inv s"
  shows "online_inv (snd (gcpm_dc_stop E final_state s))"
proof -
  let ?s0 = "dcen_gpio_set 0 s"
  have i0: "online_inv ?s0"
    using assms dcen_gpio_set_frame [of 0 s] by (simp add: online_inv_cong [of ?s0 s])
  obtain r s1 where c: "gcpm_dc_enable E False ?s0 = (r, s1)"
    by (cases "gcpm_dc_enable E False ?s0")
  from dc_enable_frame [OF c] i0 have i1: "online_inv s1"
    by (simp add: online_inv_cong [of s1 ?s0])
  then have i2: "online_inv (s1\<lparr>dc_state := DC_ENABLE\<rparr>)"
    by (simp add: online_inv_cong [of "s1\<lparr>dc_state := DC_ENABLE\<rparr>" s1])
  have i3: "online_inv (?s0\<lparr>dc_state := final_state\<rparr>)"
    using i0 by (simp add: online_inv_cong [of "?s0\<lparr>dc_state := final_state\<rparr>" ?s0])
  show ?thesis
    using c i0 i1 i3 dc_stop_enable_inv [OF i2] dc_stop_enable_inv [OF i0]
    by (simp add: gcpm_dc_stop_def gcpm_dc_stop_default_def Let_def)
qed

lemma GPSY_SET_PROP_other_inv:
  assumes "online_inv s" and "prop \<noteq> POWER_SUPPLY_PROP_ONLINE"
  shows "online_inv (snd (GPSY_SET_PROP E p prop v s))"
proof -
  obtain r s1 where c: "GPSY_SET_PROP E p prop v s = (r, s1)"
    by (cases "GPSY_SET_PROP E p prop v s")
  from GPSY_SET_PROP_frame [OF c] assms show ?thesis
    by (simp add: c online_inv_cong [of s1 s])
qed

lemma dc_enable_inv:
  assumes "online_inv s"
  shows "online_inv (snd (gcpm_dc_enable E enabled s))"
proof -
  obtain r s1 where c: "gcpm_dc_enable E enabled s = (r, s1)"
    by (cases "gcpm_dc_enable E enabled s")
  from dc_enable_frame [OF c] assms show ?thesis
    by (simp add: c online_inv_cong [of s1 s])
qed

lemma dcen_gpio_set_inv: "online_inv s \<Longrightarrow> online_inv (dcen_gpio_set v s)"
  using dcen_gpio_set_frame [of v s] by (simp add: online_inv_cong [of "dcen_gpio_set v s" s])

lemma dc_start_inv:
  assumes "online_inv s"
  shows "online_inv (snd (gcpm_dc_start E index s))"
proof -
  obtain r s1 where c: "gcpm_chg_set_online E index s = (r, s1)"
    by (cases "gcpm_chg_set_online E index s")
  from set_online_inv [OF assms c] have i1: "online_inv s1" by simp
  show ?thesis
    using c i1
    by (auto simp: gcpm_dc_start_def Let_def split_def GPSY_SET_PROP_other_inv
        dc_enable_inv dcen_gpio_set_inv split: option.splits)
qed

lemma reachable_online_inv: "gcpm_reachable s \<Longrightarrow> online_inv s"
proof (induction rule: gcpm_reachable.induct)
  case (init s)
  then show ?case by (rule all_offline_inv)
next
  case (set_online s E index)
  then show ?case
    using set_online_inv [of s E index "fst (gcpm_chg_set_online E index s)"
        "snd (gcpm_chg_set_online E index s)"] by simp
next
  case (offline s E)
  then show ?case
    using offline_inv [of s E "fst (gcpm_chg_offline E s)" "snd (gcpm_chg_offline E s)"] by simp
next
  case (dc_start s E index)
  then show ?case by (simp add: dc_start_inv)
next
  case (dc_stop s E final_state)
  then show ?case by (simp add: dc_stop_inv)
next
  case (ping s index E online)
  then show ?case by (simp add: ping_inv)
qed

lemma filter_true_le_one:
  "(\<forall>i < length xs. xs ! i \<longrightarrow> i = k) \<Longrightarrow> length (filter (\<lambda>b. b) xs) \<le> 1"
proof (induction xs arbitrary: k)
  case Nil
  then show ?case by simp
next
  case (Cons x xs)
  show ?case
  proof (cases x)
    case True
    with Cons.prems have k: "k = 0" by auto
    have "\<forall>i < length xs. \<not> xs ! i"
    proof (intro allI impI)
      fix i assume "i < length xs"
      with Cons.prems [rule_format, of "Suc i"] k show "\<not> xs ! i" by auto
    qed
    then have "filter (\<lambda>b. b) xs = []"
      by (auto simp: filter_empty_conv in_set_conv_nth)
    with True show ?thesis by simp
  next
    case False
    have "\<forall>i < length xs. xs ! i \<longrightarrow> i = k - 1"
    proof (intro allI impI)
      fix i assume "i < length xs" "xs ! i"
      with Cons.prems [rule_format, of "Suc i"] show "i = k - 1" by auto
    qed
    from Cons.IH [OF this] False show ?thesis by simp
  qed
qed

lemma online_inv_count: "online_inv s \<Longrightarrow> chg_online_count s \<le> 1"
  unfolding chg_online_count_def
  by (rule filter_true_le_one [where k = "nat (chg_psy_active s)"]) (auto simp: online_inv_def)

text \<open>
  Claim C2. In every state the arbiter reaches from a state with no charger online by
  \<open>set_online\<close>, \<open>offline\<close>, \<open>dc_start\<close>, \<open>dc_stop\<close> and \<open>ping\<close>, at most one charger is
  online. A new charger is only marked online by \<open>gcpm_chg_set_online\<close> after
  \<open>gcpm_chg_offline\<close> has returned 0 in the same call, and when it returns 0 no charger
  is online.
\<close>

theorem at_most_one_online:
  assumes "gcpm_reachable s"
  shows "chg_online_count s \<le> 1 \<and>
         (\<forall>i j. i < length (chg_psy_online s) \<and> j < length (chg_psy_online s) \<and>
                chg_psy_online s ! i \<and> chg_psy_online s ! j \<longrightarrow> i = j) \<and>
         (\<forall>E. fst (gcpm_chg_offline E s) = 0 \<longrightarrow> chg_all_offline (snd (gcpm_chg_offline E s)))"
proof -
  from assms have inv: "online_inv s" by (rule reachable_online_inv)
  have a: "chg_online_count s \<le> 1" using inv by (rule online_inv_count)
  have b: "\<forall>i j. i < length (chg_psy_online s) \<and> j < length (chg_psy_online s) \<and>
                chg_psy_online s ! i \<and> chg_psy_online s ! j \<longrightarrow> i = j"
  proof (intro allI impI)
    fix i j
    assume h: "i < length (chg_psy_online s) \<and> j < length (chg_psy_online s) \<and>
               chg_psy_online s ! i \<and> chg_psy_online s ! j"
    with inv have "chg_psy_active s = int i" "chg_psy_active s = int j"
      by (simp_all add: online_inv_def)
    then show "i = j" by simp
  qed
  have c: "\<forall>E. fst (gcpm_chg_offline E s) = 0 \<longrightarrow> chg_all_offline (snd (gcpm_chg_offline E s))"
  proof (intro allI impI)
    fix E assume z: "fst (gcpm_chg_offline E s) = 0"
    then have "gcpm_chg_offline E s = (0, snd (gcpm_chg_offline E s))"
      by (simp add: prod_eq_iff)
    from offline_inv [OF inv this]
    show "chg_all_offline (snd (gcpm_chg_offline E s))" by simp
  qed
  from a b c show ?thesis by blast
qed

text \<open>From the started driver: \<open>dc_start\<close> on charger 1, then \<open>set_online\<close> on charger 0;
  one charger is online after each.\<close>

theorem at_most_one_online_witness:
  "gcpm_reachable (snd (gcpm_chg_set_online env_ok 0 (snd (gcpm_dc_start env_ok 1 gcpm0)))) \<and>
   chg_psy_online (snd (gcpm_dc_start env_ok 1 gcpm0)) = [False, True, False, False] \<and>
   chg_psy_online (snd (gcpm_chg_set_online env_ok 0 (snd (gcpm_dc_start env_ok 1 gcpm0))))
     = [True, False, False, False] \<and>
   chg_online_count (snd (gcpm_chg_set_online env_ok 0 (snd (gcpm_dc_start env_ok 1 gcpm0)))) \<le> 1"
proof -
  have "chg_all_offline gcpm0"
    by (simp add: chg_all_offline_def gcpm0_def less_Suc_eq nth_Cons')
  then have r: "gcpm_reachable
      (snd (gcpm_chg_set_online env_ok 0 (snd (gcpm_dc_start env_ok 1 gcpm0))))"
    by (intro gcpm_reachable.set_online gcpm_reachable.dc_start gcpm_reachable.init)
  have e: "chg_psy_online (snd (gcpm_dc_start env_ok 1 gcpm0)) = [False, True, False, False] \<and>
     chg_psy_online (snd (gcpm_chg_set_online env_ok 0 (snd (gcpm_dc_start env_ok 1 gcpm0))))
       = [True, False, False, False]"
    by (simp add: gcpm_dc_start_def gcpm_chg_set_online_def gcpm_chg_offline_def
        gcpm_chg_get_active_def chg_psy_at_def GPSY_SET_PROP_def psy_set_property_def
        gcpm_dc_enable_def dcen_gpio_set_def log_call_def env_ok_def gcpm0_def Let_def)
  from at_most_one_online [OF r] r e show ?thesis by simp
qed

subsection \<open>Errors of set-online\<close>




subsection \<open>Tear-down\<close>

lemma GPSY_fst [simp]: "fst (GPSY_SET_PROP E p prop v s) = gpsy_set_prop_ret E p prop v"
  by (simp add: GPSY_SET_PROP_def psy_set_property_def gpsy_set_prop_ret_def Let_def)

lemma GPSY_fields [simp]:
  "chg_psy_avail (snd (GPSY_SET_PROP E p prop v s)) = chg_psy_avail s"
  "chg_psy_active (snd (GPSY_SET_PROP E p prop v s)) = chg_psy_active s"
  "chg_psy_count (snd (GPSY_SET_PROP E p prop v s)) = chg_psy_count s"
  "dc_state (snd (GPSY_SET_PROP E p prop v s)) = dc_state s"
  "dc_index (snd (GPSY_SET_PROP E p prop v s)) = dc_index s"
  "gbms_mode (snd (GPSY_SET_PROP E p prop v s)) = gbms_mode s"
  "dcen_gpio (snd (GPSY_SET_PROP E p prop v s)) = dcen_gpio s"
  "dcen_gpio_default (snd (GPSY_SET_PROP E p prop v s)) = dcen_gpio_default s"
  "tcpm_pps_data (snd (GPSY_SET_PROP E p prop v s)) = tcpm_pps_data s"
  "wlc_pps_data (snd (GPSY_SET_PROP E p prop v s)) = wlc_pps_data s"
  "init_complete (snd (GPSY_SET_PROP E p prop v s)) = init_complete s"
  "resume_complete (snd (GPSY_SET_PROP E p prop v s)) = resume_complete s"
  by (simp_all add: GPSY_SET_PROP_def psy_set_property_def log_call_def Let_def)

lemma offline_fst [simp]: "fst (gcpm_chg_offline E s) = chg_offline_ret E s"
  by (simp add: gcpm_chg_offline_def chg_offline_ret_def split_def Let_def split: option.splits)

lemma offline_active [simp]:
  "chg_psy_active (snd (gcpm_chg_offline E s)) =
     (if gcpm_chg_get_active s \<noteq> None \<and> chg_offline_ret E s = 0 then - 1 else chg_psy_active s)"
  by (simp add: gcpm_chg_offline_def chg_offline_ret_def split_def Let_def split: option.splits)

lemma offline_fields [simp]:
  "chg_psy_avail (snd (gcpm_chg_offline E s)) = chg_psy_avail s"
  "chg_psy_count (snd (gcpm_chg_offline E s)) = chg_psy_count s"
  "dc_state (snd (gcpm_chg_offline E s)) = dc_state s"
  "dc_index (snd (gcpm_chg_offline E s)) = dc_index s"
  "gbms_mode (snd (gcpm_chg_offline E s)) = gbms_mode s"
  "dcen_gpio (snd (gcpm_chg_offline E s)) = dcen_gpio s"
  "dcen_gpio_default (snd (gcpm_chg_offline E s)) = dcen_gpio_default s"
  "tcpm_pps_data (snd (gcpm_chg_offline E s)) = tcpm_pps_data s"
  "wlc_pps_data (snd (gcpm_chg_offline E s)) = wlc_pps_data s"
  "init_complete (snd (gcpm_chg_offline E s)) = init_complete s"
  "resume_complete (snd (gcpm_chg_offline E s)) = resume_complete s"
  by (simp_all add: gcpm_chg_offline_def split_def Let_def split: option.splits)

lemma set_online_fst [simp]:
  "fst (gcpm_chg_set_online E index s) = chg_set_online_ret E index s"
  by (simp add: gcpm_chg_set_online_def chg_set_online_ret_def split_def Let_def
      split: option.splits)

lemma set_online_unchanged:
  "index < 0 \<or> index \<ge> chg_psy_count s \<or> index = chg_psy_active s \<or> chg_psy_at s index = None
     \<Longrightarrow> snd (gcpm_chg_set_online E index s) = s"
  by (auto simp: gcpm_chg_set_online_def)

lemma set_online_active_off_fail:
  "chg_psy_at s index = Some p \<Longrightarrow> chg_offline_ret E s < 0 \<Longrightarrow>
     chg_psy_active (snd (gcpm_chg_set_online E index s)) = chg_psy_active s"
  by (auto simp: gcpm_chg_set_online_def split_def Let_def)

lemma set_online_active_on_fail:
  "\<not> (index < 0 \<or> index \<ge> chg_psy_count s) \<Longrightarrow> index \<noteq> chg_psy_active s \<Longrightarrow>
   chg_psy_at s index = Some p \<Longrightarrow> \<not> chg_offline_ret E s < 0 \<Longrightarrow>
   gpsy_set_prop_ret E p POWER_SUPPLY_PROP_ONLINE 1 < 0 \<Longrightarrow>
     chg_psy_active (snd (gcpm_chg_set_online E index s)) =
       (if gcpm_chg_get_active s \<noteq> None \<and> chg_offline_ret E s = 0 then - 1
        else chg_psy_active s)"
  by (simp add: gcpm_chg_set_online_def split_def Let_def)

lemma set_online_fields [simp]:
  "chg_psy_avail (snd (gcpm_chg_set_online E index s)) = chg_psy_avail s"
  "chg_psy_count (snd (gcpm_chg_set_online E index s)) = chg_psy_count s"
  "dc_state (snd (gcpm_chg_set_online E index s)) = dc_state s"
  "dc_index (snd (gcpm_chg_set_online E index s)) = dc_index s"
  "gbms_mode (snd (gcpm_chg_set_online E index s)) = gbms_mode s"
  "dcen_gpio (snd (gcpm_chg_set_online E index s)) = dcen_gpio s"
  "dcen_gpio_default (snd (gcpm_chg_set_online E index s)) = dcen_gpio_default s"
  "tcpm_pps_data (snd (gcpm_chg_set_online E index s)) = tcpm_pps_data s"
  "wlc_pps_data (snd (gcpm_chg_set_online E index s)) = wlc_pps_data s"
  "init_complete (snd (gcpm_chg_set_online E index s)) = init_complete s"
  "resume_complete (snd (gcpm_chg_set_online E index s)) = resume_complete s"
  by (simp_all add: gcpm_chg_set_online_def split_def Let_def split: option.splits)

lemma registry_cong:
  assumes "chg_psy_active s' = chg_psy_active s" and "chg_psy_avail s' = chg_psy_avail s"
    and "chg_psy_count s' = chg_psy_count s"
  shows "chg_psy_at s' i = chg_psy_at s i"
    and "gcpm_chg_get_active s' = gcpm_chg_get_active s"
    and "chg_offline_ret E s' = chg_offline_ret E s"
    and "chg_set_online_ret E i s' = chg_set_online_ret E i s"
  using assms
  by (simp_all add: chg_psy_at_def gcpm_chg_get_active_def chg_offline_ret_def
      chg_set_online_ret_def)

lemma get_active_cleared:
  "chg_psy_active s' = - 1 \<Longrightarrow> gcpm_chg_get_active s' = None"
  by (simp add: gcpm_chg_get_active_def)

lemma offline_ret_none: "gcpm_chg_get_active s = None \<Longrightarrow> chg_offline_ret E s = 0"
  by (simp add: chg_offline_ret_def)

lemma set_online_ret_again:
  assumes neg: "chg_set_online_ret E index s < 0"
    and act: "chg_psy_active s' = chg_psy_active (snd (gcpm_chg_set_online E index s))"
    and av: "chg_psy_avail s' = chg_psy_avail s" and cnt: "chg_psy_count s' = chg_psy_count s"
  shows "chg_set_online_ret E index s' < 0 \<and>
         chg_psy_active (snd (gcpm_chg_set_online E index s')) = chg_psy_active s'"
proof -
  consider (range) "index < 0 \<or> index \<ge> chg_psy_count s"
    | (nodev) "\<not> (index < 0 \<or> index \<ge> chg_psy_count s)" "index \<noteq> chg_psy_active s"
        "chg_psy_at s index = None"
    | (off) p where "\<not> (index < 0 \<or> index \<ge> chg_psy_count s)" "index \<noteq> chg_psy_active s"
        "chg_psy_at s index = Some p" "chg_offline_ret E s < 0"
    | (on) p where "\<not> (index < 0 \<or> index \<ge> chg_psy_count s)" "index \<noteq> chg_psy_active s"
        "chg_psy_at s index = Some p" "\<not> chg_offline_ret E s < 0"
        "gpsy_set_prop_ret E p POWER_SUPPLY_PROP_ONLINE 1 < 0"
    using neg by (cases "chg_psy_at s index") (auto simp: chg_set_online_ret_def split: if_splits)
  then show ?thesis
  proof cases
    case range
    with cnt have "index < 0 \<or> index \<ge> chg_psy_count s'" by simp
    then show ?thesis
      using set_online_unchanged [of index s' E] by (auto simp: chg_set_online_ret_def)
  next
    case nodev
    then have "snd (gcpm_chg_set_online E index s) = s" by (simp add: set_online_unchanged)
    with act have a: "chg_psy_active s' = chg_psy_active s" by simp
    from registry_cong [OF a av cnt] nodev a cnt
    have "chg_psy_at s' index = None" "chg_set_online_ret E index s' = - EINVAL"
      by (simp_all add: chg_set_online_ret_def)
    then show ?thesis using set_online_unchanged [of index s' E] by simp
  next
    case off
    with act have a: "chg_psy_active s' = chg_psy_active s"
      by (simp add: set_online_active_off_fail)
    from registry_cong [OF a av cnt] off a cnt
    have "chg_psy_at s' index = Some p" "chg_offline_ret E s' < 0"
      "chg_set_online_ret E index s' = - EIO"
      by (simp_all add: chg_set_online_ret_def)
    then show ?thesis by (simp add: set_online_active_off_fail)
  next
    case on
    have at: "chg_psy_at s' index = Some p"
      using on(3) av by (simp add: chg_psy_at_def)
    have a: "chg_psy_active s' =
        (if gcpm_chg_get_active s \<noteq> None \<and> chg_offline_ret E s = 0 then - 1
         else chg_psy_active s)"
      using act on by (simp add: set_online_active_on_fail)
    have ne: "index \<noteq> chg_psy_active s'"
      using a on by (auto split: if_splits)
    have none: "gcpm_chg_get_active s' = None"
    proof (cases "gcpm_chg_get_active s")
      case None
      with a have "chg_psy_active s' = chg_psy_active s" by simp
      from registry_cong(2) [OF this av cnt] None show ?thesis by simp
    next
      case (Some q)
      have "chg_offline_ret E s \<le> 0"
        using Some by (simp add: chg_offline_ret_def gpsy_set_prop_ret_def)
      with on(4) have "chg_offline_ret E s = 0" by simp
      with a Some have "chg_psy_active s' = - 1" by simp
      then show ?thesis by (rule get_active_cleared)
    qed
    from offline_ret_none [OF none] have z: "chg_offline_ret E s' = 0" .
    have r: "\<not> (index < 0 \<or> index \<ge> chg_psy_count s')" using on cnt by simp
    have "chg_set_online_ret E index s' < 0"
      using on cnt ne at z by (simp add: chg_set_online_ret_def)
    moreover have "chg_psy_active (snd (gcpm_chg_set_online E index s')) = chg_psy_active s'"
      using set_online_active_on_fail [OF r ne at _ on(5)] z none by simp
    ultimately show ?thesis by simp
  qed
qed

lemma dc_enable_fst [simp]: "fst (gcpm_dc_enable E enabled s) = dc_enable_ret E enabled s"
  by (simp add: gcpm_dc_enable_def dc_enable_ret_def)

lemma dc_enable_fields [simp]:
  "gbms_mode (snd (gcpm_dc_enable E enabled s)) = (gbms_mode s \<or> gvotable_election_get_handle E)"
  "chg_psy_avail (snd (gcpm_dc_enable E enabled s)) = chg_psy_avail s"
  "chg_psy_active (snd (gcpm_dc_enable E enabled s)) = chg_psy_active s"
  "chg_psy_count (snd (gcpm_dc_enable E enabled s)) = chg_psy_count s"
  "dc_state (snd (gcpm_dc_enable E enabled s)) = dc_state s"
  "dc_index (snd (gcpm_dc_enable E enabled s)) = dc_index s"
  "dcen_gpio (snd (gcpm_dc_enable E enabled s)) = dcen_gpio s"
  "dcen_gpio_default (snd (gcpm_dc_enable E enabled s)) = dcen_gpio_default s"
  "tcpm_pps_data (snd (gcpm_dc_enable E enabled s)) = tcpm_pps_data s"
  "wlc_pps_data (snd (gcpm_dc_enable E enabled s)) = wlc_pps_data s"
  "init_complete (snd (gcpm_dc_enable E enabled s)) = init_complete s"
  "resume_complete (snd (gcpm_dc_enable E enabled s)) = resume_complete s"
  by (auto simp: gcpm_dc_enable_def log_call_def)

lemma dcen_gpio_set_fields [simp]:
  "gbms_mode (dcen_gpio_set v s) = gbms_mode s"
  "chg_psy_avail (dcen_gpio_set v s) = chg_psy_avail s"
  "chg_psy_active (dcen_gpio_set v s) = chg_psy_active s"
  "chg_psy_count (dcen_gpio_set v s) = chg_psy_count s"
  "dc_state (dcen_gpio_set v s) = dc_state s"
  "dc_index (dcen_gpio_set v s) = dc_index s"
  "dcen_gpio (dcen_gpio_set v s) = dcen_gpio s"
  "dcen_gpio_default (dcen_gpio_set v s) = dcen_gpio_default s"
  "tcpm_pps_data (dcen_gpio_set v s) = tcpm_pps_data s"
  "wlc_pps_data (dcen_gpio_set v s) = wlc_pps_data s"
  "init_complete (dcen_gpio_set v s) = init_complete s"
  "resume_complete (dcen_gpio_set v s) = resume_complete s"
  by (simp_all add: dcen_gpio_set_def log_call_def)

lemma log_call_fields [simp]:
  "gbms_mode (log_call c s) = gbms_mode s"
  "chg_psy_avail (log_call c s) = chg_psy_avail s"
  "chg_psy_active (log_call c s) = chg_psy_active s"
  "chg_psy_count (log_call c s) = chg_psy_count s"
  "dc_state (log_call c s) = dc_state s"
  "dc_index (log_call c s) = dc_index s"
  "dcen_gpio (log_call c s) = dcen_gpio s"
  "dcen_gpio_default (log_call c s) = dcen_gpio_default s"
  "tcpm_pps_data (log_call c s) = tcpm_pps_data s"
  "wlc_pps_data (log_call c s) = wlc_pps_data s"
  "init_complete (log_call c s) = init_complete s"
  "resume_complete (log_call c s) = resume_complete s"
  by (simp_all add: log_call_def)

lemma dc_stop_enable_fst:
  "fst (gcpm_dc_stop_enable E final_state s) =
     (if chg_set_online_ret E 0 s < 0 then chg_set_online_ret E 0 s else 0)"
  by (simp add: gcpm_dc_stop_enable_def gcpm_dc_stop_default_def split_def Let_def)

lemma dc_stop_enable_fields:
  "dc_state (snd (gcpm_dc_stop_enable E final_state s)) =
     (if chg_set_online_ret E 0 s < 0 then dc_state s else final_state)"
  "chg_psy_active (snd (gcpm_dc_stop_enable E final_state s)) =
     chg_psy_active (snd (gcpm_chg_set_online E 0 s))"
  "chg_psy_avail (snd (gcpm_dc_stop_enable E final_state s)) = chg_psy_avail s"
  "chg_psy_count (snd (gcpm_dc_stop_enable E final_state s)) = chg_psy_count s"
  "gbms_mode (snd (gcpm_dc_stop_enable E final_state s)) = gbms_mode s"
  "dcen_gpio (snd (gcpm_dc_stop_enable E final_state s)) = dcen_gpio s"
  "dcen_gpio_default (snd (gcpm_dc_stop_enable E final_state s)) = dcen_gpio_default s"
  "dc_index (snd (gcpm_dc_stop_enable E final_state s)) = dc_index s"
  "tcpm_pps_data (snd (gcpm_dc_stop_enable E final_state s)) = tcpm_pps_data s"
  "wlc_pps_data (snd (gcpm_dc_stop_enable E final_state s)) = wlc_pps_data s"
  "init_complete (snd (gcpm_dc_stop_enable E final_state s)) = init_complete s"
  "resume_complete (snd (gcpm_dc_stop_enable E final_state s)) = resume_complete s"
  by (simp_all add: gcpm_dc_stop_enable_def gcpm_dc_stop_default_def split_def Let_def)

lemma dc_stop_enable_again:
  assumes "fst (gcpm_dc_stop_enable E final_state s) < 0"
    and "same_ctl (snd (gcpm_dc_stop_enable E final_state s)) s'"
  shows "fst (gcpm_dc_stop_enable E final_state s') < 0 \<and>
         dc_state (snd (gcpm_dc_stop_enable E final_state s')) = dc_state s' \<and>
         chg_psy_active (snd (gcpm_dc_stop_enable E final_state s')) = chg_psy_active s'"
proof -
  from assms(1) have f: "chg_set_online_ret E 0 s < 0"
    by (simp add: dc_stop_enable_fst split: if_splits)
  from assms(2) have r: "chg_psy_active s' = chg_psy_active (snd (gcpm_chg_set_online E 0 s))"
    "chg_psy_avail s' = chg_psy_avail s" "chg_psy_count s' = chg_psy_count s"
    by (simp_all add: same_ctl_def dc_stop_enable_fields)
  from set_online_ret_again [OF f r] show ?thesis
    by (simp add: dc_stop_enable_fst dc_stop_enable_fields)
qed

lemma dc_enable_ret_gpio [simp]:
  "dc_enable_ret E enabled (dcen_gpio_set v s) = dc_enable_ret E enabled s"
  by (simp add: dc_enable_ret_def)

lemma dc_stop_vote_fail:
  "dc_state s = DC_RUNNING \<or> dc_state s = DC_PASSTHROUGH \<Longrightarrow> dc_enable_ret E False s < 0 \<Longrightarrow>
     gcpm_dc_stop E final_state s =
       (dc_enable_ret E False s, snd (gcpm_dc_enable E False (dcen_gpio_set 0 s)))"
  by (auto simp: gcpm_dc_stop_def Let_def split_def prod_eq_iff)

lemma dc_stop_vote_ok:
  "dc_state s = DC_RUNNING \<or> dc_state s = DC_PASSTHROUGH \<Longrightarrow> \<not> dc_enable_ret E False s < 0 \<Longrightarrow>
     gcpm_dc_stop E final_state s =
       gcpm_dc_stop_enable E final_state
         ((snd (gcpm_dc_enable E False (dcen_gpio_set 0 s)))\<lparr>dc_state := DC_ENABLE\<rparr>)"
  by (auto simp: gcpm_dc_stop_def Let_def split_def)

lemma dc_stop_enable_case:
  "dc_state s = DC_ENABLE \<or> dc_state s = DC_ENABLE_PASSTHROUGH \<Longrightarrow>
     gcpm_dc_stop E final_state s = gcpm_dc_stop_enable E final_state (dcen_gpio_set 0 s)"
  by (auto simp: gcpm_dc_stop_def Let_def)

lemma dc_stop_default_case:
  "dc_state s \<noteq> DC_RUNNING \<Longrightarrow> dc_state s \<noteq> DC_PASSTHROUGH \<Longrightarrow> dc_state s \<noteq> DC_ENABLE \<Longrightarrow>
   dc_state s \<noteq> DC_ENABLE_PASSTHROUGH \<Longrightarrow>
     gcpm_dc_stop E final_state s = (0, (dcen_gpio_set 0 s)\<lparr>dc_state := final_state\<rparr>)"
  by (simp add: gcpm_dc_stop_def gcpm_dc_stop_default_def Let_def)

lemma dc_stop_again:
  assumes neg: "fst (gcpm_dc_stop E final_state s) < 0"
    and same: "same_ctl (snd (gcpm_dc_stop E final_state s)) s'"
  shows "fst (gcpm_dc_stop E final_state s') < 0 \<and>
         dc_state (snd (gcpm_dc_stop E final_state s')) = dc_state s' \<and>
         chg_psy_active (snd (gcpm_dc_stop E final_state s')) = chg_psy_active s'"
proof -
  let ?s0 = "dcen_gpio_set 0 s"
  consider (vote_fail) "dc_state s = DC_RUNNING \<or> dc_state s = DC_PASSTHROUGH"
        "dc_enable_ret E False s < 0"
    | (vote_ok) "dc_state s = DC_RUNNING \<or> dc_state s = DC_PASSTHROUGH"
        "\<not> dc_enable_ret E False s < 0"
    | (enable) "dc_state s = DC_ENABLE \<or> dc_state s = DC_ENABLE_PASSTHROUGH"
    | (other) "dc_state s \<noteq> DC_RUNNING" "dc_state s \<noteq> DC_PASSTHROUGH"
        "dc_state s \<noteq> DC_ENABLE" "dc_state s \<noteq> DC_ENABLE_PASSTHROUGH"
    by blast
  then show ?thesis
  proof cases
    case vote_fail
    from same have c: "dc_state s' = dc_state s"
      "gbms_mode s' = (gbms_mode s \<or> gvotable_election_get_handle E)"
      by (simp_all add: same_ctl_def dc_stop_vote_fail [OF vote_fail])
    with vote_fail have st: "dc_state s' = DC_RUNNING \<or> dc_state s' = DC_PASSTHROUGH" by simp
    have v: "dc_enable_ret E False s' < 0"
      using vote_fail(2) c(2) by (auto simp: dc_enable_ret_def split: if_splits)
    show ?thesis by (simp add: dc_stop_vote_fail [OF st v] v)
  next
    case vote_ok
    let ?x = "(snd (gcpm_dc_enable E False ?s0))\<lparr>dc_state := DC_ENABLE\<rparr>"
    have eq: "gcpm_dc_stop E final_state s = gcpm_dc_stop_enable E final_state ?x"
      by (rule dc_stop_vote_ok [OF vote_ok])
    with neg have n: "fst (gcpm_dc_stop_enable E final_state ?x) < 0" by simp
    then have "dc_state (snd (gcpm_dc_stop_enable E final_state ?x)) = DC_ENABLE"
      by (simp add: dc_stop_enable_fst dc_stop_enable_fields split: if_splits)
    with same eq have st: "dc_state s' = DC_ENABLE \<or> dc_state s' = DC_ENABLE_PASSTHROUGH"
      by (simp add: same_ctl_def)
    from same eq have "same_ctl (snd (gcpm_dc_stop_enable E final_state ?x)) (dcen_gpio_set 0 s')"
      by (simp add: same_ctl_def)
    from dc_stop_enable_again [OF n this] show ?thesis
      by (simp add: dc_stop_enable_case [OF st])
  next
    case enable
    have eq: "gcpm_dc_stop E final_state s = gcpm_dc_stop_enable E final_state ?s0"
      by (rule dc_stop_enable_case [OF enable])
    with neg have n: "fst (gcpm_dc_stop_enable E final_state ?s0) < 0" by simp
    then have "dc_state (snd (gcpm_dc_stop_enable E final_state ?s0)) = dc_state s"
      by (simp add: dc_stop_enable_fst dc_stop_enable_fields split: if_splits)
    with same eq enable
    have st: "dc_state s' = DC_ENABLE \<or> dc_state s' = DC_ENABLE_PASSTHROUGH"
      by (simp add: same_ctl_def)
    from same eq have "same_ctl (snd (gcpm_dc_stop_enable E final_state ?s0)) (dcen_gpio_set 0 s')"
      by (simp add: same_ctl_def)
    from dc_stop_enable_again [OF n this] show ?thesis
      by (simp add: dc_stop_enable_case [OF st])
  next
    case other
    with neg show ?thesis by (simp add: dc_stop_default_case)
  qed
qed

lemma dc_stop_result:
  "dc_index (snd (gcpm_dc_stop E final_state s)) = dc_index s"
  "tcpm_pps_data (snd (gcpm_dc_stop E final_state s)) = tcpm_pps_data s"
  "wlc_pps_data (snd (gcpm_dc_stop E final_state s)) = wlc_pps_data s"
  "init_complete (snd (gcpm_dc_stop E final_state s)) = init_complete s"
  "resume_complete (snd (gcpm_dc_stop E final_state s)) = resume_complete s"
  "\<not> fst (gcpm_dc_stop E final_state s) < 0 \<Longrightarrow>
     dc_state (snd (gcpm_dc_stop E final_state s)) = final_state"
  "fst (gcpm_dc_stop E final_state s) < 0 \<Longrightarrow> 0 < dc_state s \<Longrightarrow>
     0 < dc_state (snd (gcpm_dc_stop E final_state s))"
  by (auto simp: gcpm_dc_stop_def Let_def split_def dc_stop_enable_fields dc_stop_enable_fst
      gcpm_dc_stop_default_def split: if_splits)

lemma pps_offline_fields:
  "fst (gcpm_pps_offline E s) = 0"
  "dc_state (snd (gcpm_pps_offline E s)) = dc_state s"
  "dc_index (snd (gcpm_pps_offline E s)) = dc_index s"
  "init_complete (snd (gcpm_pps_offline E s)) = init_complete s"
  "resume_complete (snd (gcpm_pps_offline E s)) = resume_complete s"
  by (simp_all add: gcpm_pps_offline_def gcpm_pps_offline_src_def pps_call_def pps_data_set_def
      log_call_def Let_def split_def split: pps_src.splits)

lemma reschedule_fields [simp]:
  "gbms_mode (pps_dc_reschedule ui s) = gbms_mode s"
  "chg_psy_avail (pps_dc_reschedule ui s) = chg_psy_avail s"
  "chg_psy_active (pps_dc_reschedule ui s) = chg_psy_active s"
  "chg_psy_count (pps_dc_reschedule ui s) = chg_psy_count s"
  "dc_state (pps_dc_reschedule ui s) = dc_state s"
  "dc_index (pps_dc_reschedule ui s) = dc_index s"
  "dcen_gpio (pps_dc_reschedule ui s) = dcen_gpio s"
  "dcen_gpio_default (pps_dc_reschedule ui s) = dcen_gpio_default s"
  "tcpm_pps_data (pps_dc_reschedule ui s) = tcpm_pps_data s"
  "wlc_pps_data (pps_dc_reschedule ui s) = wlc_pps_data s"
  "init_complete (pps_dc_reschedule ui s) = init_complete s"
  "resume_complete (pps_dc_reschedule ui s) = resume_complete s"
  by (simp_all add: pps_dc_reschedule_def)

lemma work_disable_idle: "dc_state s \<le> DC_IDLE \<Longrightarrow> gcpm_dc_work_disable E s = s"
  by (simp add: gcpm_dc_work_disable_def)

lemma work_disable_fail:
  "\<not> dc_state s \<le> DC_IDLE \<Longrightarrow> fst (gcpm_dc_stop E DC_DISABLED s) < 0 \<Longrightarrow>
     gcpm_dc_work_disable E s =
       pps_dc_reschedule DC_ERROR_RETRY_MS (snd (gcpm_dc_stop E DC_DISABLED s))"
  by (simp add: gcpm_dc_work_disable_def split_def)

lemma work_disable_done:
  "\<not> dc_state s \<le> DC_IDLE \<Longrightarrow> \<not> fst (gcpm_dc_stop E DC_DISABLED s) < 0 \<Longrightarrow>
     dc_state (gcpm_dc_work_disable E s) \<le> DC_IDLE"
  by (simp add: gcpm_dc_work_disable_def split_def Let_def pps_offline_fields dc_stop_result)

lemma work_disable_fields:
  "dc_index (gcpm_dc_work_disable E s) = dc_index s"
  "init_complete (gcpm_dc_work_disable E s) = init_complete s"
  "resume_complete (gcpm_dc_work_disable E s) = resume_complete s"
  by (simp_all add: gcpm_dc_work_disable_def split_def Let_def pps_offline_fields dc_stop_result)

lemma work_disable_twice:
  "arbiter_view (gcpm_dc_work_disable E (gcpm_dc_work_disable E s)) =
   arbiter_view (gcpm_dc_work_disable E s)"
proof (cases "dc_state s \<le> DC_IDLE")
  case True
  then show ?thesis by (simp add: work_disable_idle)
next
  case False
  show ?thesis
  proof (cases "fst (gcpm_dc_stop E DC_DISABLED s) < 0")
    case fin: False
    from work_disable_done [OF False fin] show ?thesis by (simp add: work_disable_idle)
  next
    case True
    let ?s1 = "snd (gcpm_dc_stop E DC_DISABLED s)"
    let ?t = "pps_dc_reschedule DC_ERROR_RETRY_MS ?s1"
    have t: "gcpm_dc_work_disable E s = ?t" by (rule work_disable_fail [OF False True])
    have same: "same_ctl ?s1 ?t" by (simp add: same_ctl_def)
    note again = dc_stop_again [OF True same]
    from False True have "0 < dc_state ?s1" by (simp add: dc_stop_result)
    then have nt: "\<not> dc_state ?t \<le> DC_IDLE" by simp
    from again have "gcpm_dc_work_disable E ?t =
        pps_dc_reschedule DC_ERROR_RETRY_MS (snd (gcpm_dc_stop E DC_DISABLED ?t))"
      by (intro work_disable_fail [OF nt]) simp
    with again t show ?thesis
      by (simp add: arbiter_view_def dc_stop_result)
  qed
qed

text \<open>
  Claim C7. The tear-down is the PPS work run with \<open>dc_index \<le> 0\<close>: it votes the DC
  hardware off, puts the default charger online, takes the PPS sessions offline and sets
  the DC state to Disabled, or Idle when \<open>dc_index\<close> is the default index. For every
  starting state and all answers of the collaborators, running it twice in succession
  leaves the DC state, the active charger and the stage of each PPS session as one run
  leaves them. Once a run has ended in Idle or Disabled, a further run returns the state
  as it is, whatever the collaborators would answer.
\<close>

theorem teardown_idempotent:
  assumes "dc_index s \<le> 0"
  shows "arbiter_view (gcpm_pps_wlc_dc_work E now' (gcpm_pps_wlc_dc_work E now s)) =
           arbiter_view (gcpm_pps_wlc_dc_work E now s) \<and>
         (dc_state (gcpm_pps_wlc_dc_work E now s) \<le> DC_IDLE \<longrightarrow>
            (\<forall>E'. gcpm_pps_wlc_dc_work E' now' (gcpm_pps_wlc_dc_work E now s) =
                  gcpm_pps_wlc_dc_work E now s))"
proof (cases "init_complete s \<and> resume_complete s")
  case False
  then have "\<And>E n. gcpm_pps_wlc_dc_work E n s = s" by (auto simp: gcpm_pps_wlc_dc_work_def)
  then show ?thesis by simp
next
  case True
  with assms have w: "gcpm_pps_wlc_dc_work E now s = gcpm_dc_work_disable E s"
    by (simp add: gcpm_pps_wlc_dc_work_def)
  let ?t = "gcpm_dc_work_disable E s"
  from True assms have w2: "\<And>E'. gcpm_pps_wlc_dc_work E' now' ?t = gcpm_dc_work_disable E' ?t"
    by (simp add: gcpm_pps_wlc_dc_work_def work_disable_fields)
  show ?thesis
    using w w2 work_disable_twice [of E s] by (simp add: work_disable_idle)
qed

text \<open>Tearing down a running direct charge: with collaborators that accept, one run
  and two runs end in Idle on the default charger with both sessions Disabled; with a
  votable that refuses, one run and two runs leave Passthrough on charger 1.\<close>

theorem teardown_idempotent_witness:
  "dc_index gcpm_passthrough \<le> 0 \<and>
   arbiter_view gcpm_passthrough = (DC_PASSTHROUGH, 1, PPS_ACTIVE, PPS_NONE) \<and>
   arbiter_view (gcpm_pps_wlc_dc_work env_ok 200 gcpm_passthrough)
     = (DC_IDLE, 0, PPS_DISABLED, PPS_DISABLED) \<and>
   arbiter_view (gcpm_pps_wlc_dc_work env_ok 201 (gcpm_pps_wlc_dc_work env_ok 200 gcpm_passthrough))
     = (DC_IDLE, 0, PPS_DISABLED, PPS_DISABLED) \<and>
   arbiter_view (gcpm_pps_wlc_dc_work env_vote_refused 200 gcpm_passthrough)
     = (DC_PASSTHROUGH, 1, PPS_ACTIVE, PPS_NONE) \<and>
   arbiter_view (gcpm_pps_wlc_dc_work env_vote_refused 201
       (gcpm_pps_wlc_dc_work env_vote_refused 200 gcpm_passthrough))
     = (DC_PASSTHROUGH, 1, PPS_ACTIVE, PPS_NONE)"
proof -
  have d: "dc_index gcpm_passthrough \<le> 0"
    by (simp add: gcpm_passthrough_def)
  have a: "arbiter_view (gcpm_pps_wlc_dc_work env_ok 200 gcpm_passthrough)
     = (DC_IDLE, 0, PPS_DISABLED, PPS_DISABLED)"
    by (simp add: gcpm_pps_wlc_dc_work_def gcpm_dc_work_disable_def gcpm_dc_stop_def
        gcpm_dc_stop_enable_def gcpm_dc_stop_default_def gcpm_dc_enable_def dcen_gpio_set_def
        gcpm_chg_set_online_def gcpm_chg_offline_def gcpm_chg_get_active_def chg_psy_at_def
        GPSY_SET_PROP_def psy_set_property_def gcpm_pps_offline_def gcpm_pps_offline_src_def
        pps_call_def pps_data_set_def pps_data_of_def pps_dc_reschedule_def log_call_def
        arbiter_view_def Let_def env_ok_def env_vote_refused_def gcpm_passthrough_def
        gcpm_demand_def gcpm0_def pps_data0_def)
  have b: "arbiter_view (gcpm_pps_wlc_dc_work env_vote_refused 200 gcpm_passthrough)
     = (DC_PASSTHROUGH, 1, PPS_ACTIVE, PPS_NONE)"
    by (simp add: gcpm_pps_wlc_dc_work_def gcpm_dc_work_disable_def gcpm_dc_stop_def
        gcpm_dc_stop_enable_def gcpm_dc_stop_default_def gcpm_dc_enable_def dcen_gpio_set_def
        gcpm_chg_set_online_def gcpm_chg_offline_def gcpm_chg_get_active_def chg_psy_at_def
        GPSY_SET_PROP_def psy_set_property_def gcpm_pps_offline_def gcpm_pps_offline_src_def
        pps_call_def pps_data_set_def pps_data_of_def pps_dc_reschedule_def log_call_def
        arbiter_view_def Let_def env_ok_def env_vote_refused_def gcpm_passthrough_def
        gcpm_demand_def gcpm0_def pps_data0_def)
  have c: "arbiter_view gcpm_passthrough = (DC_PASSTHROUGH, 1, PPS_ACTIVE, PPS_NONE)"
    by (simp add: gcpm_pps_wlc_dc_work_def gcpm_dc_work_disable_def gcpm_dc_stop_def
        gcpm_dc_stop_enable_def gcpm_dc_stop_default_def gcpm_dc_enable_def dcen_gpio_set_def
        gcpm_chg_set_online_def gcpm_chg_offline_def gcpm_chg_get_active_def chg_psy_at_def
        GPSY_SET_PROP_def psy_set_property_def gcpm_pps_offline_def gcpm_pps_offline_src_def
        pps_call_def pps_data_set_def pps_data_of_def pps_dc_reschedule_def log_call_def
        arbiter_view_def Let_def env_ok_def env_vote_refused_def gcpm_passthrough_def
        gcpm_demand_def gcpm0_def pps_data0_def)
  from teardown_idempotent [OF d, of env_ok 201 200]
    teardown_idempotent [OF d, of env_vote_refused 201 200] a b c d
  show ?thesis by simp
qed

subsection \<open>The hand-over to the DC charger\<close>

lemma GPSY_accepted:
  "psy_accepts E p prop v \<Longrightarrow>
     GPSY_SET_PROP E p prop v s =
       (0, if prop = POWER_SUPPLY_PROP_ONLINE
           then s\<lparr>calls := calls s @ [Set_prop p prop v],
                  chg_psy_online := (chg_psy_online s)[p := (v \<noteq> 0)]\<rparr>
           else s\<lparr>calls := calls s @ [Set_prop p prop v]\<rparr>)"
  by (auto simp: GPSY_SET_PROP_def psy_set_property_def log_call_def psy_accepts_def Let_def)

lemma GPSY_refused:
  "\<not> psy_accepts E p prop v \<Longrightarrow>
     GPSY_SET_PROP E p prop v s =
       (power_supply_set_property E p prop v, s\<lparr>calls := calls s @ [Set_prop p prop v]\<rparr>)"
  by (simp add: GPSY_SET_PROP_def psy_set_property_def log_call_def psy_accepts_def Let_def)

lemma offline_accepted:
  assumes "gcpm_chg_get_active s = Some old"
    and "psy_accepts E old GBMS_PROP_CHARGING_ENABLED 0"
    and "psy_accepts E old POWER_SUPPLY_PROP_ONLINE 0"
  shows "gcpm_chg_offline E s =
     (0, s\<lparr>chg_psy_active := - 1,
            chg_psy_online := (chg_psy_online s)[old := False],
            calls := calls s @ [Set_prop old GBMS_PROP_CHARGING_ENABLED 0,
                                Set_prop old POWER_SUPPLY_PROP_ONLINE 0]\<rparr>)"
  using assms by (simp add: gcpm_chg_offline_def GPSY_accepted)

lemma set_online_from_none:
  assumes "chg_psy_active s = - 1" and "0 \<le> index" and "index < chg_psy_count s"
    and "chg_psy_at s index = Some new"
  shows "psy_accepts E new POWER_SUPPLY_PROP_ONLINE 1 \<Longrightarrow>
           gcpm_chg_set_online E index s =
             (0, s\<lparr>chg_psy_active := index,
                    chg_psy_online := (chg_psy_online s)[new := True],
                    calls := calls s @ [Set_prop new POWER_SUPPLY_PROP_ONLINE 1]\<rparr>)"
    and "\<not> psy_accepts E new POWER_SUPPLY_PROP_ONLINE 1 \<Longrightarrow>
           gcpm_chg_set_online E index s =
             (power_supply_set_property E new POWER_SUPPLY_PROP_ONLINE 1,
              s\<lparr>calls := calls s @ [Set_prop new POWER_SUPPLY_PROP_ONLINE 1]\<rparr>)"
  using assms
  by (simp_all add: gcpm_chg_set_online_def gcpm_chg_offline_def gcpm_chg_get_active_def
      GPSY_accepted GPSY_refused psy_accepts_def)

lemma get_active_index:
  "0 \<le> index \<Longrightarrow> chg_psy_active s = index \<Longrightarrow> gcpm_chg_get_active s = chg_psy_at s index"
  by (auto simp: gcpm_chg_get_active_def)

lemma chg_psy_at_upd [simp]:
  "chg_psy_at (s\<lparr>calls := c\<rparr>) i = chg_psy_at s i"
  "chg_psy_at (s\<lparr>chg_psy_online := on\<rparr>) i = chg_psy_at s i"
  "chg_psy_at (s\<lparr>chg_psy_active := a\<rparr>) i = chg_psy_at s i"
  by (simp_all add: chg_psy_at_def)

lemma dc_enable_ret_accepted:
  "dc_enable_ret E True s < 0 \<longleftrightarrow> \<not> dc_vote_accepted E s"
  by (auto simp: dc_enable_ret_def dc_vote_accepted_def)

lemma dc_enable_ret_refused:
  "\<not> dc_vote_accepted E s \<Longrightarrow> dc_enable_ret E True s \<noteq> 0"
  by (auto simp: dc_enable_ret_def dc_vote_accepted_def)

lemma dc_enable_accepted:
  "dc_vote_accepted E s \<Longrightarrow>
     snd (gcpm_dc_enable E True s) = s\<lparr>gbms_mode := True, calls := calls s @ [Cast_vote True]\<rparr>"
  by (auto simp: gcpm_dc_enable_def dc_vote_accepted_def log_call_def)

lemma dc_vote_accepted_upd [simp]:
  "dc_vote_accepted E (s\<lparr>calls := c\<rparr>) = dc_vote_accepted E s"
  "dc_vote_accepted E (s\<lparr>chg_psy_online := on\<rparr>) = dc_vote_accepted E s"
  "dc_vote_accepted E (s\<lparr>chg_psy_active := a\<rparr>) = dc_vote_accepted E s"
  "dc_vote_accepted E (dcen_gpio_set v s) = dc_vote_accepted E s"
  by (simp_all add: dc_vote_accepted_def)

lemma dcen_gpio_set_calls:
  "dcen_gpio_set v s = s\<lparr>calls := calls s @ dcen_gpio_calls s v\<rparr>"
  by (simp add: dcen_gpio_set_def dcen_gpio_calls_def log_call_def)

lemma dcen_gpio_calls_upd [simp]:
  "dcen_gpio_calls (s\<lparr>calls := c\<rparr>) v = dcen_gpio_calls s v"
  "dcen_gpio_calls (s\<lparr>chg_psy_online := on\<rparr>) v = dcen_gpio_calls s v"
  "dcen_gpio_calls (s\<lparr>chg_psy_active := a\<rparr>) v = dcen_gpio_calls s v"
  by (simp_all add: dcen_gpio_calls_def)

text \<open>\<open>gcpm_dc_start\<close> from a registry with no active charger.\<close>

lemma dc_start_online_refused:
  assumes "chg_psy_active s = - 1" and "0 \<le> index" and "index < chg_psy_count s"
    and "chg_psy_at s index = Some new"
    and "\<not> psy_accepts E new POWER_SUPPLY_PROP_ONLINE 1"
  shows "gcpm_dc_start E index s =
           (power_supply_set_property E new POWER_SUPPLY_PROP_ONLINE 1,
            s\<lparr>calls := calls s @ [Set_prop new POWER_SUPPLY_PROP_ONLINE 1]\<rparr>)"
  using assms
  by (simp add: gcpm_dc_start_def set_online_from_none(2) psy_accepts_def)

lemma dc_start_fv_refused:
  assumes "chg_psy_active s = - 1" and "0 \<le> index" and "index < chg_psy_count s"
    and "chg_psy_at s index = Some new"
    and "psy_accepts E new POWER_SUPPLY_PROP_ONLINE 1"
    and "\<not> psy_accepts E new POWER_SUPPLY_PROP_CONSTANT_CHARGE_VOLTAGE_MAX (fv_uv s)"
  shows "gcpm_dc_start E index s =
           (power_supply_set_property E new POWER_SUPPLY_PROP_CONSTANT_CHARGE_VOLTAGE_MAX (fv_uv s),
            s\<lparr>chg_psy_active := index,
               chg_psy_online := (chg_psy_online s)[new := True],
               calls := calls s @ [Set_prop new POWER_SUPPLY_PROP_ONLINE 1,
                 Set_prop new POWER_SUPPLY_PROP_CONSTANT_CHARGE_VOLTAGE_MAX (fv_uv s)]\<rparr>)"
  using assms
  by (simp add: gcpm_dc_start_def set_online_from_none(1) get_active_index GPSY_refused
      psy_accepts_def)

lemma dc_start_accepted:
  assumes "chg_psy_active s = - 1" and "0 \<le> index" and "index < chg_psy_count s"
    and "chg_psy_at s index = Some new"
    and "psy_accepts E new POWER_SUPPLY_PROP_ONLINE 1"
    and "psy_accepts E new POWER_SUPPLY_PROP_CONSTANT_CHARGE_VOLTAGE_MAX (fv_uv s)"
    and "psy_accepts E new POWER_SUPPLY_PROP_CONSTANT_CHARGE_CURRENT_MAX (cc_max s)"
    and "psy_accepts E new POWER_SUPPLY_PROP_CURRENT_MAX (out_ua s)"
    and "dc_vote_accepted E s"
  shows "gcpm_dc_start E index s =
           (0, s\<lparr>chg_psy_active := index,
                  chg_psy_online := (chg_psy_online s)[new := True],
                  gbms_mode := True,
                  calls := calls s @ [Set_prop new POWER_SUPPLY_PROP_ONLINE 1,
                    Set_prop new POWER_SUPPLY_PROP_CONSTANT_CHARGE_VOLTAGE_MAX (fv_uv s),
                    Set_prop new POWER_SUPPLY_PROP_CONSTANT_CHARGE_CURRENT_MAX (cc_max s),
                    Set_prop new POWER_SUPPLY_PROP_CURRENT_MAX (out_ua s)]
                    @ dcen_gpio_calls s 1 @ [Cast_vote True]\<rparr>)"
  using assms
  by (simp add: gcpm_dc_start_def set_online_from_none(1) get_active_index GPSY_accepted
      dcen_gpio_set_calls dc_enable_accepted dc_enable_ret_accepted split_def Let_def)

lemma dc_start_ret_zero:
  assumes "chg_psy_active s = - 1" and "0 \<le> index" and "index < chg_psy_count s"
    and "chg_psy_at s index = Some new"
  shows "fst (gcpm_dc_start E index s) = 0 \<longleftrightarrow>
           psy_accepts E new POWER_SUPPLY_PROP_ONLINE 1 \<and>
           psy_accepts E new POWER_SUPPLY_PROP_CONSTANT_CHARGE_VOLTAGE_MAX (fv_uv s) \<and>
           psy_accepts E new POWER_SUPPLY_PROP_CONSTANT_CHARGE_CURRENT_MAX (cc_max s) \<and>
           psy_accepts E new POWER_SUPPLY_PROP_CURRENT_MAX (out_ua s) \<and>
           dc_vote_accepted E s"
proof (cases "psy_accepts E new POWER_SUPPLY_PROP_ONLINE 1")
  case False
  with assms show ?thesis by (simp add: dc_start_online_refused psy_accepts_def)
next
  case on: True
  show ?thesis
  proof (cases "psy_accepts E new POWER_SUPPLY_PROP_CONSTANT_CHARGE_VOLTAGE_MAX (fv_uv s)")
    case False
    with assms on show ?thesis by (simp add: dc_start_fv_refused psy_accepts_def)
  next
    case fv: True
    show ?thesis
    proof (cases "psy_accepts E new POWER_SUPPLY_PROP_CONSTANT_CHARGE_CURRENT_MAX (cc_max s)")
      case False
      with assms on fv show ?thesis
        by (simp add: gcpm_dc_start_def set_online_from_none(1) get_active_index GPSY_accepted
            GPSY_refused psy_accepts_def)
    next
      case cc: True
      show ?thesis
      proof (cases "psy_accepts E new POWER_SUPPLY_PROP_CURRENT_MAX (out_ua s)")
        case False
        with assms on fv cc show ?thesis
          by (simp add: gcpm_dc_start_def set_online_from_none(1) get_active_index GPSY_accepted
              GPSY_refused psy_accepts_def)
      next
        case iin: True
        show ?thesis
        proof (cases "dc_vote_accepted E s")
          case False
          with assms on fv cc iin show ?thesis
            by (simp add: gcpm_dc_start_def set_online_from_none(1) get_active_index
                GPSY_accepted dcen_gpio_set_calls dc_enable_ret_accepted dc_enable_ret_refused
                split_def Let_def)
        next
          case True
          with assms on fv cc iin show ?thesis by (simp add: dc_start_accepted)
        qed
      qed
    qed
  qed
qed

lemma pps_call_fields [simp]:
  "calls (snd (pps_call c g src s)) = calls s @ [c]"
  "chg_psy_avail (snd (pps_call c g src s)) = chg_psy_avail s"
  "chg_psy_active (snd (pps_call c g src s)) = chg_psy_active s"
  "chg_psy_count (snd (pps_call c g src s)) = chg_psy_count s"
  "chg_psy_online (snd (pps_call c g src s)) = chg_psy_online s"
  "dc_state (snd (pps_call c g src s)) = dc_state s"
  "dc_index (snd (pps_call c g src s)) = dc_index s"
  "fv_uv (snd (pps_call c g src s)) = fv_uv s"
  "cc_max (snd (pps_call c g src s)) = cc_max s"
  "out_ua (snd (pps_call c g src s)) = out_ua s"
  "gbms_mode (snd (pps_call c g src s)) = gbms_mode s"
  "dcen_gpio (snd (pps_call c g src s)) = dcen_gpio s"
  "dcen_gpio_default (snd (pps_call c g src s)) = dcen_gpio_default s"
  "init_complete (snd (pps_call c g src s)) = init_complete s"
  "resume_complete (snd (pps_call c g src s)) = resume_complete s"
  "dc_start_time (snd (pps_call c g src s)) = dc_start_time s"
  by (simp_all add: pps_call_def pps_data_set_def log_call_def split_def Let_def
      split: pps_src.splits)

lemma pps_call_fst [simp]: "fst (pps_call c g src s) = fst (g (pps_data_of s src))"
  by (simp add: pps_call_def split_def Let_def)

lemma gcpm_pps_work_fields [simp]:
  "chg_psy_avail (snd (gcpm_pps_work E s)) = chg_psy_avail s"
  "chg_psy_active (snd (gcpm_pps_work E s)) = chg_psy_active s"
  "chg_psy_count (snd (gcpm_pps_work E s)) = chg_psy_count s"
  "chg_psy_online (snd (gcpm_pps_work E s)) = chg_psy_online s"
  "dc_state (snd (gcpm_pps_work E s)) = dc_state s"
  "dc_index (snd (gcpm_pps_work E s)) = dc_index s"
  "fv_uv (snd (gcpm_pps_work E s)) = fv_uv s"
  "cc_max (snd (gcpm_pps_work E s)) = cc_max s"
  "out_ua (snd (gcpm_pps_work E s)) = out_ua s"
  "gbms_mode (snd (gcpm_pps_work E s)) = gbms_mode s"
  "dcen_gpio (snd (gcpm_pps_work E s)) = dcen_gpio s"
  "dcen_gpio_default (snd (gcpm_pps_work E s)) = dcen_gpio_default s"
  "init_complete (snd (gcpm_pps_work E s)) = init_complete s"
  "resume_complete (snd (gcpm_pps_work E s)) = resume_complete s"
  "dc_start_time (snd (gcpm_pps_work E s)) = dc_start_time s"
  by (simp_all add: gcpm_pps_work_def gcpm_pps_work_src_def Let_def split_def)

lemma work_is_handover:
  assumes "init_complete s" and "resume_complete s" and "0 < dc_index s"
    and "dc_state s = DC_ENABLE_PASSTHROUGH"
    and "0 \<le> fst (gcpm_pps_work E s)"
    and "gcpm_pps_data (snd (gcpm_pps_work E s)) = Some src"
  shows "gcpm_pps_wlc_dc_work E now s =
           gcpm_dc_work_enable_passthrough E src (snd (gcpm_pps_work E s))"
  using assms by (simp add: gcpm_pps_wlc_dc_work_def split_def Let_def)

lemma dc_start_dc_state [simp]:
  "dc_state (snd (gcpm_dc_start E index s)) = dc_state s"
  by (simp add: gcpm_dc_start_def split_def Let_def split: option.splits)

lemma offline_ret_refused:
  assumes "gcpm_chg_get_active s = Some old"
    and "\<not> (psy_accepts E old GBMS_PROP_CHARGING_ENABLED 0 \<and>
             psy_accepts E old POWER_SUPPLY_PROP_ONLINE 0)"
  shows "chg_offline_ret E s \<noteq> 0"
  using assms by (auto simp: chg_offline_ret_def gpsy_set_prop_ret_def psy_accepts_def)

lemma reschedule_online [simp]:
  "chg_psy_online (pps_dc_reschedule ui s) = chg_psy_online s"
  by (simp add: pps_dc_reschedule_def log_call_def)

lemma reschedule_calls:
  "0 < ui \<Longrightarrow> calls (pps_dc_reschedule ui s) = calls s @ [Schedule_delayed_work PPS_WORK ui]"
  by (simp add: pps_dc_reschedule_def log_call_def)

lemma handover_retry_ms_bounds:
  "fst (pps_update_adapter E src (pps_data_of s src)) \<noteq> 0 \<Longrightarrow>
     0 < handover_retry_ms E src s \<and> handover_retry_ms E src s \<le> DC_ERROR_RETRY_MS"
  by (auto simp: handover_retry_ms_def handover_pps_ui_def)

lemma reschedule_retry_calls:
  "calls (pps_dc_reschedule (handover_retry_ms E src s) t) = calls t @ handover_retry_calls E src s"
  by (simp add: pps_dc_reschedule_def log_call_def handover_retry_calls_def)

lemma handover_block_eq:
  "gcpm_dc_work_enable_passthrough E src s =
     (let s2 = snd (pps_call (Pps_update_adapter src) (pps_update_adapter E src) src s);
          s3 = snd (gcpm_chg_offline E s2);
          s4 = snd (gcpm_dc_start E (dc_index s) s3) in
      if chg_offline_ret E s2 = 0 \<and> fst (gcpm_dc_start E (dc_index s) s3) = 0
      then pps_dc_reschedule DC_ENABLE_DELAY_MS (s4\<lparr>dc_state := DC_PASSTHROUGH\<rparr>)
      else pps_dc_reschedule (handover_retry_ms E src s)
             (if chg_offline_ret E s2 = 0 then s4 else s3))"
  by (simp add: gcpm_dc_work_enable_passthrough_def split_def Let_def handover_retry_ms_def
      handover_pps_ui_def)

lemma chg_psy_at_cong:
  "chg_psy_avail s' = chg_psy_avail s \<Longrightarrow> chg_psy_at s' i = chg_psy_at s i"
  by (simp add: chg_psy_at_def)

lemma handover_offline:
  assumes "handover_ready s old new"
    and "psy_accepts E old GBMS_PROP_CHARGING_ENABLED 0"
    and "psy_accepts E old POWER_SUPPLY_PROP_ONLINE 0"
    and "s2 = snd (pps_call (Pps_update_adapter src) (pps_update_adapter E src) src s)"
  shows "gcpm_chg_offline E s2 =
     (0, s2\<lparr>chg_psy_active := - 1,
            chg_psy_online := (chg_psy_online s)[old := False],
            calls := calls s @ [Pps_update_adapter src,
                                Set_prop old GBMS_PROP_CHARGING_ENABLED 0,
                                Set_prop old POWER_SUPPLY_PROP_ONLINE 0]\<rparr>)"
proof -
  have "gcpm_chg_get_active s2 = gcpm_chg_get_active s"
    using assms(4) by (intro get_active_cong) simp_all
  with assms(1) have "gcpm_chg_get_active s2 = Some old"
    by (simp add: handover_ready_def)
  from offline_accepted [OF this assms(2,3)] assms(4) show ?thesis by simp
qed

lemma handover_state:
  assumes r: "handover_ready s old new"
  shows "dc_state (gcpm_dc_work_enable_passthrough E src s) = DC_PASSTHROUGH \<longleftrightarrow>
           handover_accepted E s old new"
proof -
  let ?s2 = "snd (pps_call (Pps_update_adapter src) (pps_update_adapter E src) src s)"
  have "gcpm_chg_get_active ?s2 = gcpm_chg_get_active s"
    by (intro get_active_cong) simp_all
  with r have a2: "gcpm_chg_get_active ?s2 = Some old"
    by (simp add: handover_ready_def)
  show ?thesis
  proof (cases "psy_accepts E old GBMS_PROP_CHARGING_ENABLED 0 \<and>
                psy_accepts E old POWER_SUPPLY_PROP_ONLINE 0")
    case False
    from offline_ret_refused [OF a2 False] False r show ?thesis
      by (auto simp: handover_block_eq Let_def handover_accepted_def handover_ready_def)
  next
    case True
    then have o1: "psy_accepts E old GBMS_PROP_CHARGING_ENABLED 0"
      and o2: "psy_accepts E old POWER_SUPPLY_PROP_ONLINE 0" by simp_all
    note off = handover_offline [OF r o1 o2 refl, of src]
    let ?s3 = "snd (gcpm_chg_offline E ?s2)"
    from off have z: "chg_offline_ret E ?s2 = 0"
      using offline_fst [of E ?s2] by simp
    have "chg_psy_at ?s3 (dc_index s) = chg_psy_at s (dc_index s)"
      by (intro chg_psy_at_cong) simp
    with r have s3: "chg_psy_active ?s3 = - 1" "0 \<le> dc_index s" "dc_index s < chg_psy_count ?s3"
      "chg_psy_at ?s3 (dc_index s) = Some new" "fv_uv ?s3 = fv_uv s" "cc_max ?s3 = cc_max s"
      "out_ua ?s3 = out_ua s" "dc_vote_accepted E ?s3 = dc_vote_accepted E s"
      by (simp_all add: off handover_ready_def dc_vote_accepted_def)
    from dc_start_ret_zero [OF s3(1-4), of E] s3(5-8) z True r show ?thesis
      by (simp add: handover_block_eq Let_def handover_accepted_def handover_ready_def)
  qed
qed

lemma handover_start_state:
  assumes r: "handover_ready s old new"
    and o1: "psy_accepts E old GBMS_PROP_CHARGING_ENABLED 0"
    and o2: "psy_accepts E old POWER_SUPPLY_PROP_ONLINE 0"
    and s3: "s3 = snd (gcpm_chg_offline E
               (snd (pps_call (Pps_update_adapter src) (pps_update_adapter E src) src s)))"
  shows "chg_psy_active s3 = - 1" and "0 \<le> dc_index s" and "dc_index s < chg_psy_count s3"
    and "chg_psy_at s3 (dc_index s) = Some new"
    and "fv_uv s3 = fv_uv s" and "cc_max s3 = cc_max s" and "out_ua s3 = out_ua s"
    and "dc_vote_accepted E s3 = dc_vote_accepted E s"
    and "dcen_gpio_calls s3 v = dcen_gpio_calls s v"
    and "dc_state s3 = DC_ENABLE_PASSTHROUGH"
    and "chg_psy_online s3 = (chg_psy_online s)[old := False]"
    and "calls s3 = calls s @ [Pps_update_adapter src,
                               Set_prop old GBMS_PROP_CHARGING_ENABLED 0,
                               Set_prop old POWER_SUPPLY_PROP_ONLINE 0]"
proof -
  note off = handover_offline [OF r o1 o2 refl, of src]
  have "chg_psy_at s3 (dc_index s) = chg_psy_at s (dc_index s)"
    unfolding s3 by (intro chg_psy_at_cong) simp
  with r show "chg_psy_at s3 (dc_index s) = Some new" by (simp add: handover_ready_def)
  show "chg_psy_active s3 = - 1" "0 \<le> dc_index s" "dc_index s < chg_psy_count s3"
    "fv_uv s3 = fv_uv s" "cc_max s3 = cc_max s" "out_ua s3 = out_ua s"
    "dc_vote_accepted E s3 = dc_vote_accepted E s"
    "dcen_gpio_calls s3 v = dcen_gpio_calls s v"
    "dc_state s3 = DC_ENABLE_PASSTHROUGH"
    "chg_psy_online s3 = (chg_psy_online s)[old := False]"
    "calls s3 = calls s @ [Pps_update_adapter src,
                               Set_prop old GBMS_PROP_CHARGING_ENABLED 0,
                               Set_prop old POWER_SUPPLY_PROP_ONLINE 0]"
    using r unfolding s3
    by (simp_all add: off handover_ready_def dc_vote_accepted_def dcen_gpio_calls_def)
qed

lemma handover_accepted_result:
  assumes r: "handover_ready s old new" and ok: "handover_accepted E s old new"
  shows "chg_psy_active (gcpm_dc_work_enable_passthrough E src s) = dc_index s \<and>
         chg_psy_online (gcpm_dc_work_enable_passthrough E src s)
           = (chg_psy_online s)[old := False, new := True] \<and>
         calls (gcpm_dc_work_enable_passthrough E src s) = calls s @
           [Pps_update_adapter src,
            Set_prop old GBMS_PROP_CHARGING_ENABLED 0,
            Set_prop old POWER_SUPPLY_PROP_ONLINE 0,
            Set_prop new POWER_SUPPLY_PROP_ONLINE 1,
            Set_prop new POWER_SUPPLY_PROP_CONSTANT_CHARGE_VOLTAGE_MAX (fv_uv s),
            Set_prop new POWER_SUPPLY_PROP_CONSTANT_CHARGE_CURRENT_MAX (cc_max s),
            Set_prop new POWER_SUPPLY_PROP_CURRENT_MAX (out_ua s)]
           @ dcen_gpio_calls s 1
           @ [Cast_vote True, Schedule_delayed_work PPS_WORK DC_ENABLE_DELAY_MS]"
proof -
  let ?s2 = "snd (pps_call (Pps_update_adapter src) (pps_update_adapter E src) src s)"
  let ?s3 = "snd (gcpm_chg_offline E ?s2)"
  from ok have o1: "psy_accepts E old GBMS_PROP_CHARGING_ENABLED 0"
    and o2: "psy_accepts E old POWER_SUPPLY_PROP_ONLINE 0"
    by (simp_all add: handover_accepted_def)
  note st = handover_start_state [where src = src, OF r o1 o2 refl]
  from handover_offline [OF r o1 o2 refl, of src] have z: "chg_offline_ret E ?s2 = 0"
    using offline_fst [of E ?s2] by simp
  have start: "gcpm_dc_start E (dc_index s) ?s3 =
     (0, ?s3\<lparr>chg_psy_active := dc_index s,
              chg_psy_online := (chg_psy_online ?s3)[new := True],
              gbms_mode := True,
              calls := calls ?s3 @ [Set_prop new POWER_SUPPLY_PROP_ONLINE 1,
                Set_prop new POWER_SUPPLY_PROP_CONSTANT_CHARGE_VOLTAGE_MAX (fv_uv ?s3),
                Set_prop new POWER_SUPPLY_PROP_CONSTANT_CHARGE_CURRENT_MAX (cc_max ?s3),
                Set_prop new POWER_SUPPLY_PROP_CURRENT_MAX (out_ua ?s3)]
                @ dcen_gpio_calls ?s3 1 @ [Cast_vote True]\<rparr>)"
    using ok st by (intro dc_start_accepted) (simp_all add: handover_accepted_def)
  show ?thesis
    using r by (simp add: handover_block_eq Let_def z start st reschedule_calls handover_ready_def)
qed

lemma handover_fv_refused_result:
  assumes r: "handover_ready s old new"
    and o1: "psy_accepts E old GBMS_PROP_CHARGING_ENABLED 0"
    and o2: "psy_accepts E old POWER_SUPPLY_PROP_ONLINE 0"
    and on: "psy_accepts E new POWER_SUPPLY_PROP_ONLINE 1"
    and fv: "\<not> psy_accepts E new POWER_SUPPLY_PROP_CONSTANT_CHARGE_VOLTAGE_MAX (fv_uv s)"
  shows "dc_state (gcpm_dc_work_enable_passthrough E src s) = DC_ENABLE_PASSTHROUGH \<and>
         chg_psy_active (gcpm_dc_work_enable_passthrough E src s) = dc_index s \<and>
         chg_psy_online (gcpm_dc_work_enable_passthrough E src s)
           = (chg_psy_online s)[old := False, new := True] \<and>
         calls (gcpm_dc_work_enable_passthrough E src s) = calls s @
           [Pps_update_adapter src,
            Set_prop old GBMS_PROP_CHARGING_ENABLED 0,
            Set_prop old POWER_SUPPLY_PROP_ONLINE 0,
            Set_prop new POWER_SUPPLY_PROP_ONLINE 1,
            Set_prop new POWER_SUPPLY_PROP_CONSTANT_CHARGE_VOLTAGE_MAX (fv_uv s)]
           @ handover_retry_calls E src s"
proof -
  let ?s2 = "snd (pps_call (Pps_update_adapter src) (pps_update_adapter E src) src s)"
  let ?s3 = "snd (gcpm_chg_offline E ?s2)"
  note st = handover_start_state [where src = src, OF r o1 o2 refl]
  from handover_offline [OF r o1 o2 refl, of src] have z: "chg_offline_ret E ?s2 = 0"
    using offline_fst [of E ?s2] by simp
  have start: "gcpm_dc_start E (dc_index s) ?s3 =
     (power_supply_set_property E new POWER_SUPPLY_PROP_CONSTANT_CHARGE_VOLTAGE_MAX (fv_uv ?s3),
      ?s3\<lparr>chg_psy_active := dc_index s,
          chg_psy_online := (chg_psy_online ?s3)[new := True],
          calls := calls ?s3 @ [Set_prop new POWER_SUPPLY_PROP_ONLINE 1,
            Set_prop new POWER_SUPPLY_PROP_CONSTANT_CHARGE_VOLTAGE_MAX (fv_uv ?s3)]\<rparr>)"
    using on fv st by (intro dc_start_fv_refused) simp_all
  have nz: "power_supply_set_property E new POWER_SUPPLY_PROP_CONSTANT_CHARGE_VOLTAGE_MAX (fv_uv s)
              \<noteq> 0"
    using fv by (simp add: psy_accepts_def)
  show ?thesis
    using nz r
    by (simp add: handover_block_eq Let_def z start st reschedule_retry_calls handover_ready_def)
qed

lemma handover_retry_last:
  assumes "dc_state s = DC_ENABLE_PASSTHROUGH"
    and "dc_state (gcpm_dc_work_enable_passthrough E src s) \<noteq> DC_PASSTHROUGH"
    and "fst (pps_update_adapter E src (pps_data_of s src)) \<noteq> 0"
  shows "calls (gcpm_dc_work_enable_passthrough E src s) \<noteq> [] \<and>
         last (calls (gcpm_dc_work_enable_passthrough E src s))
           = Schedule_delayed_work PPS_WORK (handover_retry_ms E src s) \<and>
         0 < handover_retry_ms E src s \<and> handover_retry_ms E src s \<le> DC_ERROR_RETRY_MS"
  using assms handover_retry_ms_bounds [of E src s]
  by (auto simp: handover_block_eq Let_def reschedule_calls split: if_splits)

lemma handover_ready_pps_work:
  "handover_ready (snd (gcpm_pps_work E s)) old new = handover_ready s old new"
proof -
  have "gcpm_chg_get_active (snd (gcpm_pps_work E s)) = gcpm_chg_get_active s"
    by (intro get_active_cong) simp_all
  moreover have "chg_psy_at (snd (gcpm_pps_work E s)) (dc_index s) = chg_psy_at s (dc_index s)"
    by (intro chg_psy_at_cong) simp
  ultimately show ?thesis by (simp add: handover_ready_def)
qed

lemma handover_accepted_pps_work:
  "handover_accepted E (snd (gcpm_pps_work E' s)) old new = handover_accepted E s old new"
  by (simp add: handover_accepted_def dc_vote_accepted_def)

lemma offline_ce_refused:
  assumes "gcpm_chg_get_active s = Some old"
    and "\<not> psy_accepts E old GBMS_PROP_CHARGING_ENABLED 0"
  shows "gcpm_chg_offline E s =
     (power_supply_set_property E old GBMS_PROP_CHARGING_ENABLED 0,
      s\<lparr>calls := calls s @ [Set_prop old GBMS_PROP_CHARGING_ENABLED 0]\<rparr>)"
  using assms by (simp add: gcpm_chg_offline_def GPSY_refused psy_accepts_def)

lemma offline_on_refused:
  assumes "gcpm_chg_get_active s = Some old"
    and "psy_accepts E old GBMS_PROP_CHARGING_ENABLED 0"
    and "\<not> psy_accepts E old POWER_SUPPLY_PROP_ONLINE 0"
  shows "gcpm_chg_offline E s =
     (power_supply_set_property E old POWER_SUPPLY_PROP_ONLINE 0,
      s\<lparr>calls := calls s @ [Set_prop old GBMS_PROP_CHARGING_ENABLED 0,
                            Set_prop old POWER_SUPPLY_PROP_ONLINE 0]\<rparr>)"
  using assms by (simp add: gcpm_chg_offline_def GPSY_refused GPSY_accepted psy_accepts_def)

lemma dc_start_cc_refused:
  assumes "chg_psy_active s = - 1" and "0 \<le> index" and "index < chg_psy_count s"
    and "chg_psy_at s index = Some new"
    and "psy_accepts E new POWER_SUPPLY_PROP_ONLINE 1"
    and "psy_accepts E new POWER_SUPPLY_PROP_CONSTANT_CHARGE_VOLTAGE_MAX (fv_uv s)"
    and "\<not> psy_accepts E new POWER_SUPPLY_PROP_CONSTANT_CHARGE_CURRENT_MAX (cc_max s)"
  shows "gcpm_dc_start E index s =
           (power_supply_set_property E new POWER_SUPPLY_PROP_CONSTANT_CHARGE_CURRENT_MAX (cc_max s),
            s\<lparr>chg_psy_active := index,
               chg_psy_online := (chg_psy_online s)[new := True],
               calls := calls s @ [Set_prop new POWER_SUPPLY_PROP_ONLINE 1,
                 Set_prop new POWER_SUPPLY_PROP_CONSTANT_CHARGE_VOLTAGE_MAX (fv_uv s),
                 Set_prop new POWER_SUPPLY_PROP_CONSTANT_CHARGE_CURRENT_MAX (cc_max s)]\<rparr>)"
  using assms
  by (simp add: gcpm_dc_start_def set_online_from_none(1) get_active_index GPSY_refused
      GPSY_accepted psy_accepts_def)

lemma dc_start_iin_refused:
  assumes "chg_psy_active s = - 1" and "0 \<le> index" and "index < chg_psy_count s"
    and "chg_psy_at s index = Some new"
    and "psy_accepts E new POWER_SUPPLY_PROP_ONLINE 1"
    and "psy_accepts E new POWER_SUPPLY_PROP_CONSTANT_CHARGE_VOLTAGE_MAX (fv_uv s)"
    and "psy_accepts E new POWER_SUPPLY_PROP_CONSTANT_CHARGE_CURRENT_MAX (cc_max s)"
    and "\<not> psy_accepts E new POWER_SUPPLY_PROP_CURRENT_MAX (out_ua s)"
  shows "gcpm_dc_start E index s =
           (power_supply_set_property E new POWER_SUPPLY_PROP_CURRENT_MAX (out_ua s),
            s\<lparr>chg_psy_active := index,
               chg_psy_online := (chg_psy_online s)[new := True],
               calls := calls s @ [Set_prop new POWER_SUPPLY_PROP_ONLINE 1,
                 Set_prop new POWER_SUPPLY_PROP_CONSTANT_CHARGE_VOLTAGE_MAX (fv_uv s),
                 Set_prop new POWER_SUPPLY_PROP_CONSTANT_CHARGE_CURRENT_MAX (cc_max s),
                 Set_prop new POWER_SUPPLY_PROP_CURRENT_MAX (out_ua s)]\<rparr>)"
  using assms
  by (simp add: gcpm_dc_start_def set_online_from_none(1) get_active_index GPSY_refused
      GPSY_accepted psy_accepts_def)

lemma dc_vote_calls_upd [simp]:
  "dc_vote_calls E (s\<lparr>calls := c\<rparr>) = dc_vote_calls E s"
  "dc_vote_calls E (s\<lparr>chg_psy_online := on\<rparr>) = dc_vote_calls E s"
  "dc_vote_calls E (s\<lparr>chg_psy_active := a\<rparr>) = dc_vote_calls E s"
  by (simp_all add: dc_vote_calls_def)

lemma dc_start_vote_refused:
  assumes "chg_psy_active s = - 1" and "0 \<le> index" and "index < chg_psy_count s"
    and "chg_psy_at s index = Some new"
    and "psy_accepts E new POWER_SUPPLY_PROP_ONLINE 1"
    and "psy_accepts E new POWER_SUPPLY_PROP_CONSTANT_CHARGE_VOLTAGE_MAX (fv_uv s)"
    and "psy_accepts E new POWER_SUPPLY_PROP_CONSTANT_CHARGE_CURRENT_MAX (cc_max s)"
    and "psy_accepts E new POWER_SUPPLY_PROP_CURRENT_MAX (out_ua s)"
    and "\<not> dc_vote_accepted E s"
  shows "fst (gcpm_dc_start E index s) \<noteq> 0"
    and "chg_psy_active (snd (gcpm_dc_start E index s)) = index"
    and "chg_psy_online (snd (gcpm_dc_start E index s)) = (chg_psy_online s)[new := True]"
    and "calls (snd (gcpm_dc_start E index s)) =
           calls s @ [Set_prop new POWER_SUPPLY_PROP_ONLINE 1,
             Set_prop new POWER_SUPPLY_PROP_CONSTANT_CHARGE_VOLTAGE_MAX (fv_uv s),
             Set_prop new POWER_SUPPLY_PROP_CONSTANT_CHARGE_CURRENT_MAX (cc_max s),
             Set_prop new POWER_SUPPLY_PROP_CURRENT_MAX (out_ua s)]
             @ dcen_gpio_calls s 1 @ dc_vote_calls E s"
  using assms
  by (auto simp: gcpm_dc_start_def set_online_from_none(1) get_active_index GPSY_accepted
      dcen_gpio_set_calls gcpm_dc_enable_def dc_vote_accepted_def dc_vote_calls_def log_call_def
      split_def Let_def)


lemma handover_active_s2:
  assumes "handover_ready s old new"
  shows "gcpm_chg_get_active
           (snd (pps_call (Pps_update_adapter src) (pps_update_adapter E src) src s)) = Some old"
proof -
  have "gcpm_chg_get_active
           (snd (pps_call (Pps_update_adapter src) (pps_update_adapter E src) src s))
         = gcpm_chg_get_active s"
    by (intro get_active_cong) simp_all
  with assms show ?thesis by (simp add: handover_ready_def)
qed

lemma handover_offline_refused_result:
  assumes r: "handover_ready s old new"
    and c: "\<not> psy_accepts E old GBMS_PROP_CHARGING_ENABLED 0 \<or>
            \<not> psy_accepts E old POWER_SUPPLY_PROP_ONLINE 0"
  shows "chg_psy_active (gcpm_dc_work_enable_passthrough E src s) = chg_psy_active s \<and>
         chg_psy_online (gcpm_dc_work_enable_passthrough E src s) = chg_psy_online s \<and>
         calls (gcpm_dc_work_enable_passthrough E src s) = calls s @
           [Pps_update_adapter src] @
           (if psy_accepts E old GBMS_PROP_CHARGING_ENABLED 0
            then [Set_prop old GBMS_PROP_CHARGING_ENABLED 0,
                  Set_prop old POWER_SUPPLY_PROP_ONLINE 0]
            else [Set_prop old GBMS_PROP_CHARGING_ENABLED 0])
           @ handover_retry_calls E src s"
proof -
  let ?s2 = "snd (pps_call (Pps_update_adapter src) (pps_update_adapter E src) src s)"
  note a2 = handover_active_s2 [OF r, of src E]
  from c have nz: "chg_offline_ret E ?s2 \<noteq> 0"
    by (intro offline_ret_refused [OF a2]) simp
  show ?thesis
  proof (cases "psy_accepts E old GBMS_PROP_CHARGING_ENABLED 0")
    case False
    note off = offline_ce_refused [OF a2 False]
    show ?thesis
      using nz False by (simp add: handover_block_eq Let_def off reschedule_retry_calls)
  next
    case True
    with c have n: "\<not> psy_accepts E old POWER_SUPPLY_PROP_ONLINE 0" by simp
    note off = offline_on_refused [OF a2 True n]
    show ?thesis
      using nz True by (simp add: handover_block_eq Let_def off reschedule_retry_calls)
  qed
qed

lemma handover_start_refused_fields:
  assumes r: "handover_ready s old new"
    and o1: "psy_accepts E old GBMS_PROP_CHARGING_ENABLED 0"
    and o2: "psy_accepts E old POWER_SUPPLY_PROP_ONLINE 0"
    and s3: "s3 = snd (gcpm_chg_offline E
               (snd (pps_call (Pps_update_adapter src) (pps_update_adapter E src) src s)))"
    and nz: "fst (gcpm_dc_start E (dc_index s) s3) \<noteq> 0"
  shows "chg_psy_active (gcpm_dc_work_enable_passthrough E src s)
           = chg_psy_active (snd (gcpm_dc_start E (dc_index s) s3))"
    and "chg_psy_online (gcpm_dc_work_enable_passthrough E src s)
           = chg_psy_online (snd (gcpm_dc_start E (dc_index s) s3))"
    and "calls (gcpm_dc_work_enable_passthrough E src s)
           = calls (snd (gcpm_dc_start E (dc_index s) s3)) @ handover_retry_calls E src s"
proof -
  let ?s2 = "snd (pps_call (Pps_update_adapter src) (pps_update_adapter E src) src s)"
  from handover_offline [OF r o1 o2 refl, of src] have z: "chg_offline_ret E ?s2 = 0"
    using offline_fst [of E ?s2] by simp
  show "chg_psy_active (gcpm_dc_work_enable_passthrough E src s)
           = chg_psy_active (snd (gcpm_dc_start E (dc_index s) s3))"
    and "chg_psy_online (gcpm_dc_work_enable_passthrough E src s)
           = chg_psy_online (snd (gcpm_dc_start E (dc_index s) s3))"
    and "calls (gcpm_dc_work_enable_passthrough E src s)
           = calls (snd (gcpm_dc_start E (dc_index s) s3)) @ handover_retry_calls E src s"
    using nz z unfolding s3
    by (simp_all add: handover_block_eq Let_def reschedule_retry_calls)
qed

lemma handover_online_refused_result:
  assumes r: "handover_ready s old new"
    and o1: "psy_accepts E old GBMS_PROP_CHARGING_ENABLED 0"
    and o2: "psy_accepts E old POWER_SUPPLY_PROP_ONLINE 0"
    and on: "\<not> psy_accepts E new POWER_SUPPLY_PROP_ONLINE 1"
  shows "chg_psy_active (gcpm_dc_work_enable_passthrough E src s) = - 1 \<and>
         chg_psy_online (gcpm_dc_work_enable_passthrough E src s)
           = (chg_psy_online s)[old := False] \<and>
         calls (gcpm_dc_work_enable_passthrough E src s) = calls s @
           [Pps_update_adapter src,
            Set_prop old GBMS_PROP_CHARGING_ENABLED 0,
            Set_prop old POWER_SUPPLY_PROP_ONLINE 0,
            Set_prop new POWER_SUPPLY_PROP_ONLINE 1]
           @ handover_retry_calls E src s"
proof -
  let ?s3 = "snd (gcpm_chg_offline E
               (snd (pps_call (Pps_update_adapter src) (pps_update_adapter E src) src s)))"
  note st = handover_start_state [where src = src, OF r o1 o2 refl]
  have start: "gcpm_dc_start E (dc_index s) ?s3 =
           (power_supply_set_property E new POWER_SUPPLY_PROP_ONLINE 1,
            ?s3\<lparr>calls := calls ?s3 @ [Set_prop new POWER_SUPPLY_PROP_ONLINE 1]\<rparr>)"
    using on st by (intro dc_start_online_refused) simp_all
  have nz: "fst (gcpm_dc_start E (dc_index s) ?s3) \<noteq> 0"
    using on by (simp add: start psy_accepts_def)
  note f = handover_start_refused_fields [OF r o1 o2 refl nz]
  show ?thesis by (simp add: f start st del: offline_active)
qed

lemma handover_cc_refused_result:
  assumes r: "handover_ready s old new"
    and o1: "psy_accepts E old GBMS_PROP_CHARGING_ENABLED 0"
    and o2: "psy_accepts E old POWER_SUPPLY_PROP_ONLINE 0"
    and on: "psy_accepts E new POWER_SUPPLY_PROP_ONLINE 1"
    and fv: "psy_accepts E new POWER_SUPPLY_PROP_CONSTANT_CHARGE_VOLTAGE_MAX (fv_uv s)"
    and cc: "\<not> psy_accepts E new POWER_SUPPLY_PROP_CONSTANT_CHARGE_CURRENT_MAX (cc_max s)"
  shows "chg_psy_active (gcpm_dc_work_enable_passthrough E src s) = dc_index s \<and>
         chg_psy_online (gcpm_dc_work_enable_passthrough E src s)
           = (chg_psy_online s)[old := False, new := True] \<and>
         calls (gcpm_dc_work_enable_passthrough E src s) = calls s @
           [Pps_update_adapter src,
            Set_prop old GBMS_PROP_CHARGING_ENABLED 0,
            Set_prop old POWER_SUPPLY_PROP_ONLINE 0,
            Set_prop new POWER_SUPPLY_PROP_ONLINE 1,
            Set_prop new POWER_SUPPLY_PROP_CONSTANT_CHARGE_VOLTAGE_MAX (fv_uv s),
            Set_prop new POWER_SUPPLY_PROP_CONSTANT_CHARGE_CURRENT_MAX (cc_max s)]
           @ handover_retry_calls E src s"
proof -
  let ?s3 = "snd (gcpm_chg_offline E
               (snd (pps_call (Pps_update_adapter src) (pps_update_adapter E src) src s)))"
  note st = handover_start_state [where src = src, OF r o1 o2 refl]
  have start: "gcpm_dc_start E (dc_index s) ?s3 =
           (power_supply_set_property E new POWER_SUPPLY_PROP_CONSTANT_CHARGE_CURRENT_MAX (cc_max ?s3),
            ?s3\<lparr>chg_psy_active := dc_index s,
               chg_psy_online := (chg_psy_online ?s3)[new := True],
               calls := calls ?s3 @ [Set_prop new POWER_SUPPLY_PROP_ONLINE 1,
                 Set_prop new POWER_SUPPLY_PROP_CONSTANT_CHARGE_VOLTAGE_MAX (fv_uv ?s3),
                 Set_prop new POWER_SUPPLY_PROP_CONSTANT_CHARGE_CURRENT_MAX (cc_max ?s3)]\<rparr>)"
    using on fv cc st by (intro dc_start_cc_refused) simp_all
  have nz: "fst (gcpm_dc_start E (dc_index s) ?s3) \<noteq> 0"
    using cc by (simp add: start st psy_accepts_def)
  note f = handover_start_refused_fields [OF r o1 o2 refl nz]
  show ?thesis by (simp add: f start st)
qed

lemma handover_iin_refused_result:
  assumes r: "handover_ready s old new"
    and o1: "psy_accepts E old GBMS_PROP_CHARGING_ENABLED 0"
    and o2: "psy_accepts E old POWER_SUPPLY_PROP_ONLINE 0"
    and on: "psy_accepts E new POWER_SUPPLY_PROP_ONLINE 1"
    and fv: "psy_accepts E new POWER_SUPPLY_PROP_CONSTANT_CHARGE_VOLTAGE_MAX (fv_uv s)"
    and cc: "psy_accepts E new POWER_SUPPLY_PROP_CONSTANT_CHARGE_CURRENT_MAX (cc_max s)"
    and iin: "\<not> psy_accepts E new POWER_SUPPLY_PROP_CURRENT_MAX (out_ua s)"
  shows "chg_psy_active (gcpm_dc_work_enable_passthrough E src s) = dc_index s \<and>
         chg_psy_online (gcpm_dc_work_enable_passthrough E src s)
           = (chg_psy_online s)[old := False, new := True] \<and>
         calls (gcpm_dc_work_enable_passthrough E src s) = calls s @
           [Pps_update_adapter src,
            Set_prop old GBMS_PROP_CHARGING_ENABLED 0,
            Set_prop old POWER_SUPPLY_PROP_ONLINE 0,
            Set_prop new POWER_SUPPLY_PROP_ONLINE 1,
            Set_prop new POWER_SUPPLY_PROP_CONSTANT_CHARGE_VOLTAGE_MAX (fv_uv s),
            Set_prop new POWER_SUPPLY_PROP_CONSTANT_CHARGE_CURRENT_MAX (cc_max s),
            Set_prop new POWER_SUPPLY_PROP_CURRENT_MAX (out_ua s)]
           @ handover_retry_calls E src s"
proof -
  let ?s3 = "snd (gcpm_chg_offline E
               (snd (pps_call (Pps_update_adapter src) (pps_update_adapter E src) src s)))"
  note st = handover_start_state [where src = src, OF r o1 o2 refl]
  have start: "gcpm_dc_start E (dc_index s) ?s3 =
           (power_supply_set_property E new POWER_SUPPLY_PROP_CURRENT_MAX (out_ua ?s3),
            ?s3\<lparr>chg_psy_active := dc_index s,
               chg_psy_online := (chg_psy_online ?s3)[new := True],
               calls := calls ?s3 @ [Set_prop new POWER_SUPPLY_PROP_ONLINE 1,
                 Set_prop new POWER_SUPPLY_PROP_CONSTANT_CHARGE_VOLTAGE_MAX (fv_uv ?s3),
                 Set_prop new POWER_SUPPLY_PROP_CONSTANT_CHARGE_CURRENT_MAX (cc_max ?s3),
                 Set_prop new POWER_SUPPLY_PROP_CURRENT_MAX (out_ua ?s3)]\<rparr>)"
    using on fv cc iin st by (intro dc_start_iin_refused) simp_all
  have nz: "fst (gcpm_dc_start E (dc_index s) ?s3) \<noteq> 0"
    using iin by (simp add: start st psy_accepts_def)
  note f = handover_start_refused_fields [OF r o1 o2 refl nz]
  show ?thesis by (simp add: f start st)
qed

lemma handover_vote_refused_result:
  assumes r: "handover_ready s old new"
    and o1: "psy_accepts E old GBMS_PROP_CHARGING_ENABLED 0"
    and o2: "psy_accepts E old POWER_SUPPLY_PROP_ONLINE 0"
    and on: "psy_accepts E new POWER_SUPPLY_PROP_ONLINE 1"
    and fv: "psy_accepts E new POWER_SUPPLY_PROP_CONSTANT_CHARGE_VOLTAGE_MAX (fv_uv s)"
    and cc: "psy_accepts E new POWER_SUPPLY_PROP_CONSTANT_CHARGE_CURRENT_MAX (cc_max s)"
    and iin: "psy_accepts E new POWER_SUPPLY_PROP_CURRENT_MAX (out_ua s)"
    and vote: "\<not> dc_vote_accepted E s"
  shows "chg_psy_active (gcpm_dc_work_enable_passthrough E src s) = dc_index s \<and>
         chg_psy_online (gcpm_dc_work_enable_passthrough E src s)
           = (chg_psy_online s)[old := False, new := True] \<and>
         calls (gcpm_dc_work_enable_passthrough E src s) = calls s @
           [Pps_update_adapter src,
            Set_prop old GBMS_PROP_CHARGING_ENABLED 0,
            Set_prop old POWER_SUPPLY_PROP_ONLINE 0,
            Set_prop new POWER_SUPPLY_PROP_ONLINE 1,
            Set_prop new POWER_SUPPLY_PROP_CONSTANT_CHARGE_VOLTAGE_MAX (fv_uv s),
            Set_prop new POWER_SUPPLY_PROP_CONSTANT_CHARGE_CURRENT_MAX (cc_max s),
            Set_prop new POWER_SUPPLY_PROP_CURRENT_MAX (out_ua s)]
           @ dcen_gpio_calls s 1 @ dc_vote_calls E s
           @ handover_retry_calls E src s"
proof -
  let ?s3 = "snd (gcpm_chg_offline E
               (snd (pps_call (Pps_update_adapter src) (pps_update_adapter E src) src s)))"
  note st = handover_start_state [where src = src, OF r o1 o2 refl]
  have vc: "dc_vote_calls E ?s3 = dc_vote_calls E s"
    by (simp add: dc_vote_calls_def handover_offline [OF r o1 o2 refl, of src])
  have h: "psy_accepts E new POWER_SUPPLY_PROP_ONLINE 1"
    "psy_accepts E new POWER_SUPPLY_PROP_CONSTANT_CHARGE_VOLTAGE_MAX (fv_uv ?s3)"
    "psy_accepts E new POWER_SUPPLY_PROP_CONSTANT_CHARGE_CURRENT_MAX (cc_max ?s3)"
    "psy_accepts E new POWER_SUPPLY_PROP_CURRENT_MAX (out_ua ?s3)"
    "\<not> dc_vote_accepted E ?s3"
    using on fv cc iin vote st by simp_all
  note start = dc_start_vote_refused [OF st(1-4) h]
  note f = handover_start_refused_fields [OF r o1 o2 refl start(1)]
  show ?thesis by (simp add: f start st vc)
qed

text \<open>
  Claim C1, as amended. In the hand-over from EnablePassthrough to Passthrough (the PPS
  work with a PPS session active, an active charger \<open>old\<close> and the DC charger \<open>new\<close> at
  \<open>dc_index\<close>) the controller takes these steps in this order: it takes the active
  charger offline (charging disabled, then ONLINE 0), marks the DC charger online
  (ONLINE 1), programs the DC charger (target voltage \<open>fv_uv\<close>, target current \<open>cc_max\<close>,
  input current limit \<open>out_ua\<close>), and votes for the DC charger mode. The state becomes
  Passthrough exactly when every step is accepted; after a failure at any step it stays
  EnablePassthrough, and the steps before the failure remain done, for each of the seven
  steps that can fail:
  \<^item> charging disabled or ONLINE 0 refused by the old charger: the old charger is still the
    active one and the online marks are as before (charging may already be disabled);
  \<^item> ONLINE 1 refused by the DC charger: the old charger is offline, no charger is active
    and the DC charger is not marked online;
  \<^item> target voltage, target current or input current limit refused, or the vote not
    accepted: the old charger is offline, the DC charger is marked online and recorded
    as active, and the values written before the failure stay written.

  In each case the calls made are exactly the steps up to and including the one that
  failed, in the order above (the vote itself is cast only when the mode votable is
  there). After a failure the work is scheduled again within
  \<open>DC_ERROR_RETRY_MS\<close>, unless the PPS update of this run asked for an interval of 0.
\<close>

theorem handover_order:
  assumes "init_complete s" and "resume_complete s"
    and "handover_ready s old new"
    and "0 \<le> fst (gcpm_pps_work E s)"
    and "gcpm_pps_data (snd (gcpm_pps_work E s)) = Some src"
  shows
    "(dc_state (gcpm_pps_wlc_dc_work E now s) = DC_PASSTHROUGH \<longleftrightarrow>
        handover_accepted E s old new) \<and>
     (dc_state (gcpm_pps_wlc_dc_work E now s) = DC_PASSTHROUGH \<or>
      dc_state (gcpm_pps_wlc_dc_work E now s) = DC_ENABLE_PASSTHROUGH) \<and>
     (handover_accepted E s old new \<longrightarrow>
        chg_psy_active (gcpm_pps_wlc_dc_work E now s) = dc_index s \<and>
        chg_psy_online (gcpm_pps_wlc_dc_work E now s)
          = (chg_psy_online s)[old := False, new := True] \<and>
        calls (gcpm_pps_wlc_dc_work E now s) = calls (snd (gcpm_pps_work E s)) @
          [Pps_update_adapter src,
           Set_prop old GBMS_PROP_CHARGING_ENABLED 0,
           Set_prop old POWER_SUPPLY_PROP_ONLINE 0,
           Set_prop new POWER_SUPPLY_PROP_ONLINE 1,
           Set_prop new POWER_SUPPLY_PROP_CONSTANT_CHARGE_VOLTAGE_MAX (fv_uv s),
           Set_prop new POWER_SUPPLY_PROP_CONSTANT_CHARGE_CURRENT_MAX (cc_max s),
           Set_prop new POWER_SUPPLY_PROP_CURRENT_MAX (out_ua s)]
          @ dcen_gpio_calls s 1
          @ [Cast_vote True, Schedule_delayed_work PPS_WORK DC_ENABLE_DELAY_MS]) \<and>
     (\<not> psy_accepts E old GBMS_PROP_CHARGING_ENABLED 0 \<longrightarrow>
        dc_state (gcpm_pps_wlc_dc_work E now s) = DC_ENABLE_PASSTHROUGH \<and>
        chg_psy_active (gcpm_pps_wlc_dc_work E now s) = chg_psy_active s \<and>
        chg_psy_online (gcpm_pps_wlc_dc_work E now s) = chg_psy_online s \<and>
        calls (gcpm_pps_wlc_dc_work E now s) = calls (snd (gcpm_pps_work E s)) @
          [Pps_update_adapter src,
           Set_prop old GBMS_PROP_CHARGING_ENABLED 0]
          @ handover_retry_calls E src (snd (gcpm_pps_work E s))) \<and>
     (psy_accepts E old GBMS_PROP_CHARGING_ENABLED 0 \<and>
      \<not> psy_accepts E old POWER_SUPPLY_PROP_ONLINE 0 \<longrightarrow>
        dc_state (gcpm_pps_wlc_dc_work E now s) = DC_ENABLE_PASSTHROUGH \<and>
        chg_psy_active (gcpm_pps_wlc_dc_work E now s) = chg_psy_active s \<and>
        chg_psy_online (gcpm_pps_wlc_dc_work E now s) = chg_psy_online s \<and>
        calls (gcpm_pps_wlc_dc_work E now s) = calls (snd (gcpm_pps_work E s)) @
          [Pps_update_adapter src,
           Set_prop old GBMS_PROP_CHARGING_ENABLED 0,
           Set_prop old POWER_SUPPLY_PROP_ONLINE 0]
          @ handover_retry_calls E src (snd (gcpm_pps_work E s))) \<and>
     (psy_accepts E old GBMS_PROP_CHARGING_ENABLED 0 \<and>
      psy_accepts E old POWER_SUPPLY_PROP_ONLINE 0 \<and>
      \<not> psy_accepts E new POWER_SUPPLY_PROP_ONLINE 1 \<longrightarrow>
        dc_state (gcpm_pps_wlc_dc_work E now s) = DC_ENABLE_PASSTHROUGH \<and>
        chg_psy_active (gcpm_pps_wlc_dc_work E now s) = - 1 \<and>
        chg_psy_online (gcpm_pps_wlc_dc_work E now s) = (chg_psy_online s)[old := False] \<and>
        calls (gcpm_pps_wlc_dc_work E now s) = calls (snd (gcpm_pps_work E s)) @
          [Pps_update_adapter src,
           Set_prop old GBMS_PROP_CHARGING_ENABLED 0,
           Set_prop old POWER_SUPPLY_PROP_ONLINE 0,
           Set_prop new POWER_SUPPLY_PROP_ONLINE 1]
          @ handover_retry_calls E src (snd (gcpm_pps_work E s))) \<and>
     (psy_accepts E old GBMS_PROP_CHARGING_ENABLED 0 \<and>
      psy_accepts E old POWER_SUPPLY_PROP_ONLINE 0 \<and>
      psy_accepts E new POWER_SUPPLY_PROP_ONLINE 1 \<and>
      \<not> psy_accepts E new POWER_SUPPLY_PROP_CONSTANT_CHARGE_VOLTAGE_MAX (fv_uv s) \<longrightarrow>
        dc_state (gcpm_pps_wlc_dc_work E now s) = DC_ENABLE_PASSTHROUGH \<and>
        chg_psy_active (gcpm_pps_wlc_dc_work E now s) = dc_index s \<and>
        chg_psy_online (gcpm_pps_wlc_dc_work E now s)
          = (chg_psy_online s)[old := False, new := True] \<and>
        calls (gcpm_pps_wlc_dc_work E now s) = calls (snd (gcpm_pps_work E s)) @
          [Pps_update_adapter src,
           Set_prop old GBMS_PROP_CHARGING_ENABLED 0,
           Set_prop old POWER_SUPPLY_PROP_ONLINE 0,
           Set_prop new POWER_SUPPLY_PROP_ONLINE 1,
           Set_prop new POWER_SUPPLY_PROP_CONSTANT_CHARGE_VOLTAGE_MAX (fv_uv s)]
          @ handover_retry_calls E src (snd (gcpm_pps_work E s))) \<and>
     (psy_accepts E old GBMS_PROP_CHARGING_ENABLED 0 \<and>
      psy_accepts E old POWER_SUPPLY_PROP_ONLINE 0 \<and>
      psy_accepts E new POWER_SUPPLY_PROP_ONLINE 1 \<and>
      psy_accepts E new POWER_SUPPLY_PROP_CONSTANT_CHARGE_VOLTAGE_MAX (fv_uv s) \<and>
      \<not> psy_accepts E new POWER_SUPPLY_PROP_CONSTANT_CHARGE_CURRENT_MAX (cc_max s) \<longrightarrow>
        dc_state (gcpm_pps_wlc_dc_work E now s) = DC_ENABLE_PASSTHROUGH \<and>
        chg_psy_active (gcpm_pps_wlc_dc_work E now s) = dc_index s \<and>
        chg_psy_online (gcpm_pps_wlc_dc_work E now s)
          = (chg_psy_online s)[old := False, new := True] \<and>
        calls (gcpm_pps_wlc_dc_work E now s) = calls (snd (gcpm_pps_work E s)) @
          [Pps_update_adapter src,
           Set_prop old GBMS_PROP_CHARGING_ENABLED 0,
           Set_prop old POWER_SUPPLY_PROP_ONLINE 0,
           Set_prop new POWER_SUPPLY_PROP_ONLINE 1,
           Set_prop new POWER_SUPPLY_PROP_CONSTANT_CHARGE_VOLTAGE_MAX (fv_uv s),
           Set_prop new POWER_SUPPLY_PROP_CONSTANT_CHARGE_CURRENT_MAX (cc_max s)]
          @ handover_retry_calls E src (snd (gcpm_pps_work E s))) \<and>
     (psy_accepts E old GBMS_PROP_CHARGING_ENABLED 0 \<and>
      psy_accepts E old POWER_SUPPLY_PROP_ONLINE 0 \<and>
      psy_accepts E new POWER_SUPPLY_PROP_ONLINE 1 \<and>
      psy_accepts E new POWER_SUPPLY_PROP_CONSTANT_CHARGE_VOLTAGE_MAX (fv_uv s) \<and>
      psy_accepts E new POWER_SUPPLY_PROP_CONSTANT_CHARGE_CURRENT_MAX (cc_max s) \<and>
      \<not> psy_accepts E new POWER_SUPPLY_PROP_CURRENT_MAX (out_ua s) \<longrightarrow>
        dc_state (gcpm_pps_wlc_dc_work E now s) = DC_ENABLE_PASSTHROUGH \<and>
        chg_psy_active (gcpm_pps_wlc_dc_work E now s) = dc_index s \<and>
        chg_psy_online (gcpm_pps_wlc_dc_work E now s)
          = (chg_psy_online s)[old := False, new := True] \<and>
        calls (gcpm_pps_wlc_dc_work E now s) = calls (snd (gcpm_pps_work E s)) @
          [Pps_update_adapter src,
           Set_prop old GBMS_PROP_CHARGING_ENABLED 0,
           Set_prop old POWER_SUPPLY_PROP_ONLINE 0,
           Set_prop new POWER_SUPPLY_PROP_ONLINE 1,
           Set_prop new POWER_SUPPLY_PROP_CONSTANT_CHARGE_VOLTAGE_MAX (fv_uv s),
           Set_prop new POWER_SUPPLY_PROP_CONSTANT_CHARGE_CURRENT_MAX (cc_max s),
           Set_prop new POWER_SUPPLY_PROP_CURRENT_MAX (out_ua s)]
          @ handover_retry_calls E src (snd (gcpm_pps_work E s))) \<and>
     (psy_accepts E old GBMS_PROP_CHARGING_ENABLED 0 \<and>
      psy_accepts E old POWER_SUPPLY_PROP_ONLINE 0 \<and>
      psy_accepts E new POWER_SUPPLY_PROP_ONLINE 1 \<and>
      psy_accepts E new POWER_SUPPLY_PROP_CONSTANT_CHARGE_VOLTAGE_MAX (fv_uv s) \<and>
      psy_accepts E new POWER_SUPPLY_PROP_CONSTANT_CHARGE_CURRENT_MAX (cc_max s) \<and>
      psy_accepts E new POWER_SUPPLY_PROP_CURRENT_MAX (out_ua s) \<and>
      \<not> dc_vote_accepted E s \<longrightarrow>
        dc_state (gcpm_pps_wlc_dc_work E now s) = DC_ENABLE_PASSTHROUGH \<and>
        chg_psy_active (gcpm_pps_wlc_dc_work E now s) = dc_index s \<and>
        chg_psy_online (gcpm_pps_wlc_dc_work E now s)
          = (chg_psy_online s)[old := False, new := True] \<and>
        calls (gcpm_pps_wlc_dc_work E now s) = calls (snd (gcpm_pps_work E s)) @
          [Pps_update_adapter src,
           Set_prop old GBMS_PROP_CHARGING_ENABLED 0,
           Set_prop old POWER_SUPPLY_PROP_ONLINE 0,
           Set_prop new POWER_SUPPLY_PROP_ONLINE 1,
           Set_prop new POWER_SUPPLY_PROP_CONSTANT_CHARGE_VOLTAGE_MAX (fv_uv s),
           Set_prop new POWER_SUPPLY_PROP_CONSTANT_CHARGE_CURRENT_MAX (cc_max s),
           Set_prop new POWER_SUPPLY_PROP_CURRENT_MAX (out_ua s)]
          @ dcen_gpio_calls s 1 @ dc_vote_calls E s
          @ handover_retry_calls E src (snd (gcpm_pps_work E s))) \<and>
     (dc_state (gcpm_pps_wlc_dc_work E now s) \<noteq> DC_PASSTHROUGH \<and>
      fst (pps_update_adapter E src (pps_data_of (snd (gcpm_pps_work E s)) src)) \<noteq> 0 \<longrightarrow>
        last (calls (gcpm_pps_wlc_dc_work E now s))
          = Schedule_delayed_work PPS_WORK (handover_retry_ms E src (snd (gcpm_pps_work E s))) \<and>
        0 < handover_retry_ms E src (snd (gcpm_pps_work E s)) \<and>
        handover_retry_ms E src (snd (gcpm_pps_work E s)) \<le> DC_ERROR_RETRY_MS)"
proof -
  let ?s1 = "snd (gcpm_pps_work E s)"
  let ?W = "gcpm_dc_work_enable_passthrough E src ?s1"
  from assms(3) have ep: "dc_state s = DC_ENABLE_PASSTHROUGH" "0 < dc_index s"
    by (simp_all add: handover_ready_def)
  have w: "gcpm_pps_wlc_dc_work E now s = ?W"
    using assms(1,2) ep(2,1) assms(4,5) by (rule work_is_handover)
  from assms(3) have r1: "handover_ready ?s1 old new"
    by (simp add: handover_ready_pps_work)
  have ep1: "dc_state ?s1 = DC_ENABLE_PASSTHROUGH" using ep by simp
  note a = handover_state [OF r1, of E src, unfolded handover_accepted_pps_work]
  have st: "dc_state ?W = DC_PASSTHROUGH \<or> dc_state ?W = DC_ENABLE_PASSTHROUGH"
    using ep by (simp add: handover_block_eq Let_def)
  have g: "dcen_gpio_calls ?s1 1 = dcen_gpio_calls s 1"
    by (simp add: dcen_gpio_calls_def)
  have v: "dc_vote_calls E ?s1 = dc_vote_calls E s" "dc_vote_accepted E ?s1 = dc_vote_accepted E s"
    by (simp_all add: dc_vote_calls_def dc_vote_accepted_def)
  have failed: "dc_state ?W = DC_ENABLE_PASSTHROUGH" if "\<not> handover_accepted E s old new"
    using that a st by simp
  have c1: "dc_state ?W = DC_PASSTHROUGH \<longleftrightarrow> handover_accepted E s old new" by (rule a)
  have c3: "handover_accepted E s old new \<longrightarrow>
        chg_psy_active ?W = dc_index s \<and>
        chg_psy_online ?W = (chg_psy_online s)[old := False, new := True] \<and>
        calls ?W = calls ?s1 @
          [Pps_update_adapter src,
           Set_prop old GBMS_PROP_CHARGING_ENABLED 0,
           Set_prop old POWER_SUPPLY_PROP_ONLINE 0,
           Set_prop new POWER_SUPPLY_PROP_ONLINE 1,
           Set_prop new POWER_SUPPLY_PROP_CONSTANT_CHARGE_VOLTAGE_MAX (fv_uv s),
           Set_prop new POWER_SUPPLY_PROP_CONSTANT_CHARGE_CURRENT_MAX (cc_max s),
           Set_prop new POWER_SUPPLY_PROP_CURRENT_MAX (out_ua s)]
          @ dcen_gpio_calls s 1
          @ [Cast_vote True, Schedule_delayed_work PPS_WORK DC_ENABLE_DELAY_MS]"
    using handover_accepted_result [OF r1, of E src, unfolded handover_accepted_pps_work]
    by (simp add: g)
  have f1: "\<not> psy_accepts E old GBMS_PROP_CHARGING_ENABLED 0 \<longrightarrow>
        dc_state ?W = DC_ENABLE_PASSTHROUGH \<and>
        chg_psy_active ?W = chg_psy_active s \<and>
        chg_psy_online ?W = chg_psy_online s \<and>
        calls ?W = calls ?s1 @
          [Pps_update_adapter src,
           Set_prop old GBMS_PROP_CHARGING_ENABLED 0]
          @ handover_retry_calls E src ?s1"
  proof
    assume n: "\<not> psy_accepts E old GBMS_PROP_CHARGING_ENABLED 0"
    then have "\<not> handover_accepted E s old new" by (simp add: handover_accepted_def)
    with failed handover_offline_refused_result [OF r1, of E src] n
    show "dc_state ?W = DC_ENABLE_PASSTHROUGH \<and>
        chg_psy_active ?W = chg_psy_active s \<and>
        chg_psy_online ?W = chg_psy_online s \<and>
        calls ?W = calls ?s1 @
          [Pps_update_adapter src,
           Set_prop old GBMS_PROP_CHARGING_ENABLED 0]
          @ handover_retry_calls E src ?s1" by simp
  qed
  have f2: "psy_accepts E old GBMS_PROP_CHARGING_ENABLED 0 \<and>
      \<not> psy_accepts E old POWER_SUPPLY_PROP_ONLINE 0 \<longrightarrow>
        dc_state ?W = DC_ENABLE_PASSTHROUGH \<and>
        chg_psy_active ?W = chg_psy_active s \<and>
        chg_psy_online ?W = chg_psy_online s \<and>
        calls ?W = calls ?s1 @
          [Pps_update_adapter src,
           Set_prop old GBMS_PROP_CHARGING_ENABLED 0,
           Set_prop old POWER_SUPPLY_PROP_ONLINE 0]
          @ handover_retry_calls E src ?s1"
  proof
    assume n: "psy_accepts E old GBMS_PROP_CHARGING_ENABLED 0 \<and>
      \<not> psy_accepts E old POWER_SUPPLY_PROP_ONLINE 0"
    then have "\<not> handover_accepted E s old new" by (simp add: handover_accepted_def)
    with failed handover_offline_refused_result [OF r1, of E src] n
    show "dc_state ?W = DC_ENABLE_PASSTHROUGH \<and>
        chg_psy_active ?W = chg_psy_active s \<and>
        chg_psy_online ?W = chg_psy_online s \<and>
        calls ?W = calls ?s1 @
          [Pps_update_adapter src,
           Set_prop old GBMS_PROP_CHARGING_ENABLED 0,
           Set_prop old POWER_SUPPLY_PROP_ONLINE 0]
          @ handover_retry_calls E src ?s1" by simp
  qed
  have f3: "psy_accepts E old GBMS_PROP_CHARGING_ENABLED 0 \<and>
      psy_accepts E old POWER_SUPPLY_PROP_ONLINE 0 \<and>
      \<not> psy_accepts E new POWER_SUPPLY_PROP_ONLINE 1 \<longrightarrow>
        dc_state ?W = DC_ENABLE_PASSTHROUGH \<and>
        chg_psy_active ?W = - 1 \<and>
        chg_psy_online ?W = (chg_psy_online s)[old := False] \<and>
        calls ?W = calls ?s1 @
          [Pps_update_adapter src,
           Set_prop old GBMS_PROP_CHARGING_ENABLED 0,
           Set_prop old POWER_SUPPLY_PROP_ONLINE 0,
           Set_prop new POWER_SUPPLY_PROP_ONLINE 1]
          @ handover_retry_calls E src ?s1"
  proof
    assume n: "psy_accepts E old GBMS_PROP_CHARGING_ENABLED 0 \<and>
      psy_accepts E old POWER_SUPPLY_PROP_ONLINE 0 \<and>
      \<not> psy_accepts E new POWER_SUPPLY_PROP_ONLINE 1"
    then have "\<not> handover_accepted E s old new" by (simp add: handover_accepted_def)
    with failed handover_online_refused_result [OF r1, of E src] n
    show "dc_state ?W = DC_ENABLE_PASSTHROUGH \<and>
        chg_psy_active ?W = - 1 \<and>
        chg_psy_online ?W = (chg_psy_online s)[old := False] \<and>
        calls ?W = calls ?s1 @
          [Pps_update_adapter src,
           Set_prop old GBMS_PROP_CHARGING_ENABLED 0,
           Set_prop old POWER_SUPPLY_PROP_ONLINE 0,
           Set_prop new POWER_SUPPLY_PROP_ONLINE 1]
          @ handover_retry_calls E src ?s1" by simp
  qed
  have f4: "psy_accepts E old GBMS_PROP_CHARGING_ENABLED 0 \<and>
      psy_accepts E old POWER_SUPPLY_PROP_ONLINE 0 \<and>
      psy_accepts E new POWER_SUPPLY_PROP_ONLINE 1 \<and>
      \<not> psy_accepts E new POWER_SUPPLY_PROP_CONSTANT_CHARGE_VOLTAGE_MAX (fv_uv s) \<longrightarrow>
        dc_state ?W = DC_ENABLE_PASSTHROUGH \<and>
        chg_psy_active ?W = dc_index s \<and>
        chg_psy_online ?W = (chg_psy_online s)[old := False, new := True] \<and>
        calls ?W = calls ?s1 @
          [Pps_update_adapter src,
           Set_prop old GBMS_PROP_CHARGING_ENABLED 0,
           Set_prop old POWER_SUPPLY_PROP_ONLINE 0,
           Set_prop new POWER_SUPPLY_PROP_ONLINE 1,
           Set_prop new POWER_SUPPLY_PROP_CONSTANT_CHARGE_VOLTAGE_MAX (fv_uv s)]
          @ handover_retry_calls E src ?s1"
    using handover_fv_refused_result [OF r1, of E src] by simp
  have f5: "psy_accepts E old GBMS_PROP_CHARGING_ENABLED 0 \<and>
      psy_accepts E old POWER_SUPPLY_PROP_ONLINE 0 \<and>
      psy_accepts E new POWER_SUPPLY_PROP_ONLINE 1 \<and>
      psy_accepts E new POWER_SUPPLY_PROP_CONSTANT_CHARGE_VOLTAGE_MAX (fv_uv s) \<and>
      \<not> psy_accepts E new POWER_SUPPLY_PROP_CONSTANT_CHARGE_CURRENT_MAX (cc_max s) \<longrightarrow>
        dc_state ?W = DC_ENABLE_PASSTHROUGH \<and>
        chg_psy_active ?W = dc_index s \<and>
        chg_psy_online ?W = (chg_psy_online s)[old := False, new := True] \<and>
        calls ?W = calls ?s1 @
          [Pps_update_adapter src,
           Set_prop old GBMS_PROP_CHARGING_ENABLED 0,
           Set_prop old POWER_SUPPLY_PROP_ONLINE 0,
           Set_prop new POWER_SUPPLY_PROP_ONLINE 1,
           Set_prop new POWER_SUPPLY_PROP_CONSTANT_CHARGE_VOLTAGE_MAX (fv_uv s),
           Set_prop new POWER_SUPPLY_PROP_CONSTANT_CHARGE_CURRENT_MAX (cc_max s)]
          @ handover_retry_calls E src ?s1"
  proof
    assume n: "psy_accepts E old GBMS_PROP_CHARGING_ENABLED 0 \<and>
      psy_accepts E old POWER_SUPPLY_PROP_ONLINE 0 \<and>
      psy_accepts E new POWER_SUPPLY_PROP_ONLINE 1 \<and>
      psy_accepts E new POWER_SUPPLY_PROP_CONSTANT_CHARGE_VOLTAGE_MAX (fv_uv s) \<and>
      \<not> psy_accepts E new POWER_SUPPLY_PROP_CONSTANT_CHARGE_CURRENT_MAX (cc_max s)"
    then have "\<not> handover_accepted E s old new" by (simp add: handover_accepted_def)
    with failed handover_cc_refused_result [OF r1, of E src] n
    show "dc_state ?W = DC_ENABLE_PASSTHROUGH \<and>
        chg_psy_active ?W = dc_index s \<and>
        chg_psy_online ?W = (chg_psy_online s)[old := False, new := True] \<and>
        calls ?W = calls ?s1 @
          [Pps_update_adapter src,
           Set_prop old GBMS_PROP_CHARGING_ENABLED 0,
           Set_prop old POWER_SUPPLY_PROP_ONLINE 0,
           Set_prop new POWER_SUPPLY_PROP_ONLINE 1,
           Set_prop new POWER_SUPPLY_PROP_CONSTANT_CHARGE_VOLTAGE_MAX (fv_uv s),
           Set_prop new POWER_SUPPLY_PROP_CONSTANT_CHARGE_CURRENT_MAX (cc_max s)]
          @ handover_retry_calls E src ?s1" by simp
  qed
  have f6: "psy_accepts E old GBMS_PROP_CHARGING_ENABLED 0 \<and>
      psy_accepts E old POWER_SUPPLY_PROP_ONLINE 0 \<and>
      psy_accepts E new POWER_SUPPLY_PROP_ONLINE 1 \<and>
      psy_accepts E new POWER_SUPPLY_PROP_CONSTANT_CHARGE_VOLTAGE_MAX (fv_uv s) \<and>
      psy_accepts E new POWER_SUPPLY_PROP_CONSTANT_CHARGE_CURRENT_MAX (cc_max s) \<and>
      \<not> psy_accepts E new POWER_SUPPLY_PROP_CURRENT_MAX (out_ua s) \<longrightarrow>
        dc_state ?W = DC_ENABLE_PASSTHROUGH \<and>
        chg_psy_active ?W = dc_index s \<and>
        chg_psy_online ?W = (chg_psy_online s)[old := False, new := True] \<and>
        calls ?W = calls ?s1 @
          [Pps_update_adapter src,
           Set_prop old GBMS_PROP_CHARGING_ENABLED 0,
           Set_prop old POWER_SUPPLY_PROP_ONLINE 0,
           Set_prop new POWER_SUPPLY_PROP_ONLINE 1,
           Set_prop new POWER_SUPPLY_PROP_CONSTANT_CHARGE_VOLTAGE_MAX (fv_uv s),
           Set_prop new POWER_SUPPLY_PROP_CONSTANT_CHARGE_CURRENT_MAX (cc_max s),
           Set_prop new POWER_SUPPLY_PROP_CURRENT_MAX (out_ua s)]
          @ handover_retry_calls E src ?s1"
  proof
    assume n: "psy_accepts E old GBMS_PROP_CHARGING_ENABLED 0 \<and>
      psy_accepts E old POWER_SUPPLY_PROP_ONLINE 0 \<and>
      psy_accepts E new POWER_SUPPLY_PROP_ONLINE 1 \<and>
      psy_accepts E new POWER_SUPPLY_PROP_CONSTANT_CHARGE_VOLTAGE_MAX (fv_uv s) \<and>
      psy_accepts E new POWER_SUPPLY_PROP_CONSTANT_CHARGE_CURRENT_MAX (cc_max s) \<and>
      \<not> psy_accepts E new POWER_SUPPLY_PROP_CURRENT_MAX (out_ua s)"
    then have "\<not> handover_accepted E s old new" by (simp add: handover_accepted_def)
    with failed handover_iin_refused_result [OF r1, of E src] n
    show "dc_state ?W = DC_ENABLE_PASSTHROUGH \<and>
        chg_psy_active ?W = dc_index s \<and>
        chg_psy_online ?W = (chg_psy_online s)[old := False, new := True] \<and>
        calls ?W = calls ?s1 @
          [Pps_update_adapter src,
           Set_prop old GBMS_PROP_CHARGING_ENABLED 0,
           Set_prop old POWER_SUPPLY_PROP_ONLINE 0,
           Set_prop new POWER_SUPPLY_PROP_ONLINE 1,
           Set_prop new POWER_SUPPLY_PROP_CONSTANT_CHARGE_VOLTAGE_MAX (fv_uv s),
           Set_prop new POWER_SUPPLY_PROP_CONSTANT_CHARGE_CURRENT_MAX (cc_max s),
           Set_prop new POWER_SUPPLY_PROP_CURRENT_MAX (out_ua s)]
          @ handover_retry_calls E src ?s1" by simp
  qed
  have f7: "psy_accepts E old GBMS_PROP_CHARGING_ENABLED 0 \<and>
      psy_accepts E old POWER_SUPPLY_PROP_ONLINE 0 \<and>
      psy_accepts E new POWER_SUPPLY_PROP_ONLINE 1 \<and>
      psy_accepts E new POWER_SUPPLY_PROP_CONSTANT_CHARGE_VOLTAGE_MAX (fv_uv s) \<and>
      psy_accepts E new POWER_SUPPLY_PROP_CONSTANT_CHARGE_CURRENT_MAX (cc_max s) \<and>
      psy_accepts E new POWER_SUPPLY_PROP_CURRENT_MAX (out_ua s) \<and>
      \<not> dc_vote_accepted E s \<longrightarrow>
        dc_state ?W = DC_ENABLE_PASSTHROUGH \<and>
        chg_psy_active ?W = dc_index s \<and>
        chg_psy_online ?W = (chg_psy_online s)[old := False, new := True] \<and>
        calls ?W = calls ?s1 @
          [Pps_update_adapter src,
           Set_prop old GBMS_PROP_CHARGING_ENABLED 0,
           Set_prop old POWER_SUPPLY_PROP_ONLINE 0,
           Set_prop new POWER_SUPPLY_PROP_ONLINE 1,
           Set_prop new POWER_SUPPLY_PROP_CONSTANT_CHARGE_VOLTAGE_MAX (fv_uv s),
           Set_prop new POWER_SUPPLY_PROP_CONSTANT_CHARGE_CURRENT_MAX (cc_max s),
           Set_prop new POWER_SUPPLY_PROP_CURRENT_MAX (out_ua s)]
          @ dcen_gpio_calls s 1 @ dc_vote_calls E s
          @ handover_retry_calls E src ?s1"
  proof
    assume n: "psy_accepts E old GBMS_PROP_CHARGING_ENABLED 0 \<and>
      psy_accepts E old POWER_SUPPLY_PROP_ONLINE 0 \<and>
      psy_accepts E new POWER_SUPPLY_PROP_ONLINE 1 \<and>
      psy_accepts E new POWER_SUPPLY_PROP_CONSTANT_CHARGE_VOLTAGE_MAX (fv_uv s) \<and>
      psy_accepts E new POWER_SUPPLY_PROP_CONSTANT_CHARGE_CURRENT_MAX (cc_max s) \<and>
      psy_accepts E new POWER_SUPPLY_PROP_CURRENT_MAX (out_ua s) \<and>
      \<not> dc_vote_accepted E s"
    then have "\<not> handover_accepted E s old new" by (simp add: handover_accepted_def)
    with failed handover_vote_refused_result [OF r1, of E src] n
    show "dc_state ?W = DC_ENABLE_PASSTHROUGH \<and>
        chg_psy_active ?W = dc_index s \<and>
        chg_psy_online ?W = (chg_psy_online s)[old := False, new := True] \<and>
        calls ?W = calls ?s1 @
          [Pps_update_adapter src,
           Set_prop old GBMS_PROP_CHARGING_ENABLED 0,
           Set_prop old POWER_SUPPLY_PROP_ONLINE 0,
           Set_prop new POWER_SUPPLY_PROP_ONLINE 1,
           Set_prop new POWER_SUPPLY_PROP_CONSTANT_CHARGE_VOLTAGE_MAX (fv_uv s),
           Set_prop new POWER_SUPPLY_PROP_CONSTANT_CHARGE_CURRENT_MAX (cc_max s),
           Set_prop new POWER_SUPPLY_PROP_CURRENT_MAX (out_ua s)]
          @ dcen_gpio_calls s 1 @ dc_vote_calls E s
          @ handover_retry_calls E src ?s1" by (simp add: g v)
  qed
  have c5: "dc_state ?W \<noteq> DC_PASSTHROUGH \<and>
      fst (pps_update_adapter E src (pps_data_of ?s1 src)) \<noteq> 0 \<longrightarrow>
        last (calls ?W) = Schedule_delayed_work PPS_WORK (handover_retry_ms E src ?s1) \<and>
        0 < handover_retry_ms E src ?s1 \<and>
        handover_retry_ms E src ?s1 \<le> DC_ERROR_RETRY_MS"
    using handover_retry_last [OF ep1, of E src] by simp
  show ?thesis
    unfolding w
    by (intro conjI) (rule c1, rule st, rule c3, rule f1, rule f2, rule f3, rule f4, rule f5,
        rule f6, rule f7, rule c5)
qed

text \<open>With collaborators that accept, the hand-over ends in Passthrough with the calls
  in the order above. With a charger that refuses the input current limit it stays in
  EnablePassthrough with the DC charger online and active, and with chargers that refuse
  to go online it stays in EnablePassthrough with no charger online or active; in both
  the work is scheduled again after \<open>DC_ERROR_RETRY_MS\<close>.\<close>

theorem handover_order_witness:
  "handover_ready gcpm_handover 0 1 \<and>
   handover_accepted env_ok gcpm_handover 0 1 \<and>
   dc_state (gcpm_pps_wlc_dc_work env_ok 105 gcpm_handover) = DC_PASSTHROUGH \<and>
   chg_psy_online (gcpm_pps_wlc_dc_work env_ok 105 gcpm_handover) = [False, True, False, False] \<and>
   calls (gcpm_pps_wlc_dc_work env_ok 105 gcpm_handover) =
     [Pps_work TCPM, Pps_work WLC, Pps_update_adapter TCPM,
      Set_prop 0 GBMS_PROP_CHARGING_ENABLED 0,
      Set_prop 0 POWER_SUPPLY_PROP_ONLINE 0,
      Set_prop 1 POWER_SUPPLY_PROP_ONLINE 1,
      Set_prop 1 POWER_SUPPLY_PROP_CONSTANT_CHARGE_VOLTAGE_MAX 4400000,
      Set_prop 1 POWER_SUPPLY_PROP_CONSTANT_CHARGE_CURRENT_MAX 3000000,
      Set_prop 1 POWER_SUPPLY_PROP_CURRENT_MAX (- 1),
      Cast_vote True, Schedule_delayed_work PPS_WORK DC_ENABLE_DELAY_MS] \<and>
   dc_state (gcpm_pps_wlc_dc_work (env_refuse POWER_SUPPLY_PROP_CURRENT_MAX) 105 gcpm_handover)
     = DC_ENABLE_PASSTHROUGH \<and>
   chg_psy_active (gcpm_pps_wlc_dc_work (env_refuse POWER_SUPPLY_PROP_CURRENT_MAX) 105 gcpm_handover)
     = 1 \<and>
   chg_psy_online (gcpm_pps_wlc_dc_work (env_refuse POWER_SUPPLY_PROP_CURRENT_MAX) 105 gcpm_handover)
     = [False, True, False, False] \<and>
   calls (gcpm_pps_wlc_dc_work (env_refuse POWER_SUPPLY_PROP_CURRENT_MAX) 105 gcpm_handover) =
     [Pps_work TCPM, Pps_work WLC, Pps_update_adapter TCPM,
      Set_prop 0 GBMS_PROP_CHARGING_ENABLED 0,
      Set_prop 0 POWER_SUPPLY_PROP_ONLINE 0,
      Set_prop 1 POWER_SUPPLY_PROP_ONLINE 1,
      Set_prop 1 POWER_SUPPLY_PROP_CONSTANT_CHARGE_VOLTAGE_MAX 4400000,
      Set_prop 1 POWER_SUPPLY_PROP_CONSTANT_CHARGE_CURRENT_MAX 3000000,
      Set_prop 1 POWER_SUPPLY_PROP_CURRENT_MAX (- 1),
      Schedule_delayed_work PPS_WORK DC_ERROR_RETRY_MS] \<and>
   dc_state (gcpm_pps_wlc_dc_work env_online_refused 105 gcpm_handover) = DC_ENABLE_PASSTHROUGH \<and>
   chg_psy_active (gcpm_pps_wlc_dc_work env_online_refused 105 gcpm_handover) = - 1 \<and>
   chg_psy_online (gcpm_pps_wlc_dc_work env_online_refused 105 gcpm_handover)
     = [False, False, False, False] \<and>
   calls (gcpm_pps_wlc_dc_work env_online_refused 105 gcpm_handover) =
     [Pps_work TCPM, Pps_work WLC, Pps_update_adapter TCPM,
      Set_prop 0 GBMS_PROP_CHARGING_ENABLED 0,
      Set_prop 0 POWER_SUPPLY_PROP_ONLINE 0,
      Set_prop 1 POWER_SUPPLY_PROP_ONLINE 1,
      Schedule_delayed_work PPS_WORK DC_ERROR_RETRY_MS]"
proof -
  have i: "init_complete gcpm_handover" "resume_complete gcpm_handover"
    by (simp_all add: gcpm_handover_def gcpm_tcpm_selected_def gcpm_demand_def gcpm0_def)
  have r: "handover_ready gcpm_handover 0 1"
    by (simp add: handover_ready_def gcpm_chg_get_active_def chg_psy_at_def gcpm_handover_def
        gcpm_tcpm_selected_def gcpm_demand_def gcpm0_def)
  have q: "0 \<le> fst (gcpm_pps_work E gcpm_handover)"
    "gcpm_pps_data (snd (gcpm_pps_work E gcpm_handover)) = Some TCPM"
    "calls (snd (gcpm_pps_work E gcpm_handover)) = [Pps_work TCPM, Pps_work WLC]"
    "fst (pps_update_adapter E TCPM (pps_data_of (snd (gcpm_pps_work E gcpm_handover)) TCPM)) = 7000"
    "handover_retry_ms E TCPM (snd (gcpm_pps_work E gcpm_handover)) = DC_ERROR_RETRY_MS"
    "handover_retry_calls E TCPM (snd (gcpm_pps_work E gcpm_handover))
       = [Schedule_delayed_work PPS_WORK DC_ERROR_RETRY_MS]"
    if "E = env_ok \<or> E = env_refuse POWER_SUPPLY_PROP_CURRENT_MAX \<or> E = env_online_refused" for E
    using that
    by (auto simp: gcpm_pps_work_def gcpm_pps_work_src_def gcpm_pps_data_def pps_call_def
        pps_data_set_def log_call_def Let_def split_def handover_retry_ms_def handover_pps_ui_def
        handover_retry_calls_def env_online_refused_def
        env_refuse_def env_ok_def gcpm_handover_def gcpm_tcpm_selected_def gcpm_demand_def
        gcpm0_def pps_data0_def)
  have e1: "env_ok = env_ok \<or> env_ok = env_refuse POWER_SUPPLY_PROP_CURRENT_MAX \<or>
            env_ok = env_online_refused" by simp
  have e2: "env_refuse POWER_SUPPLY_PROP_CURRENT_MAX = env_ok \<or>
            env_refuse POWER_SUPPLY_PROP_CURRENT_MAX = env_refuse POWER_SUPPLY_PROP_CURRENT_MAX \<or>
            env_refuse POWER_SUPPLY_PROP_CURRENT_MAX = env_online_refused"
    by simp
  have e3: "env_online_refused = env_ok \<or>
            env_online_refused = env_refuse POWER_SUPPLY_PROP_CURRENT_MAX \<or>
            env_online_refused = env_online_refused"
    by simp
  have ok: "handover_accepted env_ok gcpm_handover 0 1"
    by (simp add: handover_accepted_def psy_accepts_def dc_vote_accepted_def env_ok_def)
  have v: "fv_uv gcpm_handover = 4400000" "cc_max gcpm_handover = 3000000"
    "out_ua gcpm_handover = - 1" "dcen_gpio_calls gcpm_handover 1 = []"
    "chg_psy_online gcpm_handover = [True, False, False, False]"
    "dc_index gcpm_handover = 1"
    by (simp_all add: dcen_gpio_calls_def gcpm_handover_def gcpm_tcpm_selected_def
        gcpm_demand_def gcpm0_def)
  have p2: "psy_accepts (env_refuse POWER_SUPPLY_PROP_CURRENT_MAX) p pr x
              \<longleftrightarrow> pr \<noteq> POWER_SUPPLY_PROP_CURRENT_MAX" for p pr x
    by (simp add: psy_accepts_def env_refuse_def env_ok_def)
  have p3: "psy_accepts env_online_refused p pr x
              \<longleftrightarrow> \<not> (pr = POWER_SUPPLY_PROP_ONLINE \<and> x = 1)" for p pr x
    by (simp add: psy_accepts_def env_online_refused_def env_ok_def)
  from handover_order [OF i r q(1,2) [OF e1], of 105] ok q(3) [OF e1] v
  have a1: "dc_state (gcpm_pps_wlc_dc_work env_ok 105 gcpm_handover) = DC_PASSTHROUGH \<and>
   chg_psy_online (gcpm_pps_wlc_dc_work env_ok 105 gcpm_handover) = [False, True, False, False] \<and>
   calls (gcpm_pps_wlc_dc_work env_ok 105 gcpm_handover) =
     [Pps_work TCPM, Pps_work WLC, Pps_update_adapter TCPM,
      Set_prop 0 GBMS_PROP_CHARGING_ENABLED 0,
      Set_prop 0 POWER_SUPPLY_PROP_ONLINE 0,
      Set_prop 1 POWER_SUPPLY_PROP_ONLINE 1,
      Set_prop 1 POWER_SUPPLY_PROP_CONSTANT_CHARGE_VOLTAGE_MAX 4400000,
      Set_prop 1 POWER_SUPPLY_PROP_CONSTANT_CHARGE_CURRENT_MAX 3000000,
      Set_prop 1 POWER_SUPPLY_PROP_CURRENT_MAX (- 1),
      Cast_vote True, Schedule_delayed_work PPS_WORK DC_ENABLE_DELAY_MS]"
    by simp
  from handover_order [OF i r q(1,2) [OF e2], of 105] q(3,6) [OF e2] v
  have a2: "dc_state (gcpm_pps_wlc_dc_work (env_refuse POWER_SUPPLY_PROP_CURRENT_MAX) 105 gcpm_handover)
     = DC_ENABLE_PASSTHROUGH \<and>
   chg_psy_active (gcpm_pps_wlc_dc_work (env_refuse POWER_SUPPLY_PROP_CURRENT_MAX) 105 gcpm_handover)
     = 1 \<and>
   chg_psy_online (gcpm_pps_wlc_dc_work (env_refuse POWER_SUPPLY_PROP_CURRENT_MAX) 105 gcpm_handover)
     = [False, True, False, False] \<and>
   calls (gcpm_pps_wlc_dc_work (env_refuse POWER_SUPPLY_PROP_CURRENT_MAX) 105 gcpm_handover) =
     [Pps_work TCPM, Pps_work WLC, Pps_update_adapter TCPM,
      Set_prop 0 GBMS_PROP_CHARGING_ENABLED 0,
      Set_prop 0 POWER_SUPPLY_PROP_ONLINE 0,
      Set_prop 1 POWER_SUPPLY_PROP_ONLINE 1,
      Set_prop 1 POWER_SUPPLY_PROP_CONSTANT_CHARGE_VOLTAGE_MAX 4400000,
      Set_prop 1 POWER_SUPPLY_PROP_CONSTANT_CHARGE_CURRENT_MAX 3000000,
      Set_prop 1 POWER_SUPPLY_PROP_CURRENT_MAX (- 1),
      Schedule_delayed_work PPS_WORK DC_ERROR_RETRY_MS]"
    by (simp add: p2)
  from handover_order [OF i r q(1,2) [OF e3], of 105] q(3,6) [OF e3] v
  have a3: "dc_state (gcpm_pps_wlc_dc_work env_online_refused 105 gcpm_handover) = DC_ENABLE_PASSTHROUGH \<and>
   chg_psy_active (gcpm_pps_wlc_dc_work env_online_refused 105 gcpm_handover) = - 1 \<and>
   chg_psy_online (gcpm_pps_wlc_dc_work env_online_refused 105 gcpm_handover)
     = [False, False, False, False] \<and>
   calls (gcpm_pps_wlc_dc_work env_online_refused 105 gcpm_handover) =
     [Pps_work TCPM, Pps_work WLC, Pps_update_adapter TCPM,
      Set_prop 0 GBMS_PROP_CHARGING_ENABLED 0,
      Set_prop 0 POWER_SUPPLY_PROP_ONLINE 0,
      Set_prop 1 POWER_SUPPLY_PROP_ONLINE 1,
      Schedule_delayed_work PPS_WORK DC_ERROR_RETRY_MS]"
    by (simp add: p3)
  from r ok a1 a2 a3 show ?thesis by simp
qed


text \<open>Claim C1 as it was stated fails: the DC charger refuses the target voltage, and at
  the end of the work the state is EnablePassthrough but the DC charger has been marked
  online (ONLINE 1 was written before the voltage) and is the active charger, while the
  charger that was online is offline.\<close>

theorem handover_order_counterexample:
  "\<not> psy_accepts (env_refuse POWER_SUPPLY_PROP_CONSTANT_CHARGE_VOLTAGE_MAX) 1
       POWER_SUPPLY_PROP_CONSTANT_CHARGE_VOLTAGE_MAX (fv_uv gcpm_handover) \<and>
   dc_state gcpm_handover = DC_ENABLE_PASSTHROUGH \<and>
   chg_psy_online gcpm_handover = [True, False, False, False] \<and>
   dc_state (gcpm_pps_wlc_dc_work (env_refuse POWER_SUPPLY_PROP_CONSTANT_CHARGE_VOLTAGE_MAX)
      105 gcpm_handover) = DC_ENABLE_PASSTHROUGH \<and>
   chg_psy_active (gcpm_pps_wlc_dc_work (env_refuse POWER_SUPPLY_PROP_CONSTANT_CHARGE_VOLTAGE_MAX)
      105 gcpm_handover) = 1 \<and>
   chg_psy_online (gcpm_pps_wlc_dc_work (env_refuse POWER_SUPPLY_PROP_CONSTANT_CHARGE_VOLTAGE_MAX)
      105 gcpm_handover) = [False, True, False, False] \<and>
   calls (gcpm_pps_wlc_dc_work (env_refuse POWER_SUPPLY_PROP_CONSTANT_CHARGE_VOLTAGE_MAX)
      105 gcpm_handover) =
     [Pps_work TCPM, Pps_work WLC, Pps_update_adapter TCPM,
      Set_prop 0 GBMS_PROP_CHARGING_ENABLED 0,
      Set_prop 0 POWER_SUPPLY_PROP_ONLINE 0,
      Set_prop 1 POWER_SUPPLY_PROP_ONLINE 1,
      Set_prop 1 POWER_SUPPLY_PROP_CONSTANT_CHARGE_VOLTAGE_MAX 4400000,
      Schedule_delayed_work PPS_WORK DC_ERROR_RETRY_MS]"
  by (simp add: gcpm_pps_wlc_dc_work_def gcpm_dc_work_enable_passthrough_def
      gcpm_pps_work_def gcpm_pps_work_src_def gcpm_pps_data_def pps_call_def pps_data_of_def
      pps_data_set_def gcpm_dc_start_def gcpm_dc_enable_def dcen_gpio_set_def
      gcpm_chg_set_online_def gcpm_chg_offline_def gcpm_chg_get_active_def chg_psy_at_def
      GPSY_SET_PROP_def psy_set_property_def pps_dc_reschedule_def log_call_def Let_def
      env_refuse_def env_ok_def gcpm_handover_def gcpm_tcpm_selected_def gcpm_demand_def
      gcpm0_def pps_data0_def psy_accepts_def)

end
